(* ===== verification/Prelude.thy ===== *)
theory Prelude
  imports Main "HOL-Library.Word"
begin

text \<open>
  Shared vocabulary of the development: the machine types of the Windows
  back end (\<open>u8\<close>, \<open>u16\<close>, \<open>u32\<close>, \<open>i32\<close> as words), the panics of the
  Rust code as values of \<open>panic\<close> and the result type \<open>panic + 'a\<close> with its
  bind \<open>pbind\<close>, and the Rust slice and iterator adaptors the code uses
  (\<open>split\<close>, \<open>rposition\<close>, \<open>windows\<close>, \<open>map_while\<close>, \<open>reduce\<close>,
  \<open>filter_map(..).next()\<close>), each with the lemmas the component theories share.
\<close>

type_synonym u8 = "8 word"
type_synonym u16 = "16 word"
type_synonym u32 = "32 word"
type_synonym i32 = "32 word" \<comment> \<open>read with \<open>sint\<close>; Rust's \<open>-1\<close> is \<open>max_word\<close>\<close>
type_synonym devinst = u32 \<comment> \<open>DEVINST: an opaque device-tree node handle\<close>

named_theorems model_simps \<open>unfolding rules of the model's small helpers\<close>

subsection \<open>Panics as values\<close>

text \<open>
  Every \<open>assert!\<close>, \<open>assert_eq!\<close> and \<open>unwrap\<close> of \<open>windows_native.rs\<close> on
  the modelled paths, and the length check of \<open>bytemuck::cast_slice\<close>.
\<close>

datatype panic =
    AssertInterfaceListSize  \<comment> \<open>line 51\<close>
  | AssertInterfaceList      \<comment> \<open>line 62\<close>
  | AssertPropertyLength     \<comment> \<open>lines 728 and 758\<close>
  | CastSliceSizeMismatch    \<comment> \<open>\<open>bytemuck::cast_slice\<close> of an odd number of bytes\<close>
  | UnwrapPathUtf16          \<comment> \<open>line 125, \<open>String::from_utf16(path).unwrap()\<close>\<close>
  | UnwrapPathNul            \<comment> \<open>line 125, \<open>CString::new(..).unwrap()\<close>\<close>
  | SliceIndexOutOfRange     \<comment> \<open>\<open>buf[..res]\<close> with \<open>res\<close> beyond the buffer, lines 558--598\<close>
  | ReadPastAllocation       \<comment> \<open>a C string read that finds no terminator in readable memory\<close>
  | ExpectHidApiNew          \<comment> \<open>\<open>src/examples/static_lifetime_bound.rs\<close>, line 24\<close>
  | ExpectDevice             \<comment> \<open>the same file, line 30\<close>
  | ExpectOpen               \<comment> \<open>the same file, line 35\<close>
  | UnwrapCheckError         \<comment> \<open>the same file, line 41\<close>

type_synonym 'a res = "panic + 'a"

definition pbind :: "'a res \<Rightarrow> ('a \<Rightarrow> 'b res) \<Rightarrow> 'b res" where
  "pbind m f = (case m of Inl e \<Rightarrow> Inl e | Inr a \<Rightarrow> f a)"

subsection \<open>Slices and iterators\<close>

text \<open>
  \<open>slice::split(pred)\<close>: the maximal runs between elements satisfying
  \<open>pred\<close>; an empty slice gives one empty run and a trailing separator gives a
  trailing empty run, as in Rust.
\<close>

fun split_slice :: "('a \<Rightarrow> bool) \<Rightarrow> 'a list \<Rightarrow> 'a list list" where
  "split_slice p [] = [[]]"
| "split_slice p (x # xs) =
     (if p x then [] # split_slice p xs
      else (case split_slice p xs of [] \<Rightarrow> [[x]] | s # ss \<Rightarrow> (x # s) # ss))"

text \<open>Joining runs with a separator, the inverse of \<open>split_slice\<close>.\<close>

fun join_sep :: "'a \<Rightarrow> 'a list list \<Rightarrow> 'a list" where
  "join_sep s [] = []"
| "join_sep s [r] = r"
| "join_sep s (r # rs) = r @ s # join_sep s rs"

text \<open>\<open>iter().rposition(pred)\<close>: the last index whose element satisfies \<open>pred\<close>.\<close>

definition rposition :: "('a \<Rightarrow> bool) \<Rightarrow> 'a list \<Rightarrow> nat option" where
  "rposition p xs = find (\<lambda>i. p (xs ! i)) (rev [0..<length xs])"

text \<open>\<open>filter_map(f).next()\<close>: the first \<open>Some\<close> of \<open>f\<close> along the list.\<close>

fun first_some :: "('a \<Rightarrow> 'b option) \<Rightarrow> 'a list \<Rightarrow> 'b option" where
  "first_some f [] = None"
| "first_some f (x # xs) = (case f x of None \<Rightarrow> first_some f xs | Some y \<Rightarrow> Some y)"

text \<open>\<open>Iterator::map_while\<close> and \<open>Iterator::reduce\<close>.\<close>

fun map_while :: "('a \<Rightarrow> 'b option) \<Rightarrow> 'a list \<Rightarrow> 'b list" where
  "map_while f [] = []"
| "map_while f (x # xs) = (case f x of None \<Rightarrow> [] | Some y \<Rightarrow> y # map_while f xs)"

definition reduce :: "('a \<Rightarrow> 'a \<Rightarrow> 'a) \<Rightarrow> 'a list \<Rightarrow> 'a option" where
  "reduce f xs = (case xs of [] \<Rightarrow> None | x # ys \<Rightarrow> Some (foldl f x ys))"

text \<open>\<open>slice::windows(n)\<close> for \<open>n > 0\<close>: every run of \<open>n\<close> consecutive elements.\<close>

definition windows :: "nat \<Rightarrow> 'a list \<Rightarrow> 'a list list" where
  "windows n xs = map (\<lambda>i. take n (drop i xs)) [0..<Suc (length xs) - n]"

text \<open>A buffer \<open>buf\<close> after a platform call wrote \<open>data\<close> at its start.\<close>

definition overlay :: "'a list \<Rightarrow> 'a list \<Rightarrow> 'a list" where
  "overlay data buf = take (length buf) data @ drop (length data) buf"

subsection \<open>ASCII case mapping on code points\<close>

definition ascii_upper :: "nat \<Rightarrow> nat" where
  "ascii_upper c = (if 97 \<le> c \<and> c \<le> 122 then c - 32 else c)"

definition ascii_lower :: "nat \<Rightarrow> nat" where
  "ascii_lower c = (if 65 \<le> c \<and> c \<le> 90 then c + 32 else c)"

subsection \<open>Lemmas on the helpers\<close>

lemma overlay_Nil [simp]: "overlay [] buf = buf"
  by (simp add: overlay_def)

lemma overlay_exact: "length data = length buf \<Longrightarrow> overlay data buf = data"
  by (simp add: overlay_def)

lemma length_overlay [simp]: "length (overlay data buf) = length buf"
  by (simp add: overlay_def)

lemma pbind_Inl [simp]: "pbind (Inl e) f = Inl e"
  and pbind_Inr [simp]: "pbind (Inr a) f = f a"
  by (simp_all add: pbind_def)

lemma pbind_eq_Inr: "pbind m f = Inr b \<longleftrightarrow> (\<exists>a. m = Inr a \<and> f a = Inr b)"
  by (cases m) simp_all

lemma pbind_eq_Inl: "pbind m f = Inl e \<longleftrightarrow> m = Inl e \<or> (\<exists>a. m = Inr a \<and> f a = Inl e)"
  by (cases m) simp_all

lemma split_slice_not_Nil [simp]: "split_slice p xs \<noteq> []"
  by (induction xs) (auto split: list.split)

lemma split_slice_Cons_nonsep:
  "\<not> p x \<Longrightarrow> split_slice p (x # xs) = (x # hd (split_slice p xs)) # tl (split_slice p xs)"
  by (cases "split_slice p xs") simp_all

lemma split_slice_no_sep: "s \<in> set (split_slice p xs) \<Longrightarrow> c \<in> set s \<Longrightarrow> \<not> p c"
proof (induction xs arbitrary: s)
  case Nil
  then show ?case by simp
next
  case (Cons x xs)
  show ?case
  proof (cases "p x")
    case True
    with Cons show ?thesis by auto
  next
    case False
    have hd_in: "hd (split_slice p xs) \<in> set (split_slice p xs)"
      by simp
    have tl_in: "set (tl (split_slice p xs)) \<subseteq> set (split_slice p xs)"
      by (simp add: list.set_sel(2) subsetI)
    from Cons.prems(1) have "s = x # hd (split_slice p xs) \<or> s \<in> set (tl (split_slice p xs))"
      using split_slice_Cons_nonsep [of p x xs] False by auto
    then show ?thesis
    proof
      assume "s = x # hd (split_slice p xs)"
      with Cons.prems(2) False hd_in Cons.IH show ?thesis by (metis set_ConsD)
    next
      assume "s \<in> set (tl (split_slice p xs))"
      with Cons.prems(2) tl_in Cons.IH show ?thesis by auto
    qed
  qed
qed

lemma hd_split_slice: "hd (split_slice p xs) = takeWhile (\<lambda>c. \<not> p c) xs"
  by (induction xs) (auto split: list.split)

lemma split_slice_join: "join_sep s (split_slice (\<lambda>c. c = s) xs) = xs"
proof (induction xs)
  case Nil
  then show ?case by simp
next
  case (Cons x xs)
  obtain r rs where r: "split_slice (\<lambda>c. c = s) xs = r # rs"
    by (cases "split_slice (\<lambda>c. c = s) xs") auto
  with Cons show ?case by (cases rs) auto
qed

lemma split_slice_snoc_sep: "p x \<Longrightarrow> split_slice p (xs @ [x]) = split_slice p xs @ [[]]"
proof (induction xs)
  case Nil
  then show ?case by simp
next
  case (Cons y ys)
  then show ?case
    by (cases "split_slice p ys") (auto split: list.split)
qed

lemma split_slice_append_sep:
  "p x \<Longrightarrow> split_slice p (xs @ x # ys) = split_slice p xs @ split_slice p ys"
proof (induction xs)
  case Nil
  then show ?case by simp
next
  case (Cons y ys')
  then show ?case
    by (cases "split_slice p ys'") (auto split: list.split)
qed

lemma split_slice_no_sep_id: "\<forall>c \<in> set xs. \<not> p c \<Longrightarrow> split_slice p xs = [xs]"
  by (induction xs) auto

lemma rposition_Nil [simp]: "rposition p [] = None"
  by (simp add: rposition_def)

lemma rposition_None_iff: "rposition p xs = None \<longleftrightarrow> (\<forall>c \<in> set xs. \<not> p c)"
  by (fastforce simp: rposition_def find_None_iff in_set_conv_nth)

lemma rposition_Some_less: "rposition p xs = Some i \<Longrightarrow> i < length xs \<and> p (xs ! i)"
  by (auto simp: rposition_def find_Some_iff rev_nth)

lemma first_some_None_iff: "first_some f xs = None \<longleftrightarrow> (\<forall>x \<in> set xs. f x = None)"
  by (induction xs) (auto split: option.split)

lemma first_some_append:
  "first_some f (xs @ ys) = (case first_some f xs of None \<Rightarrow> first_some f ys | Some y \<Rightarrow> Some y)"
  by (induction xs) (auto split: option.split)

lemma first_some_first_match:
  "(\<forall>u \<in> set ys. f u = None) \<Longrightarrow> f x = Some y \<Longrightarrow> first_some f (ys @ x # zs) = Some y"
  by (simp add: first_some_append first_some_None_iff [THEN iffD2])

lemma reduce_Nil [simp]: "reduce f [] = None"
  and reduce_Cons [simp]: "reduce f (x # xs) = Some (foldl f x xs)"
  by (simp_all add: reduce_def)

lemma length_windows: "length (windows n xs) = Suc (length xs) - n"
  by (simp add: windows_def)

lemma windows_nth: "i < Suc (length xs) - n \<Longrightarrow> windows n xs ! i = take n (drop i xs)"
  by (simp add: windows_def)

lemma find_upt_Some_iff:
  "find P [a..<b] = Some i \<longleftrightarrow> a \<le> i \<and> i < b \<and> P i \<and> (\<forall>j. a \<le> j \<and> j < i \<longrightarrow> \<not> P j)"
proof
  assume "find P [a..<b] = Some i"
  then obtain k where k: "k < b - a" "i = a + k" "P i" "\<forall>j<k. \<not> P (a + j)"
    by (auto simp: find_Some_iff)
  have "\<not> P j" if "a \<le> j" "j < i" for j
    using k(4) [rule_format, of "j - a"] that k(2) by simp
  with k show "a \<le> i \<and> i < b \<and> P i \<and> (\<forall>j. a \<le> j \<and> j < i \<longrightarrow> \<not> P j)"
    by auto
next
  assume r: "a \<le> i \<and> i < b \<and> P i \<and> (\<forall>j. a \<le> j \<and> j < i \<longrightarrow> \<not> P j)"
  show "find P [a..<b] = Some i"
    unfolding find_Some_iff
    by (rule exI [of _ "i - a"]) (use r in auto)
qed

lemma find_enumerate:
  "map_option fst (find (\<lambda>(i, x). P i x) (enumerate k xs)) = find (\<lambda>i. P i (xs ! (i - k))) [k..<k + length xs]"
proof (induction xs arbitrary: k)
  case Nil
  then show ?case by simp
next
  case (Cons x xs)
  have "[k..<k + length (x # xs)] = k # [Suc k..<Suc k + length xs]"
    by (simp add: upt_rec)
  moreover have "find (\<lambda>i. P i ((x # xs) ! (i - k))) [Suc k..<Suc k + length xs]
      = find (\<lambda>i. P i (xs ! (i - Suc k))) [Suc k..<Suc k + length xs]"
    by (rule find_cong) (auto simp: nth_Cons')
  ultimately show ?case
    using Cons.IH [of "Suc k"] by simp
qed

lemma list_all_zip_eq:
  "length xs = length ys \<Longrightarrow> list_all (\<lambda>(l, r). l = r) (zip xs ys) \<longleftrightarrow> xs = ys"
  by (induction xs ys rule: list_induct2) auto

lemma ascii_upper_le: "ascii_upper c \<le> c"
  by (simp add: ascii_upper_def)

lemma ascii_upper_idem [simp]: "ascii_upper (ascii_upper c) = ascii_upper c"
  by (auto simp: ascii_upper_def)

lemma ascii_lower_upper [simp]: "ascii_lower (ascii_upper c) = ascii_lower c"
  by (auto simp: ascii_upper_def ascii_lower_def)

lemma foldl_frame: "(\<And>d x. g (f d x) = g d) \<Longrightarrow> g (foldl f d xs) = g d"
  by (induction xs arbitrary: d) simp_all

lemma first_some_SomeD: "first_some f xs = Some y \<Longrightarrow> \<exists>x \<in> set xs. f x = Some y"
  by (induction xs) (auto split: option.splits)

text \<open>\<open>rsplit(pred).next()\<close> is the last run of \<open>split\<close>: the trailing non-separators.\<close>

lemma last_split_slice:
  "last (split_slice p xs) = rev (takeWhile (\<lambda>c. \<not> p c) (rev xs))"
proof (cases "\<exists>c \<in> set xs. p c")
  case False
  then show ?thesis
    by (simp add: split_slice_no_sep_id takeWhile_eq_all_conv [THEN iffD2])
next
  case True
  then obtain ys x zs where xs: "xs = ys @ x # zs" and px: "p x" and zs: "\<forall>z \<in> set zs. \<not> p z"
    using split_list_last_prop [OF True] by blast
  have sp: "split_slice p xs = split_slice p ys @ [zs]"
    using px zs by (simp add: xs split_slice_append_sep split_slice_no_sep_id)
  have tw: "takeWhile (\<lambda>c. \<not> p c) (rev zs @ x # rev ys) =
      rev zs @ takeWhile (\<lambda>c. \<not> p c) (x # rev ys)"
    by (rule takeWhile_append2) (use zs in auto)
  have "takeWhile (\<lambda>c. \<not> p c) (rev xs) = rev zs"
    using px tw by (simp add: xs)
  with sp show ?thesis by simp
qed

end
