(* ===== verification/TokenParser.thy ===== *)
theory TokenParser
  imports Prelude
begin

text \<open>
  The identifier token parser and the UTF-16 helpers of
  \<open>src/src/windows_native.rs\<close> (lines 657--700): \<open>to_upper\<close>,
  \<open>find_first_upper_case\<close>, \<open>starts_with_ignore_case\<close>,
  \<open>extract_int_token_value\<close> and \<open>u16str_to_wstring\<close>, together with the
  parts of Rust's standard library they are built on (\<open>char::decode_utf16\<close>,
  \<open>char::to_digit\<close>, \<open>String::from_utf16\<close>, \<open>str::encode_utf16\<close>).
  A Rust \<open>char\<close> is its scalar value (a \<open>nat\<close>), a \<open>String\<close> the list of
  its scalar values, a \<open>&[u16]\<close> a list of \<open>u16\<close> words.  A \<open>&str\<close> literal
  of the source (\<open>"USB"\<close>, \<open>"REV_"\<close>, ...) is an Isabelle \<open>string\<close>; each of
  its characters is one code point below 256 and hence one UTF-16 unit.
\<close>

subsection \<open>UTF-16 decoding and encoding (Rust standard library)\<close>

definition is_surrogate :: "u16 \<Rightarrow> bool" where
  "is_surrogate u \<longleftrightarrow> 0xD800 \<le> unat u \<and> unat u \<le> 0xDFFF"

definition is_high_surrogate :: "u16 \<Rightarrow> bool" where
  "is_high_surrogate u \<longleftrightarrow> 0xD800 \<le> unat u \<and> unat u \<le> 0xDBFF"

definition is_low_surrogate :: "u16 \<Rightarrow> bool" where
  "is_low_surrogate u \<longleftrightarrow> 0xDC00 \<le> unat u \<and> unat u \<le> 0xDFFF"

definition combine_surrogates :: "u16 \<Rightarrow> u16 \<Rightarrow> nat" where
  "combine_surrogates u v = 0x10000 + (unat u - 0xD800) * 0x400 + (unat v - 0xDC00)"

text \<open>
  \<open>char::decode_utf16\<close>: \<open>Inr c\<close> is \<open>Ok(c)\<close>, \<open>Inl u\<close> is the
  \<open>DecodeUtf16Error\<close> of the unpaired surrogate \<open>u\<close>.  A high surrogate not
  followed by a low one is an error and the following unit is decoded afresh.
\<close>

fun decode_utf16 :: "u16 list \<Rightarrow> (u16 + nat) list" where
  "decode_utf16 [] = []"
| "decode_utf16 [u] = (if is_surrogate u then [Inl u] else [Inr (unat u)])"
| "decode_utf16 (u # v # vs) =
     (if \<not> is_surrogate u then Inr (unat u) # decode_utf16 (v # vs)
      else if is_high_surrogate u \<and> is_low_surrogate v
        then Inr (combine_surrogates u v) # decode_utf16 vs
      else Inl u # decode_utf16 (v # vs))"

text \<open>\<open>char::encode_utf16\<close> of a scalar value, and of a string.\<close>

definition encode_char_utf16 :: "nat \<Rightarrow> u16 list" where
  "encode_char_utf16 c =
     (if c < 0x10000 then [word_of_nat c]
      else [word_of_nat (0xD800 + (c - 0x10000) div 0x400),
            word_of_nat (0xDC00 + (c - 0x10000) mod 0x400)])"

definition encode_utf16 :: "nat list \<Rightarrow> u16 list" where
  "encode_utf16 cs = concat (map encode_char_utf16 cs)"

text \<open>
  The UTF-8 bytes of a \<open>String\<close> (\<open>String::into_bytes\<close>, which \<open>CString::new\<close>
  takes), one scalar value at a time.
\<close>

definition encode_char_utf8 :: "nat \<Rightarrow> u8 list" where
  "encode_char_utf8 c =
     (if c < 0x80 then [word_of_nat c]
      else if c < 0x800 then [word_of_nat (0xC0 + c div 64), word_of_nat (0x80 + c mod 64)]
      else if c < 0x10000 then
        [word_of_nat (0xE0 + c div 4096), word_of_nat (0x80 + c div 64 mod 64), word_of_nat (0x80 + c mod 64)]
      else [word_of_nat (0xF0 + c div 262144), word_of_nat (0x80 + c div 4096 mod 64),
            word_of_nat (0x80 + c div 64 mod 64), word_of_nat (0x80 + c mod 64)])"

definition encode_utf8 :: "nat list \<Rightarrow> u8 list" where
  "encode_utf8 cs = concat (map encode_char_utf8 cs)"

text \<open>\<open>String::from_utf16\<close>: \<open>Err\<close> (here \<open>None\<close>) at the first unpaired surrogate.\<close>

definition from_utf16 :: "u16 list \<Rightarrow> nat list option" where
  "from_utf16 us = those (map (\<lambda>r. case r of Inl _ \<Rightarrow> None | Inr c \<Rightarrow> Some c) (decode_utf16 us))"

text \<open>\<open>char::REPLACEMENT_CHARACTER\<close>.\<close>

definition replacement_character :: nat where
  "replacement_character = 0xFFFD"

text \<open>\<open>char::to_digit(16)\<close>: the value of an ASCII hexadecimal digit, either case.\<close>

definition to_digit16 :: "nat \<Rightarrow> u32 option" where
  "to_digit16 c =
     (if 48 \<le> c \<and> c \<le> 57 then Some (word_of_nat (c - 48))
      else if 97 \<le> c \<and> c \<le> 102 then Some (word_of_nat (c - 87))
      else if 65 \<le> c \<and> c \<le> 70 then Some (word_of_nat (c - 55))
      else None)"

text \<open>A \<open>&str\<close> literal as \<open>pattern.encode_utf16()\<close> and as \<open>pattern.chars()\<close>.\<close>

definition str_utf16 :: "string \<Rightarrow> u16 list" where
  "str_utf16 s = map (\<lambda>c. word_of_nat (of_char c)) s"

definition str_chars :: "string \<Rightarrow> nat list" where
  "str_chars s = map of_char s"

subsection \<open>The parser of \<open>windows_native.rs\<close>\<close>

text \<open>
  \<open>to_upper\<close> (lines 657--663): every unit that fits a \<open>u8\<close> is replaced by
  its ASCII upper case; other units are kept.
\<close>

definition to_upper_unit :: "u16 \<Rightarrow> u16" where
  "to_upper_unit c = (if unat c < 256 then word_of_nat (ascii_upper (unat c)) else c)"

definition to_upper :: "u16 list \<Rightarrow> u16 list" where
  "to_upper s = map to_upper_unit s"

text \<open>
  \<open>find_first_upper_case\<close> (lines 665--676): the index of the first window of
  the pattern's length that equals the pattern unit by unit.  Despite its name
  the comparison is exact; the callers upper-case the haystack first.
\<close>

definition find_first_upper_case :: "u16 list \<Rightarrow> string \<Rightarrow> nat option" where
  "find_first_upper_case u16str pattern =
     map_option fst
       (find (\<lambda>(_, ss). list_all (\<lambda>(l, r). l = r) (zip ss (str_utf16 pattern)))
          (enumerate 0 (windows (length (str_utf16 pattern)) u16str)))"

text \<open>
  \<open>starts_with_ignore_case\<close> (lines 678--685): decoding errors become the
  replacement character, and the decoded string is compared with the pattern
  pairwise up to the shorter of the two (\<open>zip\<close>), ignoring ASCII case.
\<close>

definition eq_ignore_ascii_case :: "nat \<Rightarrow> nat \<Rightarrow> bool" where
  "eq_ignore_ascii_case l r \<longleftrightarrow> ascii_lower l = ascii_lower r"

definition starts_with_ignore_case :: "u16 list \<Rightarrow> string \<Rightarrow> bool" where
  "starts_with_ignore_case utf16str pattern =
     list_all (\<lambda>(l, r). eq_ignore_ascii_case l r)
       (zip (map (\<lambda>r. case r of Inl _ \<Rightarrow> replacement_character | Inr c \<Rightarrow> c)
               (decode_utf16 utf16str))
            (str_chars pattern))"

text \<open>
  \<open>extract_int_token_value\<close> (lines 687--694): find the token, then fold the
  hexadecimal digits that follow it, most significant first, in \<open>u32\<close>.  The
  fold \<open>l * 16 + r\<close> wraps around as a release build does (a debug build
  panics on the overflow instead).
\<close>

definition hex_digit_of :: "u16 + nat \<Rightarrow> u32 option" where
  "hex_digit_of r = (case r of Inl _ \<Rightarrow> None | Inr c \<Rightarrow> to_digit16 c)"

definition extract_int_token_value :: "u16 list \<Rightarrow> string \<Rightarrow> u32 option" where
  "extract_int_token_value u16str token =
     (case find_first_upper_case u16str token of
        None \<Rightarrow> None
      | Some i \<Rightarrow>
          (let start = i + length (str_utf16 token)
           in reduce (\<lambda>l r. l * 16 + r)
                (map_while hex_digit_of (decode_utf16 (drop start u16str)))))"

text \<open>
  \<open>WcharString\<close> of the crate (defined outside \<open>src/\<close>): a decoded string,
  the raw units of a string that failed to decode, or nothing.
\<close>

datatype wchar_string = WString "nat list" | WRaw "u16 list" | WNone

text \<open>\<open>u16str_to_wstring\<close> (lines 696--700).\<close>

definition u16str_to_wstring :: "u16 list \<Rightarrow> wchar_string" where
  "u16str_to_wstring u16str =
     (case from_utf16 u16str of Some s \<Rightarrow> WString s | None \<Rightarrow> WRaw u16str)"

subsection \<open>Reference specifications\<close>

text \<open>
  What the parser is meant to compute, written directly: the value of an ASCII
  hexadecimal digit, the maximal run of digits at the start of a slice, its
  value as a natural number, the code units a \<open>wchar_string\<close> stands for,
  the Unicode scalar values, and the lossy decoding \<open>starts_with_ignore_case\<close>
  compares.
\<close>

definition hex_value :: "nat \<Rightarrow> nat option" where
  "hex_value c =
     (if 48 \<le> c \<and> c \<le> 57 then Some (c - 48)
      else if 97 \<le> c \<and> c \<le> 102 then Some (c - 87)
      else if 65 \<le> c \<and> c \<le> 70 then Some (c - 55) else None)"

definition hex_run :: "u16 list \<Rightarrow> nat list" where
  "hex_run us = map_while (\<lambda>u. hex_value (unat u)) us"

definition hex_nat :: "nat list \<Rightarrow> nat" where
  "hex_nat ds = foldl (\<lambda>a d. a * 16 + d) 0 ds"

definition wstring_units :: "wchar_string \<Rightarrow> u16 list" where
  "wstring_units w = (case w of WString cs \<Rightarrow> encode_utf16 cs | WRaw us \<Rightarrow> us | WNone \<Rightarrow> [])"

definition is_scalar :: "nat \<Rightarrow> bool" where
  "is_scalar c \<longleftrightarrow> c \<le> 0x10FFFF \<and> \<not> (0xD800 \<le> c \<and> c \<le> 0xDFFF)"

definition decode_lossy :: "u16 list \<Rightarrow> nat list" where
  "decode_lossy s = map (\<lambda>r. case r of Inl _ \<Rightarrow> replacement_character | Inr c \<Rightarrow> c) (decode_utf16 s)"

subsection \<open>Search: \<open>find_first_upper_case\<close>\<close>

lemma find_first_upper_case_eq:
  "find_first_upper_case s pat =
     find (\<lambda>i. take (length (str_utf16 pat)) (drop i s) = str_utf16 pat)
       [0..<Suc (length s) - length (str_utf16 pat)]"
proof -
  let ?p = "str_utf16 pat" and ?n = "length (str_utf16 pat)"
  have "find_first_upper_case s pat =
      find (\<lambda>i. list_all (\<lambda>(l, r). l = r) (zip (windows ?n s ! i) ?p)) [0..<length (windows ?n s)]"
    unfolding find_first_upper_case_def
    using find_enumerate [of "\<lambda>_ ss. list_all (\<lambda>(l, r). l = r) (zip ss ?p)" 0 "windows ?n s"]
    by (simp add: case_prod_unfold)
  also have "\<dots> = find (\<lambda>i. take ?n (drop i s) = ?p) [0..<Suc (length s) - ?n]"
    by (rule find_cong) (auto simp: length_windows windows_nth list_all_zip_eq)
  finally show ?thesis .
qed

text \<open>
  C20: find_first_upper_case returns i exactly when the pattern occurs at i and at no earlier position.
\<close>

theorem find_first_upper_case_Some_iff:
  "find_first_upper_case s pat = Some i \<longleftrightarrow>
     i + length (str_utf16 pat) \<le> length s \<and>
     take (length (str_utf16 pat)) (drop i s) = str_utf16 pat \<and>
     (\<forall>j<i. take (length (str_utf16 pat)) (drop j s) \<noteq> str_utf16 pat)"
  unfolding find_first_upper_case_eq find_upt_Some_iff by auto

subsection \<open>Hexadecimal token values\<close>

lemma to_digit16_hex_value: "to_digit16 c = map_option word_of_nat (hex_value c)"
  by (simp add: to_digit16_def hex_value_def)

lemma hex_value_small: "hex_value c = Some d \<Longrightarrow> c < 128 \<and> d < 16"
  by (auto simp: hex_value_def split: if_splits)

lemma hex_value_big: "128 \<le> c \<Longrightarrow> hex_value c = None"
  by (simp add: hex_value_def)

lemma hex_value_surrogate: "is_surrogate u \<Longrightarrow> hex_value (unat u) = None"
  by (simp add: is_surrogate_def hex_value_big)

lemma combine_surrogates_ge: "0x10000 \<le> combine_surrogates u v"
  by (simp add: combine_surrogates_def)

lemma map_while_hex_digit_of:
  "map_while hex_digit_of (decode_utf16 us) = map word_of_nat (hex_run us)"
proof (induction us rule: decode_utf16.induct)
  case 1
  then show ?case by (simp add: hex_run_def)
next
  case (2 u)
  then show ?case
    by (simp add: hex_run_def hex_digit_of_def to_digit16_hex_value hex_value_surrogate
        split: option.split)
next
  case (3 u v vs)
  have big: "hex_value (combine_surrogates u v) = None"
    using combine_surrogates_ge [of u v] by (simp add: hex_value_big)
  show ?case
  proof (cases "is_surrogate u")
    case False
    with "3.IH"(1) show ?thesis
      by (simp add: hex_run_def hex_digit_of_def to_digit16_hex_value split: option.split)
  next
    case True
    then show ?thesis
      by (simp add: hex_run_def hex_digit_of_def hex_value_surrogate to_digit16_hex_value big)
  qed
qed

lemma foldl_hex_word:
  "foldl (\<lambda>l r. l * 16 + r) (word_of_nat a :: u32) (map word_of_nat ds) =
     word_of_nat (foldl (\<lambda>a d. a * 16 + d) a ds)"
proof (induction ds arbitrary: a)
  case Nil
  then show ?case by simp
next
  case (Cons d ds)
  have e: "word_of_nat a * 16 + word_of_nat d = (word_of_nat (a * 16 + d) :: u32)"
    by simp
  show ?case
    using Cons.IH [of "a * 16 + d"] by (simp only: list.map foldl_Cons e)
qed

text \<open>
  C18: extract_int_token_value equals its reference: find the token, take the maximal run of hexadecimal digits after it, and return the value of that run modulo 2^32, or nothing when the token or the digits are missing.
\<close>

theorem extract_int_token_value_spec:
  "extract_int_token_value s tok =
     (case find_first_upper_case s tok of
        None \<Rightarrow> None
      | Some i \<Rightarrow>
          (case hex_run (drop (i + length (str_utf16 tok)) s) of
             [] \<Rightarrow> None
           | ds \<Rightarrow> Some (word_of_nat (hex_nat ds))))"
proof (cases "find_first_upper_case s tok")
  case None
  then show ?thesis by (simp add: extract_int_token_value_def)
next
  case (Some i)
  show ?thesis
  proof (cases "hex_run (drop (i + length (str_utf16 tok)) s)")
    case Nil
    with Some show ?thesis
      by (simp add: extract_int_token_value_def map_while_hex_digit_of)
  next
    case (Cons d ds)
    have "foldl (\<lambda>l r. l * 16 + r) (word_of_nat d :: u32) (map word_of_nat ds) =
        word_of_nat (hex_nat (d # ds))"
      by (simp add: foldl_hex_word hex_nat_def)
    with Some Cons show ?thesis
      by (simp add: extract_int_token_value_def map_while_hex_digit_of)
  qed
qed

lemma foldl_hex_bound:
  "\<forall>d \<in> set ds. d < 16 \<Longrightarrow> a < (16::nat) ^ k \<Longrightarrow>
     foldl (\<lambda>a d. a * 16 + d) a ds < 16 ^ (k + length ds)"
proof (induction ds arbitrary: a k)
  case Nil
  then show ?case by simp
next
  case (Cons d ds)
  have "a * 16 + d < (a + 1) * 16"
    using Cons.prems(1) by simp
  also have "\<dots> \<le> 16 ^ k * 16"
    using Cons.prems(2) by (intro mult_le_mono1) simp
  finally have "a * 16 + d < 16 ^ Suc k"
    by (simp add: mult.commute)
  with Cons.prems(1) Cons.IH [of "a * 16 + d" "Suc k"] show ?case by simp
qed

lemma hex_run_digits: "d \<in> set (hex_run us) \<Longrightarrow> d < 16"
  by (induction us) (auto simp: hex_run_def split: option.splits dest: hex_value_small [OF sym])

text \<open>
  C19: For a token followed by one to eight hexadecimal digits, the value read is exactly the value of the digits: the u32 fold does not wrap.
\<close>

theorem extract_int_token_value_exact:
  assumes "find_first_upper_case s tok = Some i"
    and "hex_run (drop (i + length (str_utf16 tok)) s) = ds"
    and "ds \<noteq> []" and "length ds \<le> 8"
  shows "map_option unat (extract_int_token_value s tok) = Some (hex_nat ds)"
proof -
  have "hex_nat ds < 16 ^ (0 + length ds)"
    unfolding hex_nat_def using assms(2) hex_run_digits by (intro foldl_hex_bound) auto
  also have "(16::nat) ^ (0 + length ds) \<le> 16 ^ 8"
    using assms(4) by (intro power_increasing) auto
  finally have "hex_nat ds < 2 ^ LENGTH(32)" by simp
  then have "unat (word_of_nat (hex_nat ds) :: u32) = hex_nat ds"
    by (simp add: unat_of_nat)
  moreover obtain d ds' where ds: "ds = d # ds'"
    using assms(3) by (cases ds) auto
  moreover have "foldl (\<lambda>l r. l * 16 + r) (word_of_nat d :: u32) (map word_of_nat ds') =
      word_of_nat (hex_nat (d # ds'))"
    by (simp add: foldl_hex_word hex_nat_def)
  ultimately show ?thesis
    using assms(1,2) by (simp add: extract_int_token_value_def map_while_hex_digit_of)
qed

subsection \<open>UTF-16 round trips\<close>

lemma unat_u16_less: "unat (u :: u16) < 0x10000"
  using unsigned_less [of u, where 'a = nat] by simp

lemma decode_utf16_Cons_plain:
  "\<not> is_surrogate u \<Longrightarrow> decode_utf16 (u # us) = Inr (unat u) # decode_utf16 us"
  by (cases us) simp_all

lemma high_is_surrogate: "is_high_surrogate u \<Longrightarrow> is_surrogate u"
  by (simp add: is_high_surrogate_def is_surrogate_def)

lemma decode_utf16_pair:
  "is_high_surrogate u \<Longrightarrow> is_low_surrogate v \<Longrightarrow>
     decode_utf16 (u # v # vs) = Inr (combine_surrogates u v) # decode_utf16 vs"
  by (simp add: high_is_surrogate)

lemma encode_char_combine:
  assumes "is_high_surrogate u" and "is_low_surrogate v"
  shows "encode_char_utf16 (combine_surrogates u v) = [u, v]"
proof -
  define a where "a = unat u - 0xD800"
  define b where "b = unat v - 0xDC00"
  have a: "a < 0x400" "unat u = 0xD800 + a"
    using assms(1) by (auto simp: a_def is_high_surrogate_def)
  have b: "b < 0x400" "unat v = 0xDC00 + b"
    using assms(2) unat_u16_less [of v] by (auto simp: b_def is_low_surrogate_def)
  have c: "combine_surrogates u v - 0x10000 = a * 0x400 + b"
    by (simp add: combine_surrogates_def a_def b_def)
  have dv: "(a * 0x400 + b) div 0x400 = a" and md: "(a * 0x400 + b) mod 0x400 = b"
    using b(1) by simp_all
  have "word_of_nat (0xD800 + a) = (word_of_nat (unat u) :: u16)"
    and "word_of_nat (0xDC00 + b) = (word_of_nat (unat v) :: u16)"
    using a(2) b(2) by simp_all
  then have "word_of_nat (0xD800 + a) = u" and "word_of_nat (0xDC00 + b) = v"
    by simp_all
  with c dv md show ?thesis
    by (simp add: encode_char_utf16_def combine_surrogates_def)
qed

lemma those_Cons_Some: "those (Some x # xs) = map_option ((#) x) (those xs)"
  by (simp split: option.split)

lemma from_utf16_encode:
  "from_utf16 us = Some cs \<Longrightarrow> encode_utf16 cs = us"
proof (induction us arbitrary: cs rule: decode_utf16.induct)
  case 1
  then show ?case by (simp add: from_utf16_def encode_utf16_def)
next
  case (2 u)
  then show ?case
    using unat_u16_less [of u]
    by (auto simp: from_utf16_def encode_utf16_def encode_char_utf16_def split: if_splits)
next
  case (3 u v vs)
  show ?case
  proof (cases "is_surrogate u")
    case False
    with "3.prems" obtain cs' where cs: "cs = unat u # cs'" and r: "from_utf16 (v # vs) = Some cs'"
      by (auto simp: from_utf16_def split: option.splits)
    from "3.IH"(1) [OF False r] unat_u16_less [of u] show ?thesis
      by (simp add: cs encode_utf16_def encode_char_utf16_def)
  next
    case True
    show ?thesis
    proof (cases "is_high_surrogate u \<and> is_low_surrogate v")
      case hl: True
      with "3.prems" obtain cs' where cs: "cs = combine_surrogates u v # cs'"
          and r: "from_utf16 vs = Some cs'"
        by (auto simp: from_utf16_def high_is_surrogate split: option.splits)
      have "encode_utf16 cs' = vs"
        using "3.IH"(2) True hl r by blast
      with hl show ?thesis
        by (simp add: cs encode_utf16_def encode_char_combine)
    next
      case False
      with True "3.prems" show ?thesis by (simp add: from_utf16_def)
    qed
  qed
qed

text \<open>
  C22: u16str_to_wstring loses no data: the units its result stands for are the units it was given, whether it decodes them or keeps them raw.
\<close>

theorem u16str_to_wstring_lossless: "wstring_units (u16str_to_wstring us) = us"
  by (simp add: u16str_to_wstring_def wstring_units_def from_utf16_encode split: option.split)

lemma decode_encode_char:
  assumes "is_scalar c"
  shows "decode_utf16 (encode_char_utf16 c @ us) = Inr c # decode_utf16 us"
proof (cases "c < 0x10000")
  case True
  then have "unat (word_of_nat c :: u16) = c"
    by (simp add: unat_of_nat)
  with True assms show ?thesis
    by (simp add: encode_char_utf16_def decode_utf16_Cons_plain is_surrogate_def is_scalar_def)
next
  case False
  define a where "a = (c - 0x10000) div 0x400"
  define b where "b = (c - 0x10000) mod 0x400"
  have "c - 0x10000 < 0x400 * 0x400"
    using assms unfolding is_scalar_def by arith
  then have "a < 0x400"
    unfolding a_def by (rule less_mult_imp_div_less)
  then have ua: "unat (word_of_nat (0xD800 + a) :: u16) = 0xD800 + a"
    by (simp only: unat_of_nat) simp
  have "b < 0x400" by (simp add: b_def)
  then have ub: "unat (word_of_nat (0xDC00 + b) :: u16) = 0xDC00 + b"
    by (simp only: unat_of_nat) simp
  define u where "u = (word_of_nat (0xD800 + a) :: u16)"
  define v where "v = (word_of_nat (0xDC00 + b) :: u16)"
  have hi: "is_high_surrogate u"
    using ua \<open>a < 0x400\<close> by (simp add: is_high_surrogate_def u_def)
  have lo: "is_low_surrogate v"
    using ub \<open>b < 0x400\<close> by (simp add: is_low_surrogate_def v_def)
  have comb: "combine_surrogates u v = c"
    using ua ub False by (simp add: combine_surrogates_def a_def b_def u_def v_def)
  have enc: "encode_char_utf16 c = [u, v]"
    using False by (simp only: encode_char_utf16_def u_def v_def a_def b_def if_False)
  show ?thesis
    by (simp only: enc append.simps decode_utf16_pair [OF hi lo] comb)
qed

theorem from_utf16_encode_utf16:
  "list_all is_scalar cs \<Longrightarrow> from_utf16 (encode_utf16 cs) = Some cs"
proof (induction cs)
  case Nil
  then show ?case by (simp add: from_utf16_def encode_utf16_def)
next
  case (Cons c cs)
  then have "decode_utf16 (encode_utf16 (c # cs)) = Inr c # decode_utf16 (encode_utf16 cs)"
    by (simp add: encode_utf16_def decode_encode_char)
  with Cons show ?case
    by (simp add: from_utf16_def split: option.split)
qed

subsection \<open>Case-insensitive prefix test and upper-casing\<close>

lemma length_to_upper [simp]: "length (to_upper s) = length s"
  by (simp add: to_upper_def)

lemma to_upper_unit_idem [simp]: "to_upper_unit (to_upper_unit c) = to_upper_unit c"
proof (cases "unat c < 256")
  case True
  have "ascii_upper (unat c) \<le> unat c" by (rule ascii_upper_le)
  with True have "unat (word_of_nat (ascii_upper (unat c)) :: u16) = ascii_upper (unat c)"
    by (simp add: unat_of_nat)
  with True show ?thesis
    using ascii_upper_le [of "unat c"] by (simp add: to_upper_unit_def)
next
  case False
  then show ?thesis by (simp add: to_upper_unit_def)
qed

lemma to_upper_idem [simp]: "to_upper (to_upper s) = to_upper s"
  by (simp add: to_upper_def)

lemma starts_with_ignore_case_Nil: "starts_with_ignore_case [] pat"
  by (simp add: starts_with_ignore_case_def)

end
