(* ===== verification/DeviceInfo.thy ===== *)
theory DeviceInfo
  imports TokenParser
begin

text \<open>
  The crate's output record \<open>DeviceInfo\<close> and its \<open>BusType\<close>, which live in the
  crate's \<open>lib.rs\<close> (not under \<open>src/\<close>) and are modelled from the spec and from
  their use in \<open>windows_native.rs\<close>: the fields the Windows back end fills in
  (lines 124--136), and the accessors \<open>manufacturer_string()\<close>,
  \<open>serial_number()\<close> and \<open>product_string()\<close>, which give \<open>Some\<close> only for a
  decoded \<open>WcharString::String\<close>.
\<close>

datatype bus_type = BusUnknown | BusUsb | BusBluetooth | BusI2c | BusSpi

record device_info =
  path :: "u8 list"
  vendor_id :: u16
  product_id :: u16
  serial_number :: wchar_string
  release_number :: u16
  manufacturer_string :: wchar_string
  product_string :: wchar_string
  usage_page :: u16
  usage :: u16
  interface_number :: i32
  bus_type :: bus_type

text \<open>\<open>WcharString\<close> as \<open>Option<&str>\<close>.\<close>

definition wstr_opt :: "wchar_string \<Rightarrow> nat list option" where
  "wstr_opt w = (case w of WString s \<Rightarrow> Some s | _ \<Rightarrow> None)"

text \<open>The guard \<open>x().map_or(true, str::is_empty)\<close> of lines 218, 225, 262, 271, 280.\<close>

definition missing :: "wchar_string \<Rightarrow> bool" where
  "missing w = (case wstr_opt w of None \<Rightarrow> True | Some s \<Rightarrow> s = [])"

text \<open>
  The fields that identify the device: its path, vendor and product ids and its
  HID usage.  The identity resolvers only write the strings, the release number,
  the interface number and the bus type.
\<close>

definition ident_fields :: "device_info \<Rightarrow> u8 list \<times> u16 \<times> u16 \<times> u16 \<times> u16" where
  "ident_fields d = (path d, vendor_id d, product_id d, usage_page d, usage d)"

lemma missing_simps [simp]:
  "missing (WString s) \<longleftrightarrow> s = []"
  "missing (WRaw us)"
  "missing WNone"
  by (simp_all add: missing_def wstr_opt_def)

lemma ident_fields_upd [simp]:
  "ident_fields (d\<lparr>serial_number := s\<rparr>) = ident_fields d"
  "ident_fields (d\<lparr>manufacturer_string := s\<rparr>) = ident_fields d"
  "ident_fields (d\<lparr>product_string := s\<rparr>) = ident_fields d"
  "ident_fields (d\<lparr>release_number := r\<rparr>) = ident_fields d"
  "ident_fields (d\<lparr>interface_number := i\<rparr>) = ident_fields d"
  "ident_fields (d\<lparr>bus_type := b\<rparr>) = ident_fields d"
  by (simp_all add: ident_fields_def)

end
