(* ===== verification/BusClassifier.thy ===== *)
theory BusClassifier
  imports DeviceInfo
begin

text \<open>
  The bus classifier of \<open>get_internal_info\<close> (lines 154--175 of
  \<open>src/src/windows_native.rs\<close>) and the internal bus type with its conversion
  to the crate's \<open>BusType\<close> (lines 633--654).  The compatible-id list is split
  at every NUL, each entry is tested against the prefixes in the order of the
  \<open>match\<close>, and the first entry that matches decides.
\<close>

datatype InternalBuyType = Unknown | Usb | Bluetooth | BluetoothLE | I2c | Spi

text \<open>\<open>impl From<InternalBuyType> for BusType\<close> (lines 643--654).\<close>

fun bus_type_of_internal :: "InternalBuyType \<Rightarrow> bus_type" where
  "bus_type_of_internal Unknown = BusUnknown"
| "bus_type_of_internal Usb = BusUsb"
| "bus_type_of_internal Bluetooth = BusBluetooth"
| "bus_type_of_internal BluetoothLE = BusBluetooth"
| "bus_type_of_internal I2c = BusI2c"
| "bus_type_of_internal Spi = BusSpi"

text \<open>The \<open>match\<close> arms of lines 156--171 on one compatible id.\<close>

definition classify_compatible_id :: "u16 list \<Rightarrow> InternalBuyType option" where
  "classify_compatible_id compatible_id =
     (if starts_with_ignore_case compatible_id ''USB'' then Some Usb
      else if starts_with_ignore_case compatible_id ''BTHENUM'' then Some Bluetooth
      else if starts_with_ignore_case compatible_id ''BTHLEDEVICE'' then Some BluetoothLE
      else if starts_with_ignore_case compatible_id ''PNP0C50'' then Some I2c
      else if starts_with_ignore_case compatible_id ''PNP0C51'' then Some Spi
      else None)"

text \<open>
  Lines 154--174: \<open>split(|c| *c == 0).filter_map(..).next().unwrap_or(Unknown)\<close>
  over the compatible-id units.
\<close>

definition bus_type_of_compatible_ids :: "u16 list \<Rightarrow> InternalBuyType" where
  "bus_type_of_compatible_ids compatible_ids =
     (case first_some classify_compatible_id (split_slice (\<lambda>c. c = 0) compatible_ids) of
        None \<Rightarrow> Unknown
      | Some b \<Rightarrow> b)"

subsection \<open>Lemmas\<close>

lemma classify_compatible_id_Nil: "classify_compatible_id [] = Some Usb"
  by (simp add: classify_compatible_id_def starts_with_ignore_case_def)

text \<open>
  C2: The bus class is the class of the first compatible-id entry that matches a prefix; entries before it that match nothing are skipped and entries after it are ignored.
\<close>

theorem bus_type_first_match:
  assumes "split_slice (\<lambda>c. c = 0) compatible_ids = ys @ x # zs"
    and "\<forall>e \<in> set ys. classify_compatible_id e = None"
    and "classify_compatible_id x = Some b"
  shows "bus_type_of_compatible_ids compatible_ids = b"
  using assms by (simp add: bus_type_of_compatible_ids_def first_some_first_match)

lemma classify_not_Unknown: "classify_compatible_id e \<noteq> Some Unknown"
  by (simp add: classify_compatible_id_def)

text \<open>
  C3: The bus class is Unknown exactly when no entry of the split compatible-id list matches a prefix.
\<close>

theorem bus_type_Unknown_iff:
  "bus_type_of_compatible_ids compatible_ids = Unknown \<longleftrightarrow>
     (\<forall>e \<in> set (split_slice (\<lambda>c. c = 0) compatible_ids). classify_compatible_id e = None)"
proof (cases "first_some classify_compatible_id (split_slice (\<lambda>c. c = 0) compatible_ids)")
  case None
  then have "\<forall>e \<in> set (split_slice (\<lambda>c. c = 0) compatible_ids). classify_compatible_id e = None"
    by (simp add: first_some_None_iff)
  with None show ?thesis
    by (simp add: bus_type_of_compatible_ids_def)
next
  case (Some b)
  then have "b \<noteq> Unknown"
    using classify_not_Unknown by (metis first_some_SomeD)
  with Some show ?thesis
    by (auto simp: bus_type_of_compatible_ids_def first_some_None_iff [symmetric])
qed

text \<open>
  C1: A compatible-id list that ends in a NUL (as every list read from the string-list property does) is classified as USB whenever none of its entries matches a prefix: the split leaves a trailing empty entry, and an empty entry matches the prefix USB because the comparison zips the two strings to the shorter one.
\<close>

theorem bus_type_nul_terminated_Usb:
  assumes "\<forall>e \<in> set (split_slice (\<lambda>c. c = 0) compatible_ids). classify_compatible_id e = None"
  shows "bus_type_of_compatible_ids (compatible_ids @ [0]) = Usb"
proof -
  have "split_slice (\<lambda>c. c = 0) (compatible_ids @ [0]) = split_slice (\<lambda>c. c = 0) compatible_ids @ [[]] @ []"
    by (simp add: split_slice_snoc_sep)
  with assms classify_compatible_id_Nil show ?thesis
    by (simp only: bus_type_of_compatible_ids_def first_some_first_match append.simps option.case)
qed

end
