(* ===== verification/ConfigManager.thy ===== *)
theory ConfigManager
  imports Prelude
begin

text \<open>
  The property resolver and the device-tree walker
  (\<open>get_device_interface_property\<close>, \<open>get_devnode_property\<close>,
  \<open>get_dev_node_parent\<close>, lines 703--769 of \<open>src/src/windows_native.rs\<close>) and
  the platform they call, the Windows configuration manager.  The platform is an
  interface, the record \<open>cm_api\<close> of the four \<open>CM_*\<close> calls the code makes:
  the resolver is defined and its lemmas are proved for every \<open>cm_api\<close>,
  including a misbehaving driver.  \<open>store_api\<close> implements the interface
  from a device tree held in maps (how the platform is documented to behave), and
  the refinement lemma shows that over it the two-phase protocol is a plain typed
  lookup that never panics.  \<open>bytemuck::cast_slice::<u8, u16>\<close> is modelled
  with its length check.
\<close>

subsection \<open>Platform types and constants\<close>

type_synonym configret = u32
type_synonym devproptype = u32

definition CR_SUCCESS :: configret where "CR_SUCCESS = 0"
definition CR_NO_SUCH_DEVNODE :: configret where "CR_NO_SUCH_DEVNODE = 0x0D"
definition CR_BUFFER_SMALL :: configret where "CR_BUFFER_SMALL = 0x1A"
definition CR_NO_SUCH_VALUE :: configret where "CR_NO_SUCH_VALUE = 0x25"

definition DEVPROP_TYPE_EMPTY :: devproptype where "DEVPROP_TYPE_EMPTY = 0"
definition DEVPROP_TYPE_STRING :: devproptype where "DEVPROP_TYPE_STRING = 0x12"
definition DEVPROP_TYPE_STRING_LIST :: devproptype where "DEVPROP_TYPE_STRING_LIST = 0x2012"

text \<open>The property keys the code asks for (GUID and index in \<open>windows_sys\<close>).\<close>

datatype propkey =
    DEVPKEY_Device_InstanceId
  | DEVPKEY_Device_CompatibleIds
  | DEVPKEY_Device_HardwareIds
  | DEVPKEY_Device_Manufacturer
  | DEVPKEY_NAME
  | PKEY_DeviceInterface_Bluetooth_Manufacturer
  | PKEY_DeviceInterface_Bluetooth_DeviceAddress
  | PKEY_DeviceInterface_Bluetooth_ModelNumber

text \<open>
  What one \<open>CM_Get_*_PropertyW\<close> call returns: its \<open>CONFIGRET\<close>, the values it
  stores through \<open>property_type\<close> and \<open>len\<close>, and the bytes it writes into
  the buffer (none when the buffer pointer is null).
\<close>

record prop_reply =
  pr_cr :: configret
  pr_type :: devproptype
  pr_len :: u32
  pr_data :: "u8 list"

text \<open>
  The interface: each call as a function of its inputs.  The buffer argument is
  \<open>None\<close> for \<open>null_mut()\<close> and \<open>Some n\<close> for a buffer of \<open>n\<close> bytes.
  \<open>CM_Locate_DevNodeW\<close> receives the bytes of the instance-id property as the code
  passes them (\<open>device_id.as_ptr() as _\<close>).
\<close>

record cm_api =
  cm_interface_property :: "u16 list \<Rightarrow> propkey \<Rightarrow> u32 option \<Rightarrow> prop_reply"
  cm_devnode_property :: "devinst \<Rightarrow> propkey \<Rightarrow> u32 option \<Rightarrow> prop_reply"
  cm_get_parent :: "devinst \<Rightarrow> configret \<times> devinst"
  cm_locate_devnode :: "u8 list \<Rightarrow> configret \<times> devinst"

subsection \<open>The resolver\<close>

text \<open>
  The buffer \<open>vec![0u8; len as usize]\<close> after the platform wrote \<open>data\<close> into it.
\<close>

definition write_buffer :: "nat \<Rightarrow> u8 list \<Rightarrow> u8 list" where
  "write_buffer n data = take n data @ replicate (n - length data) 0"

text \<open>
  The two-phase protocol, shared verbatim by lines 704--730 and 734--760: a size
  query with a null buffer that must answer \<open>CR_BUFFER_SMALL\<close> with the expected
  type, an allocation of the announced length, the fetch, the \<open>assert_eq!\<close> on
  the length the fetch reports, and the check of its \<open>CONFIGRET\<close>.
\<close>

definition cm_two_phase :: "(u32 option \<Rightarrow> prop_reply) \<Rightarrow> devproptype \<Rightarrow> u8 list option res" where
  "cm_two_phase call expected_property_type =
     (let r1 = call None in
      if \<not> (pr_cr r1 = CR_BUFFER_SMALL \<and> pr_type r1 = expected_property_type) then Inr None
      else
        (let len = pr_len r1;
             r2 = call (Some len);
             property_value = write_buffer (unat len) (pr_data r2)
         in if length property_value \<noteq> unat (pr_len r2) then Inl AssertPropertyLength
            else if pr_cr r2 \<noteq> CR_SUCCESS then Inr None
            else Inr (Some property_value)))"

definition get_device_interface_property ::
    "cm_api \<Rightarrow> u16 list \<Rightarrow> propkey \<Rightarrow> devproptype \<Rightarrow> u8 list option res" where
  "get_device_interface_property api interface_path property_key expected_property_type =
     cm_two_phase (cm_interface_property api interface_path property_key) expected_property_type"

definition get_devnode_property ::
    "cm_api \<Rightarrow> devinst \<Rightarrow> propkey \<Rightarrow> devproptype \<Rightarrow> u8 list option res" where
  "get_devnode_property api dev_node property_key expected_property_type =
     cm_two_phase (cm_devnode_property api dev_node property_key) expected_property_type"

definition get_dev_node_parent :: "cm_api \<Rightarrow> devinst \<Rightarrow> devinst option" where
  "get_dev_node_parent api dev_node =
     (case cm_get_parent api dev_node of
        (cr, parent) \<Rightarrow> if cr = CR_SUCCESS then Some parent else None)"

text \<open>
  \<open>bytemuck::cast_slice::<u8, u16>\<close> on a little-endian target: it panics when
  the byte count is not a multiple of two (its alignment check is not modelled:
  the buffers come from the global allocator).
\<close>

fun le_u16s :: "u8 list \<Rightarrow> u16 list" where
  "le_u16s (b0 # b1 # bs) = word_of_nat (unat b0 + 256 * unat b1) # le_u16s bs"
| "le_u16s _ = []"

definition cast_slice_u16 :: "u8 list \<Rightarrow> u16 list res" where
  "cast_slice_u16 bs = (if even (length bs) then Inr (le_u16s bs) else Inl CastSliceSizeMismatch)"

text \<open>The inverse direction: the bytes of a UTF-16 buffer, as the platform stores them.\<close>

definition le_bytes :: "u16 list \<Rightarrow> u8 list" where
  "le_bytes us = concat (map (\<lambda>u. [word_of_nat (unat u mod 256), word_of_nat (unat u div 256)]) us)"

subsection \<open>A device tree implementing the interface\<close>

text \<open>
  The configuration manager as documented: properties of interfaces and of
  device nodes in maps, each with its type and bytes; a size query with a null
  buffer answers \<open>CR_BUFFER_SMALL\<close> with the type and length of a present
  property and \<open>CR_NO_SUCH_VALUE\<close> otherwise; a fetch succeeds when the buffer
  is large enough.  A node's instance id is looked up up to its NUL.
\<close>

record devtree =
  dt_iface_props :: "u16 list \<Rightarrow> propkey \<Rightarrow> (devproptype \<times> u8 list) option"
  dt_node_props :: "devinst \<Rightarrow> propkey \<Rightarrow> (devproptype \<times> u8 list) option"
  dt_parent :: "devinst \<Rightarrow> devinst option"
  dt_locate :: "u16 list \<Rightarrow> devinst option"

definition store_prop_call :: "(devproptype \<times> u8 list) option \<Rightarrow> u32 option \<Rightarrow> prop_reply" where
  "store_prop_call p buf =
     (case p of
        None \<Rightarrow> \<lparr>pr_cr = CR_NO_SUCH_VALUE, pr_type = DEVPROP_TYPE_EMPTY, pr_len = 0, pr_data = []\<rparr>
      | Some (t, v) \<Rightarrow>
          (case buf of
             None \<Rightarrow> \<lparr>pr_cr = CR_BUFFER_SMALL, pr_type = t, pr_len = word_of_nat (length v), pr_data = []\<rparr>
           | Some n \<Rightarrow>
               if length v \<le> unat n
               then \<lparr>pr_cr = CR_SUCCESS, pr_type = t, pr_len = word_of_nat (length v), pr_data = v\<rparr>
               else \<lparr>pr_cr = CR_BUFFER_SMALL, pr_type = t, pr_len = word_of_nat (length v), pr_data = []\<rparr>))"

definition wide_cstr :: "u8 list \<Rightarrow> u16 list" where
  "wide_cstr bs = takeWhile (\<lambda>u. u \<noteq> 0) (le_u16s bs)"

definition store_api :: "devtree \<Rightarrow> cm_api" where
  "store_api dt =
     \<lparr>cm_interface_property = (\<lambda>path k buf. store_prop_call (dt_iface_props dt path k) buf),
      cm_devnode_property = (\<lambda>n k buf. store_prop_call (dt_node_props dt n k) buf),
      cm_get_parent = (\<lambda>n. case dt_parent dt n of None \<Rightarrow> (CR_NO_SUCH_DEVNODE, 0) | Some p \<Rightarrow> (CR_SUCCESS, p)),
      cm_locate_devnode = (\<lambda>bs. case dt_locate dt (wide_cstr bs) of
                                  None \<Rightarrow> (CR_NO_SUCH_DEVNODE, 0) | Some n \<Rightarrow> (CR_SUCCESS, n))\<rparr>"

text \<open>The specification the protocol refines: a lookup that checks the type.\<close>

definition typed_lookup :: "(devproptype \<times> u8 list) option \<Rightarrow> devproptype \<Rightarrow> u8 list option" where
  "typed_lookup p ty =
     (case p of Some (t, v) \<Rightarrow> if t = ty \<and> length v < 2 ^ 32 then Some v else None | None \<Rightarrow> None)"

subsection \<open>Lemmas: the protocol on any platform\<close>

lemma length_write_buffer [simp]: "length (write_buffer n data) = n"
  by (simp add: write_buffer_def)

lemma write_buffer_exact: "length data = n \<Longrightarrow> write_buffer n data = data"
  by (simp add: write_buffer_def)

lemma cm_two_phase_type_mismatch:
  "pr_type (call None) \<noteq> ty \<Longrightarrow> cm_two_phase call ty = Inr None"
  by (simp add: cm_two_phase_def Let_def)

lemma cm_two_phase_not_small:
  "pr_cr (call None) \<noteq> CR_BUFFER_SMALL \<Longrightarrow> cm_two_phase call ty = Inr None"
  by (simp add: cm_two_phase_def Let_def)

lemma cm_two_phase_Inl:
  "cm_two_phase call ty = Inl e \<longleftrightarrow>
     e = AssertPropertyLength \<and> pr_cr (call None) = CR_BUFFER_SMALL \<and> pr_type (call None) = ty \<and>
     pr_len (call (Some (pr_len (call None)))) \<noteq> pr_len (call None)"
  by (auto simp: cm_two_phase_def Let_def word_unat_eq_iff)

lemma cm_two_phase_Some:
  "cm_two_phase call ty = Inr (Some v) \<Longrightarrow>
     pr_cr (call None) = CR_BUFFER_SMALL \<and> pr_type (call None) = ty \<and>
     v = write_buffer (unat (pr_len (call None))) (pr_data (call (Some (pr_len (call None))))) \<and>
     pr_cr (call (Some (pr_len (call None)))) = CR_SUCCESS"
  by (auto simp: cm_two_phase_def Let_def split: if_splits)

lemma store_api_calls:
  "cm_interface_property (store_api dt) = (\<lambda>path k. store_prop_call (dt_iface_props dt path k))"
  "cm_devnode_property (store_api dt) = (\<lambda>n k. store_prop_call (dt_node_props dt n k))"
  "cm_locate_devnode (store_api dt) =
     (\<lambda>bs. case dt_locate dt (wide_cstr bs) of None \<Rightarrow> (CR_NO_SUCH_DEVNODE, 0) | Some n \<Rightarrow> (CR_SUCCESS, n))"
  by (simp_all add: store_api_def)

lemma store_two_phase:
  "cm_two_phase (store_prop_call p) ty = Inr (typed_lookup p ty)"
proof (cases p)
  case None
  then show ?thesis
    by (simp add: cm_two_phase_def store_prop_call_def typed_lookup_def CR_NO_SUCH_VALUE_def
        CR_BUFFER_SMALL_def)
next
  case (Some tv)
  obtain t v where tv: "tv = (t, v)" by (cases tv)
  show ?thesis
  proof (cases "t = ty")
    case False
    with Some tv show ?thesis
      by (simp add: cm_two_phase_def store_prop_call_def typed_lookup_def)
  next
    case True
    show ?thesis
    proof (cases "length v < 2 ^ 32")
      case small: True
      then have u: "unat (word_of_nat (length v) :: u32) = length v"
        by (simp add: unat_of_nat)
      with Some tv True small show ?thesis
        by (simp add: cm_two_phase_def store_prop_call_def typed_lookup_def Let_def
            write_buffer_exact CR_SUCCESS_def CR_BUFFER_SMALL_def)
    next
      case big: False
      have "unat (word_of_nat (length v) :: u32) < length v"
        using big unsigned_less [of "word_of_nat (length v) :: u32", where 'a = nat] by simp
      with Some tv True big show ?thesis
        by (simp add: cm_two_phase_def store_prop_call_def typed_lookup_def Let_def
            CR_SUCCESS_def CR_BUFFER_SMALL_def)
    qed
  qed
qed

text \<open>
  C14: On a configuration manager that answers as documented (a device tree of typed properties), the two-phase node-property protocol returns exactly the stored bytes when the stored type is the expected one, and nothing otherwise; it never panics.
\<close>

theorem get_devnode_property_refines:
  "get_devnode_property (store_api dt) dev_node key ty = Inr (typed_lookup (dt_node_props dt dev_node key) ty)"
  by (simp add: get_devnode_property_def store_api_def store_two_phase)

text \<open>
  The same refinement for the interface-property protocol.
\<close>

theorem get_device_interface_property_refines:
  "get_device_interface_property (store_api dt) path key ty = Inr (typed_lookup (dt_iface_props dt path key) ty)"
  by (simp add: get_device_interface_property_def store_api_def store_two_phase)

text \<open>
  C16: When the size query reports a type other than the expected one, the node-property protocol yields absence (not a panic), whatever else the platform answers.
\<close>

theorem get_devnode_property_type_mismatch:
  "pr_type (cm_devnode_property api dev_node key None) \<noteq> ty \<Longrightarrow>
     get_devnode_property api dev_node key ty = Inr None"
  by (simp add: get_devnode_property_def cm_two_phase_type_mismatch)

text \<open>
  C17: The node-property protocol panics exactly when the size query answers CR_BUFFER_SMALL with the expected type and the fetch then reports a length different from the announced one; the panic is the assert_eq on the length.
\<close>

theorem get_devnode_property_panics_iff:
  "get_devnode_property api dev_node key ty = Inl e \<longleftrightarrow>
     (let call = cm_devnode_property api dev_node key in
      e = AssertPropertyLength \<and> pr_cr (call None) = CR_BUFFER_SMALL \<and> pr_type (call None) = ty \<and>
      pr_len (call (Some (pr_len (call None)))) \<noteq> pr_len (call None))"
  by (simp add: get_devnode_property_def cm_two_phase_Inl Let_def)

lemma get_dev_node_parent_store: "get_dev_node_parent (store_api dt) n = dt_parent dt n"
  by (simp add: get_dev_node_parent_def store_api_def CR_NO_SUCH_DEVNODE_def CR_SUCCESS_def split: option.split)

lemma le_u16s_le_bytes: "le_u16s (le_bytes us) = us"
proof (induction us)
  case Nil
  then show ?case by (simp add: le_bytes_def)
next
  case (Cons u us)
  have lo: "unat (word_of_nat (unat u mod 256) :: u8) = unat u mod 256"
    by (simp add: unat_of_nat)
  have "unat u < 0x10000"
    using unsigned_less [of u, where 'a = nat] by simp
  then have hi: "unat (word_of_nat (unat u div 256) :: u8) = unat u div 256"
    by (simp add: unat_of_nat)
  have "word_of_nat (unat u mod 256 + 256 * (unat u div 256)) = u"
    by simp
  with lo hi Cons show ?case by (simp add: le_bytes_def)
qed

lemma length_le_bytes: "length (le_bytes us) = 2 * length us"
  by (induction us) (simp_all add: le_bytes_def)

theorem cast_slice_le_bytes: "cast_slice_u16 (le_bytes us) = Inr us"
  by (simp add: cast_slice_u16_def length_le_bytes le_u16s_le_bytes)

end
