(* ===== verification/UsbInfo.thy ===== *)
theory UsbInfo
  imports ConfigManager DeviceInfo
begin

text \<open>
  The USB identity resolver \<open>get_usb_info\<close> (lines 185--255 of
  \<open>src/src/windows_native.rs\<close>).  It mutates the device record in place and
  returns \<open>Option<()>\<close>; every \<open>?\<close> is an early return that leaves the record
  as it is at that point.  The model returns the pair of that \<open>Option<()>\<close> and
  the record, inside the panic sum.  The function is split at the code's own
  blocks: the choice of the node (lines 186--195), one iteration of the
  hardware-id loop (lines 204--214), the manufacturer fallback (217--222), the
  serial-number fallback (224--248) with its index computation (241--244), and
  the final normalisation of the interface number (250--252).
\<close>

type_synonym usb_result = "(unit option \<times> device_info) res"

text \<open>Lines 186--195: the instance id, upper-cased, and the escalation for XUSB (\<open>IG_\<close>).\<close>

definition usb_resolve_node :: "cm_api \<Rightarrow> devinst \<Rightarrow> devinst option res" where
  "usb_resolve_node api dev_node =
     pbind (get_devnode_property api dev_node DEVPKEY_Device_InstanceId DEVPROP_TYPE_STRING)
       (\<lambda>r. case r of
          None \<Rightarrow> Inr None
        | Some device_id_bytes \<Rightarrow>
            pbind (cast_slice_u16 device_id_bytes)
              (\<lambda>device_id.
                 if extract_int_token_value (to_upper device_id) ''IG_'' \<noteq> None
                 then Inr (get_dev_node_parent api dev_node)
                 else Inr (Some dev_node)))"

text \<open>
  Lines 204--214, one hardware id: upper-case it, then take \<open>REV_\<close> while the
  release number is still \<open>0\<close> and \<open>MI_\<close> while the interface number is still
  \<open>-1\<close>.  \<open>release_number as u16\<close> truncates (\<open>ucast\<close>); \<open>as i32\<close> keeps the
  32 bits.
\<close>

definition usb_scan_hardware_id :: "device_info \<Rightarrow> u16 list \<Rightarrow> device_info" where
  "usb_scan_hardware_id dev hardware_id0 =
     (let hardware_id = to_upper hardware_id0;
          dev1 = (if release_number dev = 0
                  then (case extract_int_token_value hardware_id ''REV_'' of
                          Some r \<Rightarrow> dev\<lparr>release_number := ucast r\<rparr>
                        | None \<Rightarrow> dev)
                  else dev)
      in if interface_number dev1 = -1
         then (case extract_int_token_value hardware_id ''MI_'' of
                 Some i \<Rightarrow> dev1\<lparr>interface_number := i\<rparr>
               | None \<Rightarrow> dev1)
         else dev1)"

text \<open>The \<open>for\<close> loop of line 203 over the NUL-separated hardware ids.\<close>

definition usb_scan_hardware_ids :: "device_info \<Rightarrow> u16 list \<Rightarrow> device_info" where
  "usb_scan_hardware_ids dev hardware_ids =
     foldl usb_scan_hardware_id dev (split_slice (\<lambda>c. c = 0) hardware_ids)"

text \<open>Lines 217--222.\<close>

definition usb_manufacturer_fallback :: "cm_api \<Rightarrow> device_info \<Rightarrow> devinst \<Rightarrow> device_info res" where
  "usb_manufacturer_fallback api dev dev_node =
     (if missing (manufacturer_string dev)
      then pbind (get_devnode_property api dev_node DEVPKEY_Device_Manufacturer DEVPROP_TYPE_STRING)
             (\<lambda>r. case r of
                None \<Rightarrow> Inr dev
              | Some manufacturer_string_bytes \<Rightarrow>
                  pbind (cast_slice_u16 manufacturer_string_bytes)
                    (\<lambda>m. Inr (dev\<lparr>manufacturer_string := u16str_to_wstring m\<rparr>)))
      else Inr dev)"

text \<open>
  Lines 241--244: \<open>device_id.rsplit(|c| *c != '&').next()\<close> is the last run
  of the slice between elements that are not \<open>'&'\<close>, and \<open>rposition\<close> looks
  in that run for the last element that is not \<open>'\\'\<close>; the index it returns
  is then used on the whole \<open>device_id\<close> (line 245).
\<close>

definition instance_id_serial_start :: "u16 list \<Rightarrow> nat option" where
  "instance_id_serial_start device_id =
     rposition (\<lambda>c. c \<noteq> 0x5C) (last (split_slice (\<lambda>c. c \<noteq> 0x26) device_id))"

text \<open>
  Lines 224--248.  \<open>Inr None\<close> is a \<open>?\<close> that returns from \<open>get_usb_info\<close>.
\<close>

definition usb_serial_fallback :: "cm_api \<Rightarrow> device_info \<Rightarrow> devinst \<Rightarrow> device_info option res" where
  "usb_serial_fallback api dev dev_node =
     (if missing (serial_number dev)
      then (case (if interface_number dev \<noteq> -1 then get_dev_node_parent api dev_node
                  else Some dev_node) of
              None \<Rightarrow> Inr None
            | Some usb_dev_node \<Rightarrow>
                pbind (get_devnode_property api usb_dev_node DEVPKEY_Device_InstanceId DEVPROP_TYPE_STRING)
                  (\<lambda>r. case r of
                     None \<Rightarrow> Inr None
                   | Some device_id_bytes \<Rightarrow>
                       pbind (cast_slice_u16 device_id_bytes)
                         (\<lambda>device_id.
                            Inr (Some (case instance_id_serial_start device_id of
                                         None \<Rightarrow> dev
                                       | Some start \<Rightarrow>
                                           dev\<lparr>serial_number :=
                                                 u16str_to_wstring (drop (start + 1) device_id)\<rparr>)))))
      else Inr (Some dev))"

text \<open>Lines 250--252.\<close>

definition normalise_interface_number :: "device_info \<Rightarrow> device_info" where
  "normalise_interface_number dev =
     (if interface_number dev = -1 then dev\<lparr>interface_number := 0\<rparr> else dev)"

text \<open>\<open>get_usb_info\<close> (lines 185--255), composed from its blocks.\<close>

definition get_usb_info :: "cm_api \<Rightarrow> device_info \<Rightarrow> devinst \<Rightarrow> usb_result" where
  "get_usb_info api dev dev_node0 =
     pbind (usb_resolve_node api dev_node0)
       (\<lambda>n. case n of
          None \<Rightarrow> Inr (None, dev)
        | Some dev_node \<Rightarrow>
            pbind (get_devnode_property api dev_node DEVPKEY_Device_HardwareIds DEVPROP_TYPE_STRING_LIST)
              (\<lambda>r. case r of
                 None \<Rightarrow> Inr (None, dev)
               | Some hardware_ids_bytes \<Rightarrow>
                   pbind (cast_slice_u16 hardware_ids_bytes)
                     (\<lambda>hardware_ids.
                        pbind (usb_manufacturer_fallback api
                                 (usb_scan_hardware_ids dev hardware_ids) dev_node)
                          (\<lambda>dev2.
                             pbind (usb_serial_fallback api dev2 dev_node)
                               (\<lambda>s. case s of
                                  None \<Rightarrow> Inr (None, dev2)
                                | Some dev3 \<Rightarrow> Inr (Some (), normalise_interface_number dev3))))))"

subsection \<open>Reference specifications of the hardware-id scan\<close>

text \<open>
  The value an entry contributes: its \<open>REV_\<close> value truncated to \<open>u16\<close> when
  that is not the sentinel \<open>0\<close>, its \<open>MI_\<close> value when that is not the
  sentinel \<open>-1\<close>.
\<close>

definition rev_of :: "u16 list \<Rightarrow> u16 option" where
  "rev_of h = (case extract_int_token_value (to_upper h) ''REV_'' of
                 Some r \<Rightarrow> if (ucast r :: u16) \<noteq> 0 then Some (ucast r) else None
               | None \<Rightarrow> None)"

definition mi_of :: "u16 list \<Rightarrow> i32 option" where
  "mi_of h = (case extract_int_token_value (to_upper h) ''MI_'' of
                Some i \<Rightarrow> if i \<noteq> -1 then Some i else None
              | None \<Rightarrow> None)"

subsection \<open>Frame lemmas: which fields each block writes\<close>

lemma usb_scan_hardware_id_strings [simp]:
  "manufacturer_string (usb_scan_hardware_id dev h) = manufacturer_string dev"
  "serial_number (usb_scan_hardware_id dev h) = serial_number dev"
  "product_string (usb_scan_hardware_id dev h) = product_string dev"
  "bus_type (usb_scan_hardware_id dev h) = bus_type dev"
  by (auto simp: usb_scan_hardware_id_def Let_def split: option.split)

lemma usb_scan_hardware_ids_strings [simp]:
  "manufacturer_string (usb_scan_hardware_ids dev hs) = manufacturer_string dev"
  "serial_number (usb_scan_hardware_ids dev hs) = serial_number dev"
  "product_string (usb_scan_hardware_ids dev hs) = product_string dev"
  "bus_type (usb_scan_hardware_ids dev hs) = bus_type dev"
proof -
  have "manufacturer_string (foldl usb_scan_hardware_id dev xs) = manufacturer_string dev \<and>
      serial_number (foldl usb_scan_hardware_id dev xs) = serial_number dev \<and>
      product_string (foldl usb_scan_hardware_id dev xs) = product_string dev \<and>
      bus_type (foldl usb_scan_hardware_id dev xs) = bus_type dev" for xs
    by (induction xs arbitrary: dev) simp_all
  then show "manufacturer_string (usb_scan_hardware_ids dev hs) = manufacturer_string dev"
    "serial_number (usb_scan_hardware_ids dev hs) = serial_number dev"
    "product_string (usb_scan_hardware_ids dev hs) = product_string dev"
    "bus_type (usb_scan_hardware_ids dev hs) = bus_type dev"
    by (simp_all add: usb_scan_hardware_ids_def)
qed

lemma normalise_interface_number_fields [simp]:
  "manufacturer_string (normalise_interface_number d) = manufacturer_string d"
  "serial_number (normalise_interface_number d) = serial_number d"
  "product_string (normalise_interface_number d) = product_string d"
  "bus_type (normalise_interface_number d) = bus_type d"
  "release_number (normalise_interface_number d) = release_number d"
  by (simp_all add: normalise_interface_number_def)

lemma usb_manufacturer_fallback_keeps:
  "usb_manufacturer_fallback api dev n = Inr dev' \<Longrightarrow> \<not> missing (manufacturer_string dev) \<Longrightarrow> dev' = dev"
  by (simp add: usb_manufacturer_fallback_def)

lemma usb_manufacturer_fallback_fields:
  "usb_manufacturer_fallback api dev n = Inr dev' \<Longrightarrow>
     serial_number dev' = serial_number dev \<and> product_string dev' = product_string dev \<and>
     interface_number dev' = interface_number dev \<and> release_number dev' = release_number dev \<and>
     bus_type dev' = bus_type dev"
  by (auto simp: usb_manufacturer_fallback_def pbind_eq_Inr split: if_splits option.split_asm)

lemma usb_serial_fallback_keeps:
  "usb_serial_fallback api dev n = Inr (Some dev') \<Longrightarrow> \<not> missing (serial_number dev) \<Longrightarrow> dev' = dev"
  by (simp add: usb_serial_fallback_def)

lemma usb_serial_fallback_fields:
  "usb_serial_fallback api dev n = Inr (Some dev') \<Longrightarrow>
     manufacturer_string dev' = manufacturer_string dev \<and> product_string dev' = product_string dev \<and>
     interface_number dev' = interface_number dev \<and> release_number dev' = release_number dev \<and>
     bus_type dev' = bus_type dev"
  by (auto simp: usb_serial_fallback_def pbind_eq_Inr split: if_splits option.split_asm)

lemma normalise_interface_number_set [simp]:
  "interface_number (normalise_interface_number d) \<noteq> -1"
  by (simp add: normalise_interface_number_def)

subsection \<open>The hardware-id scan\<close>

lemma rev_of_nonzero: "rev_of h = Some r \<Longrightarrow> r \<noteq> 0"
  by (auto simp: rev_of_def split: option.splits if_splits)

lemma mi_of_not_unset: "mi_of h = Some i \<Longrightarrow> i \<noteq> -1"
  by (auto simp: mi_of_def split: option.splits if_splits)

lemma usb_scan_hardware_id_release:
  "release_number (usb_scan_hardware_id dev h) =
     (if release_number dev \<noteq> 0 then release_number dev
      else case rev_of h of Some r \<Rightarrow> r | None \<Rightarrow> 0)"
  by (auto simp: usb_scan_hardware_id_def rev_of_def Let_def split: option.split)

lemma usb_scan_hardware_id_interface:
  "interface_number (usb_scan_hardware_id dev h) =
     (if interface_number dev \<noteq> -1 then interface_number dev
      else case mi_of h of Some i \<Rightarrow> i | None \<Rightarrow> -1)"
  by (auto simp: usb_scan_hardware_id_def mi_of_def Let_def split: option.split)

lemma foldl_scan_release:
  "release_number (foldl usb_scan_hardware_id dev hs) =
     (if release_number dev \<noteq> 0 then release_number dev
      else case first_some rev_of hs of Some r \<Rightarrow> r | None \<Rightarrow> 0)"
proof (induction hs arbitrary: dev)
  case Nil
  then show ?case by simp
next
  case (Cons h hs)
  show ?case
    using Cons.IH [of "usb_scan_hardware_id dev h"]
    by (auto simp: usb_scan_hardware_id_release split: option.splits dest: rev_of_nonzero)
qed

lemma foldl_scan_interface:
  "interface_number (foldl usb_scan_hardware_id dev hs) =
     (if interface_number dev \<noteq> -1 then interface_number dev
      else case first_some mi_of hs of Some i \<Rightarrow> i | None \<Rightarrow> -1)"
proof (induction hs arbitrary: dev)
  case Nil
  then show ?case by simp
next
  case (Cons h hs)
  show ?case
    using Cons.IH [of "usb_scan_hardware_id dev h"]
    by (auto simp: usb_scan_hardware_id_interface split: option.splits dest: mi_of_not_unset)
qed

text \<open>
  C8: After the hardware-id loop the release number is the one the record already had when it is non-zero, and otherwise the first non-zero u16-truncated REV_ value of the entries in order, or 0.
\<close>

theorem usb_scan_release_first_wins:
  "release_number (usb_scan_hardware_ids dev hardware_ids) =
     (if release_number dev \<noteq> 0 then release_number dev
      else case first_some rev_of (split_slice (\<lambda>c. c = 0) hardware_ids) of
             Some r \<Rightarrow> r | None \<Rightarrow> 0)"
  by (simp add: usb_scan_hardware_ids_def foldl_scan_release)

text \<open>
  C9: After the hardware-id loop the interface number is the one the record already had when it is not -1, and otherwise the first MI_ value different from -1 of the entries in order, or -1.
\<close>

theorem usb_scan_interface_first_wins:
  "interface_number (usb_scan_hardware_ids dev hardware_ids) =
     (if interface_number dev \<noteq> -1 then interface_number dev
      else case first_some mi_of (split_slice (\<lambda>c. c = 0) hardware_ids) of
             Some i \<Rightarrow> i | None \<Rightarrow> -1)"
  by (simp add: usb_scan_hardware_ids_def foldl_scan_interface)

subsection \<open>The serial-number fallback\<close>

text \<open>
  C4: The index computation of the serial-number fallback finds nothing for every non-empty instance id whose last unit is not an ampersand, so for such ids the serial number is never set.
\<close>

theorem instance_id_serial_start_None:
  assumes "device_id \<noteq> []" and "last device_id \<noteq> 0x26"
  shows "instance_id_serial_start device_id = None"
proof -
  obtain ys y where d: "device_id = ys @ [y]"
    using assms(1) by (cases device_id rule: rev_cases) auto
  with assms(2) have "takeWhile (\<lambda>c. \<not> c \<noteq> 0x26) (rev device_id) = []"
    by simp
  then show ?thesis
    by (simp add: instance_id_serial_start_def last_split_slice)
qed

lemma instance_id_serial_start_bound:
  "instance_id_serial_start device_id = Some start \<Longrightarrow> start + 1 \<le> length device_id"
proof -
  assume "instance_id_serial_start device_id = Some start"
  then have "start < length (rev (takeWhile (\<lambda>c. c = 0x26) (rev device_id)))"
    by (auto simp: instance_id_serial_start_def last_split_slice dest!: rposition_Some_less)
  also have "\<dots> \<le> length device_id"
    using length_takeWhile_le [of _ "rev device_id"] by simp
  finally show ?thesis by simp
qed

subsection \<open>The whole resolver\<close>

text \<open>
  C10: When the USB resolver runs to its end (it returns Some), the interface number of the record is not the sentinel -1.
\<close>

theorem get_usb_info_normalised:
  "get_usb_info api dev n = Inr (Some (), dev') \<Longrightarrow> interface_number dev' \<noteq> -1"
  by (clarsimp simp: get_usb_info_def pbind_eq_Inr split: option.split_asm)

text \<open>
  C11: The USB resolver never overwrites a manufacturer string that is present (a non-empty decoded string), on every path that does not panic.
\<close>

theorem get_usb_info_keeps_manufacturer:
  "get_usb_info api dev n = Inr (r, dev') \<Longrightarrow> \<not> missing (manufacturer_string dev) \<Longrightarrow>
     manufacturer_string dev' = manufacturer_string dev"
  by (auto simp: get_usb_info_def pbind_eq_Inr split: option.split_asm
      dest!: usb_serial_fallback_fields usb_manufacturer_fallback_keeps)

text \<open>
  C12: The USB resolver never overwrites a serial number that is present, on every path that does not panic.
\<close>

theorem get_usb_info_keeps_serial:
  "get_usb_info api dev n = Inr (r, dev') \<Longrightarrow> \<not> missing (serial_number dev) \<Longrightarrow>
     serial_number dev' = serial_number dev"
  by (auto simp: get_usb_info_def pbind_eq_Inr split: option.split_asm
      dest!: usb_serial_fallback_keeps usb_manufacturer_fallback_fields)

lemma get_usb_info_bus_type:
  "get_usb_info api dev n = Inr (r, dev') \<Longrightarrow> bus_type dev' = bus_type dev"
  by (auto simp: get_usb_info_def pbind_eq_Inr split: option.split_asm
      dest!: usb_serial_fallback_fields usb_manufacturer_fallback_fields)

lemma usb_scan_hardware_id_ident [simp]:
  "ident_fields (usb_scan_hardware_id dev h) = ident_fields dev"
  by (simp add: usb_scan_hardware_id_def Let_def split: option.split)

lemma usb_scan_hardware_ids_ident [simp]:
  "ident_fields (usb_scan_hardware_ids dev hardware_ids) = ident_fields dev"
  unfolding usb_scan_hardware_ids_def by (rule foldl_frame) simp

lemma usb_manufacturer_fallback_ident:
  "usb_manufacturer_fallback api dev n = Inr dev' \<Longrightarrow> ident_fields dev' = ident_fields dev"
  by (auto simp: usb_manufacturer_fallback_def pbind_eq_Inr split: if_splits option.split_asm)

lemma usb_serial_fallback_ident:
  "usb_serial_fallback api dev n = Inr (Some dev') \<Longrightarrow> ident_fields dev' = ident_fields dev"
  by (auto simp: usb_serial_fallback_def pbind_eq_Inr split: if_splits option.split_asm)

lemma normalise_interface_number_ident [simp]:
  "ident_fields (normalise_interface_number dev) = ident_fields dev"
  by (simp add: normalise_interface_number_def)

lemma get_usb_info_ident:
  "get_usb_info api dev n = Inr (r, dev') \<Longrightarrow> ident_fields dev' = ident_fields dev"
  by (auto simp: get_usb_info_def pbind_eq_Inr split: option.split_asm
      dest!: usb_serial_fallback_ident usb_manufacturer_fallback_ident)

end
