(* ===== verification/BleInfo.thy ===== *)
theory BleInfo
  imports ConfigManager DeviceInfo
begin

text \<open>
  The Bluetooth LE identity resolver \<open>get_ble_info\<close> (lines 261--296 of
  \<open>src/src/windows_native.rs\<close>).  Each of the three strings is fetched from a
  Bluetooth property of the node only when the fast path left it missing; the
  product string falls back to the display name (\<open>DEVPKEY_NAME\<close>) of the
  node's parent when the model-number property is absent.  The function uses no
  \<open>?\<close> and always returns \<open>Some(())\<close>, so the model returns the record only.
\<close>

text \<open>One string fallback: fetch, cast to \<open>u16\<close> and decode (lines 263--268 and 272--277).\<close>

definition ble_fetch_string :: "u8 list option res \<Rightarrow> wchar_string \<Rightarrow> wchar_string res" where
  "ble_fetch_string fetched current =
     pbind fetched
       (\<lambda>r. case r of
          None \<Rightarrow> Inr current
        | Some bytes \<Rightarrow> pbind (cast_slice_u16 bytes) (\<lambda>s. Inr (u16str_to_wstring s)))"

text \<open>Lines 281--289: the model number, or else the parent's name.\<close>

definition ble_product_property :: "cm_api \<Rightarrow> devinst \<Rightarrow> u8 list option res" where
  "ble_product_property api dev_node =
     pbind (get_devnode_property api dev_node PKEY_DeviceInterface_Bluetooth_ModelNumber DEVPROP_TYPE_STRING)
       (\<lambda>r. case r of
          Some v \<Rightarrow> Inr (Some v)
        | None \<Rightarrow>
            (case get_dev_node_parent api dev_node of
               None \<Rightarrow> Inr None
             | Some parent_dev_node \<Rightarrow> get_devnode_property api parent_dev_node DEVPKEY_NAME DEVPROP_TYPE_STRING))"

text \<open>
  One block of the function: when the field selected by \<open>sel\<close> is missing,
  fetch and store it with \<open>upd\<close> (lines 262--269, 271--278 and 280--293).
\<close>

definition ble_fill ::
    "(device_info \<Rightarrow> wchar_string) \<Rightarrow> (wchar_string \<Rightarrow> device_info \<Rightarrow> device_info) \<Rightarrow>
       u8 list option res \<Rightarrow> device_info \<Rightarrow> device_info res" where
  "ble_fill sel upd fetched dev =
     (if missing (sel dev)
      then pbind (ble_fetch_string fetched (sel dev)) (\<lambda>s. Inr (upd s dev))
      else Inr dev)"

definition get_ble_info :: "cm_api \<Rightarrow> device_info \<Rightarrow> devinst \<Rightarrow> device_info res" where
  "get_ble_info api dev dev_node =
     pbind (ble_fill manufacturer_string (\<lambda>s d. d\<lparr>manufacturer_string := s\<rparr>)
              (get_devnode_property api dev_node PKEY_DeviceInterface_Bluetooth_Manufacturer
                 DEVPROP_TYPE_STRING) dev)
       (\<lambda>dev1.
          pbind (ble_fill serial_number (\<lambda>s d. d\<lparr>serial_number := s\<rparr>)
                   (get_devnode_property api dev_node PKEY_DeviceInterface_Bluetooth_DeviceAddress
                      DEVPROP_TYPE_STRING) dev1)
            (\<lambda>dev2.
               ble_fill product_string (\<lambda>s d. d\<lparr>product_string := s\<rparr>)
                 (ble_product_property api dev_node) dev2))"

subsection \<open>Lemmas\<close>

lemma ble_fill_keeps: "ble_fill sel upd f dev = Inr dev' \<Longrightarrow> \<not> missing (sel dev) \<Longrightarrow> dev' = dev"
  by (simp add: ble_fill_def)

lemma ble_fill_cases: "ble_fill sel upd f dev = Inr dev' \<Longrightarrow> dev' = dev \<or> (\<exists>s. dev' = upd s dev)"
  by (auto simp: ble_fill_def pbind_eq_Inr split: if_split_asm)

lemma get_ble_info_frame:
  "get_ble_info api dev n = Inr dev' \<Longrightarrow>
     interface_number dev' = interface_number dev \<and> bus_type dev' = bus_type dev"
  by (auto simp: get_ble_info_def pbind_eq_Inr dest!: ble_fill_cases)

text \<open>
  C24: The Bluetooth LE resolver never overwrites a manufacturer, serial number or product string that is present.
\<close>

theorem get_ble_info_keeps_present:
  assumes "get_ble_info api dev n = Inr dev'"
  shows "(\<not> missing (manufacturer_string dev) \<longrightarrow> manufacturer_string dev' = manufacturer_string dev) \<and>
         (\<not> missing (serial_number dev) \<longrightarrow> serial_number dev' = serial_number dev) \<and>
         (\<not> missing (product_string dev) \<longrightarrow> product_string dev' = product_string dev)"
proof -
  from assms obtain dev1 dev2 where
    s1: "ble_fill manufacturer_string (\<lambda>s d. d\<lparr>manufacturer_string := s\<rparr>)
           (get_devnode_property api n PKEY_DeviceInterface_Bluetooth_Manufacturer DEVPROP_TYPE_STRING) dev = Inr dev1"
    and s2: "ble_fill serial_number (\<lambda>s d. d\<lparr>serial_number := s\<rparr>)
           (get_devnode_property api n PKEY_DeviceInterface_Bluetooth_DeviceAddress DEVPROP_TYPE_STRING) dev1 = Inr dev2"
    and s3: "ble_fill product_string (\<lambda>s d. d\<lparr>product_string := s\<rparr>)
           (ble_product_property api n) dev2 = Inr dev'"
    by (auto simp: get_ble_info_def pbind_eq_Inr)
  have m: "\<not> missing (manufacturer_string dev) \<longrightarrow> manufacturer_string dev' = manufacturer_string dev"
    using ble_fill_keeps [OF s1] ble_fill_cases [OF s2] ble_fill_cases [OF s3] by auto
  have s: "\<not> missing (serial_number dev) \<longrightarrow> serial_number dev' = serial_number dev"
    using ble_fill_cases [OF s1] ble_fill_cases [OF s3] ble_fill_keeps [OF s2] by auto
  have p: "\<not> missing (product_string dev) \<longrightarrow> product_string dev' = product_string dev"
    using ble_fill_cases [OF s1] ble_fill_cases [OF s2] ble_fill_keeps [OF s3] by auto
  from m s p show ?thesis by blast
qed

text \<open>
  C25: When the node has none of the three Bluetooth properties, the product string is the name of the node's parent, and the other fields are untouched.
\<close>

theorem get_ble_info_product_from_parent_name:
  assumes "missing (manufacturer_string dev)" "missing (serial_number dev)" "missing (product_string dev)"
    and "get_devnode_property api n PKEY_DeviceInterface_Bluetooth_Manufacturer DEVPROP_TYPE_STRING = Inr None"
    and "get_devnode_property api n PKEY_DeviceInterface_Bluetooth_DeviceAddress DEVPROP_TYPE_STRING = Inr None"
    and "get_devnode_property api n PKEY_DeviceInterface_Bluetooth_ModelNumber DEVPROP_TYPE_STRING = Inr None"
    and "get_dev_node_parent api n = Some p"
    and "get_devnode_property api p DEVPKEY_NAME DEVPROP_TYPE_STRING = Inr (Some name)"
    and "cast_slice_u16 name = Inr units"
  shows "get_ble_info api dev n = Inr (dev\<lparr>product_string := u16str_to_wstring units\<rparr>)"
  using assms
  by (simp add: get_ble_info_def ble_fill_def ble_fetch_string_def ble_product_property_def)

lemma get_ble_info_ident: "get_ble_info api dev n = Inr dev' \<Longrightarrow> ident_fields dev' = ident_fields dev"
  by (auto simp: get_ble_info_def pbind_eq_Inr dest!: ble_fill_cases)

end
