(* ===== verification/Enumerate.thy ===== *)
theory Enumerate
  imports BusClassifier UsbInfo BleInfo "HOL-Library.Multiset"
begin

text \<open>
  The device enumerator of \<open>src/src/windows_native.rs\<close>: the interface list
  with its retry loop (\<open>get_interface_list\<close>, lines 34--68), the handle opener
  (\<open>open_device\<close>, 70--87), the fast-path string reader (\<open>read_string\<close>,
  89--102), the record builder (\<open>get_device_info\<close>, 104--140), the identity
  dispatcher (\<open>get_internal_info\<close>, 142--183) and the driver
  \<open>HidApiBackend::get_hid_device_info_vector\<close> (300--315).  The platform is
  the record \<open>win_api\<close>: the configuration manager of \<open>ConfigManager\<close>, the
  interface-list calls as functions of the call's position in time (the list
  may change between two calls), the HID calls on an open handle, and the memory
  that lies after the interface-list buffer.  The open handles are a multiset
  that \<open>open_device\<close> adds to and \<open>CloseHandle\<close> removes from.
\<close>

unbundle bit_operations_syntax

type_synonym handle = nat

subsection \<open>Platform interface\<close>

text \<open>
  \<open>CM_Get_Device_Interface_List_SizeW\<close> and \<open>CM_Get_Device_Interface_ListW\<close>
  at call number \<open>t\<close>; the second receives the buffer length and returns the
  units it writes into the buffer.
\<close>

record enum_api =
  cm_list_size :: "nat \<Rightarrow> configret \<times> u32"
  cm_list :: "nat \<Rightarrow> u32 \<Rightarrow> configret \<times> u16 list"

text \<open>
  \<open>CreateFileW\<close> (with the desired access) and the \<open>HidD_*\<close> and \<open>HidP_*\<close>
  queries on a handle.  \<open>None\<close> is a failed call (\<open>INVALID_HANDLE_VALUE\<close> or a
  \<open>FALSE\<close> result); a string query returns the units it writes.
\<close>

record hid_api =
  create_file :: "u16 list \<Rightarrow> u32 \<Rightarrow> handle option"
  hidd_get_attributes :: "handle \<Rightarrow> (u16 \<times> u16 \<times> u16) option"
  hidd_get_preparsed_data :: "handle \<Rightarrow> bool"
  hidp_get_caps :: "handle \<Rightarrow> u16 \<times> u16"
  hidd_get_serial_number_string :: "handle \<Rightarrow> u16 list option"
  hidd_get_manufacturer_string :: "handle \<Rightarrow> u16 list option"
  hidd_get_product_string :: "handle \<Rightarrow> u16 list option"

record win_api =
  w_cm :: cm_api
  w_enum :: enum_api
  w_hid :: hid_api
  w_beyond :: "u16 list" \<comment> \<open>the memory that follows the interface-list buffer\<close>

definition GENERIC_READ :: u32 where "GENERIC_READ = 0x80000000"
definition GENERIC_WRITE :: u32 where "GENERIC_WRITE = 0x40000000"

subsection \<open>The interface list (lines 34--68)\<close>

text \<open>\<open>Vec::resize(n, 0)\<close>.\<close>

definition resize :: "u16 list \<Rightarrow> nat \<Rightarrow> u16 list" where
  "resize xs n = take n xs @ replicate (n - length xs) 0"

text \<open>
  The \<open>loop\<close>: query the size, resize the vector, fetch; retry from the size
  query while the fetch answers \<open>CR_BUFFER_SMALL\<close>.  Nothing bounds the number
  of retries, so the loop is a partial function: \<open>None\<close> is a loop that never
  ends.  The two \<open>assert!\<close>s are panics.
\<close>

partial_function (option) interface_list_loop :: "enum_api \<Rightarrow> nat \<Rightarrow> u16 list \<Rightarrow> u16 list res option" where
  "interface_list_loop api t device_interface_list =
     (case cm_list_size api t of
        (cr, len) \<Rightarrow>
          if cr \<noteq> CR_SUCCESS then Some (Inl AssertInterfaceListSize)
          else
            (let buf = resize device_interface_list (unat len) in
             case cm_list api (Suc t) (word_of_nat (length buf)) of
               (cr2, data) \<Rightarrow>
                 let buf2 = overlay data buf in
                 if \<not> (cr2 = CR_SUCCESS \<or> cr2 = CR_BUFFER_SMALL) then Some (Inl AssertInterfaceList)
                 else if cr2 = CR_SUCCESS then Some (Inr buf2)
                 else interface_list_loop api (t + 2) buf2))"

definition get_interface_list :: "enum_api \<Rightarrow> u16 list res option" where
  "get_interface_list api = interface_list_loop api 0 []"

subsection \<open>Opening a device and reading its record (lines 70--140)\<close>

definition open_device :: "hid_api \<Rightarrow> u16 list \<Rightarrow> bool \<Rightarrow> handle option" where
  "open_device hid device_path open_rw =
     create_file hid device_path (if open_rw then GENERIC_WRITE OR GENERIC_READ else 0)"

text \<open>
  \<open>read_string\<close>: a buffer of 256 units, the part before the first NUL; an empty
  string when the call fails.
\<close>

definition read_string :: "u16 list option \<Rightarrow> wchar_string" where
  "read_string r =
     (case r of
        Some data \<Rightarrow> u16str_to_wstring (hd (split_slice (\<lambda>c. c = 0) (overlay data (replicate 256 0))))
      | None \<Rightarrow> WString [])"

text \<open>
  \<open>get_internal_info\<close> (lines 142--183), in two blocks.  Lines 143--150: the
  instance id of the interface, its node, and the node's parent.
\<close>

definition locate_interface_node :: "cm_api \<Rightarrow> u16 list \<Rightarrow> devinst option res" where
  "locate_interface_node api interface_path =
     pbind (get_device_interface_property api interface_path DEVPKEY_Device_InstanceId DEVPROP_TYPE_STRING)
       (\<lambda>r. case r of
          None \<Rightarrow> Inr None
        | Some device_id \<Rightarrow>
            (case cm_locate_devnode api device_id of
               (cr, node) \<Rightarrow>
                 if cr \<noteq> CR_SUCCESS then Inr None else Inr (get_dev_node_parent api node)))"

text \<open>
  Lines 154--180: the bus class of the compatible ids, stored in the record, and
  the USB or BLE resolver; the \<open>Option<()>\<close> of the resolvers is discarded.
\<close>

definition resolve_bus :: "cm_api \<Rightarrow> device_info \<Rightarrow> devinst \<Rightarrow> u16 list \<Rightarrow> device_info res" where
  "resolve_bus api dev dev_node compatible_ids =
     (let bus = bus_type_of_compatible_ids compatible_ids;
          dev1 = dev\<lparr>bus_type := bus_type_of_internal bus\<rparr>
      in case bus of
           Usb \<Rightarrow> pbind (get_usb_info api dev1 dev_node) (\<lambda>(_, d). Inr d)
         | BluetoothLE \<Rightarrow> get_ble_info api dev1 dev_node
         | _ \<Rightarrow> Inr dev1)"

definition get_internal_info ::
    "cm_api \<Rightarrow> u16 list \<Rightarrow> device_info \<Rightarrow> (unit option \<times> device_info) res" where
  "get_internal_info api interface_path dev =
     pbind (locate_interface_node api interface_path)
       (\<lambda>n. case n of
          None \<Rightarrow> Inr (None, dev)
        | Some dev_node \<Rightarrow>
            pbind (get_devnode_property api dev_node DEVPKEY_Device_CompatibleIds DEVPROP_TYPE_STRING_LIST)
              (\<lambda>c. case c of
                 None \<Rightarrow> Inr (None, dev)
               | Some compatible_ids \<Rightarrow>
                   pbind (cast_slice_u16 compatible_ids)
                     (\<lambda>ids. pbind (resolve_bus api dev dev_node ids) (\<lambda>dev2. Inr (Some (), dev2)))))"

text \<open>
  \<open>get_device_info\<close> (lines 104--140).  \<open>path_units\<close> is the interface slice \<open>path\<close>;
  \<open>interface_path\<close> is the string the platform reads at \<open>path.as_ptr()\<close>.
  Attributes and capabilities stay zero when their calls fail.
\<close>

definition get_device_info :: "cm_api \<Rightarrow> hid_api \<Rightarrow> u16 list \<Rightarrow> u16 list \<Rightarrow> handle \<Rightarrow> device_info res" where
  "get_device_info api hid path_units interface_path h =
     (let (vid, pid, ver) = (case hidd_get_attributes hid h of Some a \<Rightarrow> a | None \<Rightarrow> (0, 0, 0));
          (up, u) = (if hidd_get_preparsed_data hid h then hidp_get_caps hid h else (0, 0))
      in case from_utf16 path_units of
           None \<Rightarrow> Inl UnwrapPathUtf16
         | Some p \<Rightarrow>
             if 0 \<in> set (encode_utf8 p) then Inl UnwrapPathNul
             else
               (let dev = \<lparr>path = encode_utf8 p, vendor_id = vid, product_id = pid,
                           serial_number = read_string (hidd_get_serial_number_string hid h),
                           release_number = ver,
                           manufacturer_string = read_string (hidd_get_manufacturer_string hid h),
                           product_string = read_string (hidd_get_product_string hid h),
                           usage_page = up, usage = u, interface_number = -1,
                           bus_type = BusUnknown\<rparr>
                in pbind (get_internal_info api interface_path dev) (\<lambda>(_, d). Inr d)))"

subsection \<open>The driver (lines 300--315)\<close>

text \<open>
  The interface slices of \<open>split(|c| *c == 0)\<close> with the offsets at which they
  start in the buffer; \<open>as_ptr()\<close> of a slice points there.
\<close>

fun seg_offsets :: "nat \<Rightarrow> 'a list list \<Rightarrow> (nat \<times> 'a list) list" where
  "seg_offsets k [] = []"
| "seg_offsets k (s # ss) = (k, s) # seg_offsets (k + length s + 1) ss"

text \<open>The NUL-terminated string the platform reads at an offset of the buffer.\<close>

definition read_wide_cstr :: "u16 list \<Rightarrow> nat \<Rightarrow> u16 list" where
  "read_wide_cstr mem off = takeWhile (\<lambda>c. c \<noteq> 0) (drop off mem)"

text \<open>
  The \<open>for\<close> loop: open each interface read-only, build its record, close the
  handle.  A panic in \<open>get_device_info\<close> unwinds past \<open>CloseHandle\<close>.
\<close>

fun enum_interfaces ::
    "win_api \<Rightarrow> u16 list \<Rightarrow> (nat \<times> u16 list) list \<Rightarrow> handle multiset \<Rightarrow> device_info list \<Rightarrow>
       device_info list res \<times> handle multiset" where
  "enum_interfaces w buf [] hs device_vector = (Inr device_vector, hs)"
| "enum_interfaces w buf ((off, device_interface) # segs) hs device_vector =
     (let p = read_wide_cstr (buf @ w_beyond w) off in
      case open_device (w_hid w) p False of
        None \<Rightarrow> enum_interfaces w buf segs hs device_vector
      | Some device_handle \<Rightarrow>
          (let hs1 = add_mset device_handle hs in
           case get_device_info (w_cm w) (w_hid w) device_interface p device_handle of
             Inl e \<Rightarrow> (Inl e, hs1)
           | Inr d \<Rightarrow> enum_interfaces w buf segs (hs1 - {#device_handle#}) (device_vector @ [d])))"

definition get_hid_device_info_vector ::
    "win_api \<Rightarrow> handle multiset \<Rightarrow> (device_info list res \<times> handle multiset) option" where
  "get_hid_device_info_vector w hs =
     (case get_interface_list (w_enum w) of
        None \<Rightarrow> None
      | Some (Inl e) \<Rightarrow> Some (Inl e, hs)
      | Some (Inr buf) \<Rightarrow>
          Some (enum_interfaces w buf (seg_offsets 0 (split_slice (\<lambda>c. c = 0) buf)) hs []))"

subsection \<open>A platform whose interface list changes over time\<close>

text \<open>
  The interface-list calls as documented, over the list \<open>L t\<close> present at call
  number \<open>t\<close>: the size query reports its length, the fetch succeeds when the
  buffer is large enough and reports \<open>CR_BUFFER_SMALL\<close> otherwise.
\<close>

definition enum_store :: "(nat \<Rightarrow> u16 list) \<Rightarrow> enum_api" where
  "enum_store L =
     \<lparr>cm_list_size = (\<lambda>t. (CR_SUCCESS, word_of_nat (length (L t)))),
      cm_list = (\<lambda>t n. if length (L t) \<le> unat n then (CR_SUCCESS, L t) else (CR_BUFFER_SMALL, []))\<rparr>"

subsection \<open>Lemmas: the interface-list loop\<close>

lemma length_resize [simp]: "length (resize xs n) = n"
  by (simp add: resize_def)


lemma interface_list_loop_store:
  assumes "length (L t) < 2 ^ 32"
  shows "interface_list_loop (enum_store L) t buf =
     (if length (L (Suc t)) \<le> length (L t)
      then Some (Inr (overlay (L (Suc t)) (resize buf (length (L t)))))
      else interface_list_loop (enum_store L) (t + 2) (resize buf (length (L t))))"
proof -
  have u: "unat (word_of_nat (length (L t)) :: u32) = length (L t)"
    using assms by (simp add: unat_of_nat)
  show ?thesis
    by (subst interface_list_loop.simps)
       (simp add: enum_store_def u CR_SUCCESS_def CR_BUFFER_SMALL_def Let_def)
qed

text \<open>
  C26: The retry loop of get_interface_list returns a list, without panicking, as soon as the list stops growing between a size query and the fetch that follows it.
\<close>

theorem interface_list_loop_terminates:
  assumes "\<forall>j. length (L j) < 2 ^ 32"
    and "length (L (t + 2 * k + 1)) \<le> length (L (t + 2 * k))"
  shows "\<exists>r. interface_list_loop (enum_store L) t buf = Some (Inr r)"
  using assms(2)
proof (induction k arbitrary: t buf)
  case 0
  then show ?case
    using assms(1) by (simp add: interface_list_loop_store)
next
  case (Suc k)
  show ?case
  proof (cases "length (L (Suc t)) \<le> length (L t)")
    case True
    then show ?thesis
      using assms(1) by (simp add: interface_list_loop_store)
  next
    case False
    have "length (L (t + 2 + 2 * k + 1)) \<le> length (L (t + 2 + 2 * k))"
      using Suc.prems by (simp add: algebra_simps)
    then obtain r where "interface_list_loop (enum_store L) (t + 2) (resize buf (length (L t))) = Some (Inr r)"
      using Suc.IH by blast
    with False show ?thesis
      using assms(1) by (simp add: interface_list_loop_store)
  qed
qed

text \<open>
  C27: On a platform whose interface list does not change, get_interface_list returns that list after one size query and one fetch.
\<close>

theorem get_interface_list_stable:
  "length l < 2 ^ 32 \<Longrightarrow> get_interface_list (enum_store (\<lambda>_. l)) = Some (Inr l)"
  by (simp add: get_interface_list_def interface_list_loop_store resize_def overlay_exact)

subsection \<open>Lemmas: interface slices and the pointers passed to the platform\<close>

lemma seg_offsets_not_Nil [simp]: "seg_offsets k ss = [] \<longleftrightarrow> ss = []"
  by (cases ss) simp_all

lemma join_sep_Cons: "ss \<noteq> [] \<Longrightarrow> join_sep c (r # ss) = r @ c # join_sep c ss"
  by (cases ss) simp_all

lemma last_seg_offsets_Cons:
  "ss \<noteq> [] \<Longrightarrow> last (seg_offsets k (r # ss)) = last (seg_offsets (k + length r + 1) ss)"
  by simp

lemma seg_offsets_last_snd: "ss \<noteq> [] \<Longrightarrow> snd (last (seg_offsets k ss)) = last ss"
proof (induction ss arbitrary: k)
  case Nil
  then show ?case by simp
next
  case (Cons r ss)
  then show ?case
    by (cases "ss = []") (simp_all only: last_seg_offsets_Cons last.simps if_False, simp_all)
qed

lemma seg_offsets_last_end:
  "ss \<noteq> [] \<Longrightarrow> fst (last (seg_offsets k ss)) + length (last ss) = k + length (join_sep c ss)"
proof (induction ss arbitrary: k)
  case Nil
  then show ?case by simp
next
  case (Cons r ss)
  show ?case
  proof (cases "ss = []")
    case True
    then show ?thesis by simp
  next
    case False
    have "fst (last (seg_offsets (k + length r + 1) ss)) + length (last ss)
        = k + length r + 1 + length (join_sep c ss)"
      using Cons.IH [OF False] .
    with False show ?thesis
      by (simp only: last_seg_offsets_Cons [OF False] join_sep_Cons [OF False] last.simps if_False) simp
  qed
qed

text \<open>
  For a NUL-terminated interface list, the last slice of its split is empty and starts one unit past the end of the buffer, so as_ptr of that slice points outside the allocation.
\<close>

theorem last_interface_slice_past_buffer:
  "last (seg_offsets 0 (split_slice (\<lambda>c. c = 0) (buf @ [0 :: u16]))) = (length (buf @ [0]), [])"
proof -
  let ?ss = "split_slice (\<lambda>c. c = (0::u16)) (buf @ [0])"
  have ne: "?ss \<noteq> []" by simp
  have nil: "last ?ss = []"
    by (simp add: split_slice_snoc_sep)
  have "fst (last (seg_offsets 0 ?ss)) + length (last ?ss) = 0 + length (join_sep 0 ?ss)"
    by (rule seg_offsets_last_end [OF ne])
  then have "fst (last (seg_offsets 0 ?ss)) = length (buf @ [0])"
    by (simp only: nil split_slice_join) simp
  moreover have "snd (last (seg_offsets 0 ?ss)) = []"
    using seg_offsets_last_snd [OF ne] nil by simp
  ultimately show ?thesis
    by (metis prod.collapse)
qed

lemma read_past_buffer: "read_wide_cstr (buf @ m) (length buf) = takeWhile (\<lambda>c. c \<noteq> 0) m"
  by (simp add: read_wide_cstr_def)

subsection \<open>Lemmas: the driver\<close>

lemma read_string_Some:
  "length data \<le> 256 \<Longrightarrow> read_string (Some data) = u16str_to_wstring (takeWhile (\<lambda>c. c \<noteq> 0) data)"
  by (cases "\<forall>c \<in> set data. c \<noteq> 0")
     (auto simp: read_string_def overlay_def hd_split_slice takeWhile_append2 takeWhile_append1
       takeWhile_eq_all_conv [THEN iffD2])


text \<open>
  C29: The driver loop closes every handle it opens when it returns normally; when get_device_info panics it leaves exactly one more handle open.
\<close>

theorem enum_interfaces_handles:
  "enum_interfaces w buf segs hs acc = (r, hs') \<Longrightarrow>
     (case r of Inr _ \<Rightarrow> hs' = hs | Inl _ \<Rightarrow> \<exists>h. hs' = add_mset h hs)"
proof (induction w buf segs hs acc rule: enum_interfaces.induct)
  case (1 w buf hs device_vector)
  then show ?case by auto
next
  case (2 w buf off device_interface segs hs device_vector)
  then show ?case
    by (auto simp: Let_def split: option.splits sum.splits)
qed

lemma resolve_bus_interface_or_usb:
  "resolve_bus api dev n ids = Inr dev' \<Longrightarrow>
     interface_number dev' = interface_number dev \<or> bus_type dev' = BusUsb"
  by (cases "bus_type_of_compatible_ids ids")
     (auto simp: resolve_bus_def pbind_eq_Inr dest!: get_usb_info_bus_type get_ble_info_frame)

lemma get_internal_info_interface_or_usb:
  "get_internal_info api p dev = Inr (r, dev') \<Longrightarrow>
     interface_number dev' = interface_number dev \<or> bus_type dev' = BusUsb"
  by (auto simp: get_internal_info_def pbind_eq_Inr split: option.split_asm
      dest!: resolve_bus_interface_or_usb)

theorem get_internal_info_non_usb_interface:
  "get_internal_info api p dev = Inr (r, dev') \<Longrightarrow> bus_type dev' \<noteq> BusUsb \<Longrightarrow>
     interface_number dev' = interface_number dev"
  using get_internal_info_interface_or_usb by blast

text \<open>
  C13: Every record get_device_info returns whose bus type is not USB has interface number -1: only the USB resolver normalises it.
\<close>

theorem get_device_info_non_usb_interface:
  assumes "get_device_info api hid path_units p h = Inr d" and "bus_type d \<noteq> BusUsb"
  shows "interface_number d = -1"
  using assms
  by (auto simp: get_device_info_def pbind_eq_Inr Let_def split: option.split_asm if_split_asm
      prod.split_asm dest!: get_internal_info_non_usb_interface)

subsection \<open>Lemmas: the identity fields and the path of a record\<close>

lemma resolve_bus_ident:
  "resolve_bus api dev n ids = Inr dev' \<Longrightarrow> ident_fields dev' = ident_fields dev"
  by (cases "bus_type_of_compatible_ids ids")
     (auto simp: resolve_bus_def pbind_eq_Inr dest!: get_usb_info_ident get_ble_info_ident)

lemma get_internal_info_ident:
  "get_internal_info api p dev = Inr (r, dev') \<Longrightarrow> ident_fields dev' = ident_fields dev"
  by (auto simp: get_internal_info_def pbind_eq_Inr split: option.split_asm dest!: resolve_bus_ident)

text \<open>
  C21: The identity dispatcher get_internal_info, with the USB and Bluetooth LE resolvers it calls, never changes the path, the vendor and product ids or the usage page and usage of the record it completes, on every path that does not panic.
\<close>

theorem get_internal_info_identity:
  assumes "get_internal_info api p dev = Inr (r, dev')"
  shows "path dev' = path dev \<and> vendor_id dev' = vendor_id dev \<and> product_id dev' = product_id dev \<and>
         usage_page dev' = usage_page dev \<and> usage dev' = usage dev"
  using get_internal_info_ident [OF assms] by (simp add: ident_fields_def)

lemma get_device_info_path:
  "get_device_info api hid path_units p h = Inr d \<Longrightarrow>
     \<exists>s. from_utf16 path_units = Some s \<and> path d = encode_utf8 s \<and> 0 \<notin> set (path d)"
  by (auto simp: get_device_info_def pbind_eq_Inr Let_def ident_fields_def split: option.split_asm
      if_split_asm prod.split_asm dest!: get_internal_info_ident)

lemma enum_interfaces_paths:
  "enum_interfaces w buf segs hs acc = (Inr v, hs') \<Longrightarrow>
     list_all (\<lambda>d. 0 \<notin> set (path d) \<and> (\<exists>s. path d = encode_utf8 s)) acc \<Longrightarrow>
     list_all (\<lambda>d. 0 \<notin> set (path d) \<and> (\<exists>s. path d = encode_utf8 s)) v"
proof (induction w buf segs hs acc rule: enum_interfaces.induct)
  case (1 w buf hs device_vector)
  then show ?case by simp
next
  case (2 w buf off device_interface segs hs device_vector)
  show ?case
  proof (cases "open_device (w_hid w) (read_wide_cstr (buf @ w_beyond w) off) False")
    case None
    with 2 show ?thesis by simp
  next
    case (Some h)
    with "2.prems"(1) obtain d where
      d: "get_device_info (w_cm w) (w_hid w) device_interface (read_wide_cstr (buf @ w_beyond w) off) h = Inr d"
      and rest: "enum_interfaces w buf segs (add_mset h hs - {#h#}) (device_vector @ [d]) = (Inr v, hs')"
      by (auto simp: Let_def split: sum.split_asm)
    have "list_all (\<lambda>d. 0 \<notin> set (path d) \<and> (\<exists>s. path d = encode_utf8 s)) (device_vector @ [d])"
      using "2.prems"(2) get_device_info_path [OF d] by auto
    with "2.IH"(2) [OF refl Some refl d] rest show ?thesis by simp
  qed
qed


subsection \<open>Lemmas: the slice past the buffer\<close>

lemma enum_interfaces_append:
  "enum_interfaces w buf (segs @ segs') hs acc =
     (case enum_interfaces w buf segs hs acc of
        (Inl e, hs1) \<Rightarrow> (Inl e, hs1)
      | (Inr v, hs1) \<Rightarrow> enum_interfaces w buf segs' hs1 v)"
  by (induction w buf segs hs acc rule: enum_interfaces.induct)
     (simp_all add: Let_def split: option.split sum.split)

lemma seg_offsets_butlast_last:
  "seg_offsets 0 (split_slice (\<lambda>c. c = 0) (buf @ [0 :: u16])) =
     butlast (seg_offsets 0 (split_slice (\<lambda>c. c = 0) (buf @ [0]))) @ [(Suc (length buf), [])]"
  using last_interface_slice_past_buffer [of buf] append_butlast_last_id [of "seg_offsets 0 (split_slice (\<lambda>c. c = 0) (buf @ [0 :: u16]))"]
  by simp


end
