(* ===== verification/CBackend.thy ===== *)
theory CBackend
  imports DeviceInfo
begin

text \<open>
  The part of \<open>src/src/windows_native.rs\<close> that goes through the C library of
  hidapi (\<open>ffi\<close>): the conversion of a \<open>wchar_t\<close> string (\<open>wchar_to_string\<close>,
  lines 370--404) and of a C device record (\<open>conv_hid_device_info\<close>, 406--421),
  the entry points of \<open>HidApiBackend\<close> that open a device or read the last
  error (317--368), and the methods of \<open>HidDevice\<close> (423--631).  The C
  library is the record \<open>c_api\<close>: every \<open>ffi\<close> function the file calls, as a
  function of its arguments.  A pointer to a C string is \<open>None\<close> when it is
  null and otherwise the memory readable from it, up to the end of its
  allocation; reading past that end is the fault \<open>ReadPastAllocation\<close>.
  \<open>wchar_t\<close> is the 16-bit unit of Windows, \<open>usize\<close> a 64-bit word.
\<close>

type_synonym usize = "64 word"
type_synonym wptr = "u16 list option"
type_synonym dev = nat
type_synonym guid = "u8 list"

subsection \<open>\<open>wchar_to_string\<close> (lines 370--404)\<close>

text \<open>\<open>char::from_u32\<close>: a scalar value, not a surrogate.\<close>

definition char_from_u32 :: "nat \<Rightarrow> nat option" where
  "char_from_u32 c = (if c < 0xD800 \<or> (0xDFFF < c \<and> c \<le> 0x10FFFF) then Some c else None)"

text \<open>
  The \<open>while\<close> loop of lines 383--397 over \<open>index\<close>, with the vectors of
  characters and of raw units and the flag \<open>invalid_char\<close>; it stops at the
  first NUL.  The readable memory is finite, so the loop is a function whose
  measure is the number of readable units left.
\<close>

function wchar_loop :: "u16 list \<Rightarrow> nat \<Rightarrow> nat list \<Rightarrow> u16 list \<Rightarrow> bool \<Rightarrow> wchar_string res" where
  "wchar_loop mem index char_vector raw_vector invalid_char =
     (if length mem \<le> index then Inl ReadPastAllocation
      else if mem ! index = 0 then
        Inr (if \<not> invalid_char then WString char_vector else WRaw raw_vector)
      else
        (let c = mem ! index;
             (cv, invalid) = (if invalid_char then (char_vector, True)
                          else (case char_from_u32 (unat c) of
                                  Some ch \<Rightarrow> (char_vector @ [ch], False)
                                | None \<Rightarrow> (char_vector, True)))
         in wchar_loop mem (Suc index) cv (raw_vector @ [c]) invalid))"
  by pat_completeness auto
termination
  by (relation "measure (\<lambda>(mem, index, _). length mem - index)") auto

declare wchar_loop.simps [simp del]

definition wchar_to_string :: "wptr \<Rightarrow> wchar_string res" where
  "wchar_to_string wstr = (case wstr of None \<Rightarrow> Inr WNone | Some mem \<Rightarrow> wchar_loop mem 0 [] [] False)"

text \<open>
  The reference: the units before the first NUL, as characters when none is a
  surrogate and raw otherwise.
\<close>

definition wchar_ref :: "u16 list \<Rightarrow> wchar_string res" where
  "wchar_ref mem =
     (if 0 \<in> set mem then
        (let us = takeWhile (\<lambda>u. u \<noteq> 0) mem
         in Inr (if list_all (\<lambda>u. \<not> is_surrogate u) us then WString (map unat us) else WRaw us))
      else Inl ReadPastAllocation)"

subsection \<open>\<open>conv_hid_device_info\<close> (lines 406--421)\<close>

text \<open>The C record \<open>ffi::HidDeviceInfo\<close> (defined outside \<open>src/\<close>).\<close>

record ffi_device_info =
  fi_path :: "u8 list option"
  fi_vendor_id :: u16
  fi_product_id :: u16
  fi_serial_number :: wptr
  fi_release_number :: u16
  fi_manufacturer_string :: wptr
  fi_product_string :: wptr
  fi_usage_page :: u16
  fi_usage :: u16
  fi_interface_number :: i32
  fi_bus_type :: bus_type

text \<open>
  \<open>CStr::from_ptr(p).to_owned()\<close>: the bytes before the first NUL.  A null
  pointer has no readable memory.
\<close>

definition cstr_from_ptr :: "u8 list option \<Rightarrow> u8 list res" where
  "cstr_from_ptr p =
     (let mem = (case p of None \<Rightarrow> [] | Some m \<Rightarrow> m)
      in if 0 \<in> set mem then Inr (takeWhile (\<lambda>b. b \<noteq> 0) mem) else Inl ReadPastAllocation)"

text \<open>\<open>HidError\<close> of the crate, the variants this file builds.\<close>

datatype hid_error =
    HidApiError "nat list"
  | HidApiErrorEmpty
  | InvalidZeroSizeData
  | IncompleteSendError usize usize
  | SetBlockingModeError string

type_synonym 'a hid_result = "hid_error + 'a"

definition conv_hid_device_info :: "ffi_device_info \<Rightarrow> device_info hid_result res" where
  "conv_hid_device_info src =
     pbind (cstr_from_ptr (fi_path src)) (\<lambda>p.
     pbind (wchar_to_string (fi_serial_number src)) (\<lambda>sn.
     pbind (wchar_to_string (fi_manufacturer_string src)) (\<lambda>ms.
     pbind (wchar_to_string (fi_product_string src)) (\<lambda>ps.
       Inr (Inr \<lparr>path = p, vendor_id = fi_vendor_id src, product_id = fi_product_id src,
                 serial_number = sn, release_number = fi_release_number src,
                 manufacturer_string = ms, product_string = ps, usage_page = fi_usage_page src,
                 usage = fi_usage src, interface_number = fi_interface_number src,
                 bus_type = fi_bus_type src\<rparr>)))))"

subsection \<open>The C library\<close>

text \<open>
  The \<open>ffi\<close> calls the file makes.  \<open>c_hid_error\<close> takes the device, or
  \<open>None\<close> for the null pointer of \<open>HidApiBackend::check_error\<close>, and returns the
  message pointer.  \<open>c_hid_open\<close> receives the serial number as the wide
  string it reads.  A string query returns its result and the units it writes
  into the caller's buffer of the given length; \<open>c_stack_beyond\<close> is the
  memory that follows that buffer.
\<close>

datatype string_query = QManufacturer | QProduct | QSerialNumber | QIndexed i32

record c_api =
  c_hid_error :: "dev option \<Rightarrow> wptr"
  c_hid_open :: "u16 \<Rightarrow> u16 \<Rightarrow> u16 list option \<Rightarrow> dev option"
  c_hid_open_path :: "u8 list \<Rightarrow> dev option"
  c_hid_write :: "dev \<Rightarrow> u8 list \<Rightarrow> i32"
  c_hid_read :: "dev \<Rightarrow> usize \<Rightarrow> i32"
  c_hid_read_timeout :: "dev \<Rightarrow> usize \<Rightarrow> i32 \<Rightarrow> i32"
  c_hid_send_feature_report :: "dev \<Rightarrow> u8 list \<Rightarrow> i32"
  c_hid_get_feature_report :: "dev \<Rightarrow> usize \<Rightarrow> i32"
  c_hid_set_nonblocking :: "dev \<Rightarrow> i32 \<Rightarrow> i32"
  c_hid_get_string :: "string_query \<Rightarrow> dev \<Rightarrow> usize \<Rightarrow> i32 \<times> u16 list"
  c_hid_get_device_info :: "dev \<Rightarrow> ffi_device_info option"
  c_hid_get_container_id :: "dev \<Rightarrow> i32 \<times> guid"
  c_stack_beyond :: "u16 list"

text \<open>
  \<open>?\<close> on a \<open>HidResult\<close> inside the panic sum, and the pattern
  \<open>match self.check_error() { Ok(err) => Err(err), Err(e) => Err(e) }\<close>.
\<close>

definition hbind :: "'a hid_result res \<Rightarrow> ('a \<Rightarrow> 'b hid_result res) \<Rightarrow> 'b hid_result res" where
  "hbind r f = pbind r (\<lambda>x. case x of Inl e \<Rightarrow> Inr (Inl e) | Inr a \<Rightarrow> f a)"

definition err_of :: "hid_error hid_result \<Rightarrow> hid_error" where
  "err_of r = (case r of Inl e \<Rightarrow> e | Inr e \<Rightarrow> e)"

subsection \<open>\<open>HidApiBackend\<close>: opening and the last error (lines 317--368)\<close>

text \<open>The message of \<open>check_error\<close>: a decoded string, or \<open>HidApiErrorEmpty\<close>.\<close>

definition error_of_message :: "wchar_string \<Rightarrow> hid_error hid_result" where
  "error_of_message w = (case w of WString s \<Rightarrow> Inr (HidApiError s) | _ \<Rightarrow> Inl HidApiErrorEmpty)"

definition backend_check_error :: "c_api \<Rightarrow> hid_error hid_result res" where
  "backend_check_error c = pbind (wchar_to_string (c_hid_error c None)) (\<lambda>w. Inr (error_of_message w))"

text \<open>The block shared by \<open>open\<close>, \<open>open_serial\<close> and \<open>open_path\<close>.\<close>

definition open_result :: "c_api \<Rightarrow> dev option \<Rightarrow> dev hid_result res" where
  "open_result c device =
     (case device of
        None \<Rightarrow> pbind (backend_check_error c) (\<lambda>r. Inr (Inl (err_of r)))
      | Some d \<Rightarrow> Inr (Inr d))"

definition hid_api_open :: "c_api \<Rightarrow> u16 \<Rightarrow> u16 \<Rightarrow> dev hid_result res" where
  "hid_api_open c vid pid = open_result c (c_hid_open c vid pid None)"

text \<open>
  \<open>sn.chars().map(|c| c as wchar_t)\<close> and the terminator: \<open>as\<close> keeps the low
  16 bits of each scalar value; the C library reads up to the first NUL.
\<close>

definition serial_wide :: "nat list \<Rightarrow> u16 list" where
  "serial_wide sn = map (\<lambda>ch. word_of_nat ch) sn @ [0]"

definition hid_api_open_serial :: "c_api \<Rightarrow> u16 \<Rightarrow> u16 \<Rightarrow> nat list \<Rightarrow> dev hid_result res" where
  "hid_api_open_serial c vid pid sn =
     open_result c (c_hid_open c vid pid (Some (takeWhile (\<lambda>u. u \<noteq> 0) (serial_wide sn))))"

definition hid_api_open_path :: "c_api \<Rightarrow> u8 list \<Rightarrow> dev hid_result res" where
  "hid_api_open_path c device_path = open_result c (c_hid_open_path c device_path)"

subsection \<open>\<open>HidDevice\<close> (lines 423--631)\<close>

definition device_check_error :: "c_api \<Rightarrow> dev \<Rightarrow> hid_error hid_result res" where
  "device_check_error c d = pbind (wchar_to_string (c_hid_error c (Some d))) (\<lambda>w. Inr (error_of_message w))"

text \<open>\<open>check_size\<close>: \<open>res as usize\<close> sign-extends the \<open>i32\<close>.\<close>

definition check_size :: "c_api \<Rightarrow> dev \<Rightarrow> i32 \<Rightarrow> usize hid_result res" where
  "check_size c d res =
     (if res = -1 then pbind (device_check_error c d) (\<lambda>r. Inr (Inl (err_of r)))
      else Inr (Inr (scast res)))"

definition hid_write :: "c_api \<Rightarrow> dev \<Rightarrow> u8 list \<Rightarrow> usize hid_result res" where
  "hid_write c d data =
     (if data = [] then Inr (Inl InvalidZeroSizeData) else check_size c d (c_hid_write c d data))"

definition hid_read :: "c_api \<Rightarrow> dev \<Rightarrow> usize \<Rightarrow> usize hid_result res" where
  "hid_read c d len = check_size c d (c_hid_read c d len)"

definition hid_read_timeout :: "c_api \<Rightarrow> dev \<Rightarrow> usize \<Rightarrow> i32 \<Rightarrow> usize hid_result res" where
  "hid_read_timeout c d len timeout = check_size c d (c_hid_read_timeout c d len timeout)"

definition send_feature_report :: "c_api \<Rightarrow> dev \<Rightarrow> u8 list \<Rightarrow> unit hid_result res" where
  "send_feature_report c d data =
     (if data = [] then Inr (Inl InvalidZeroSizeData)
      else hbind (check_size c d (c_hid_send_feature_report c d data))
             (\<lambda>res. if res \<noteq> word_of_nat (length data)
                    then Inr (Inl (IncompleteSendError res (word_of_nat (length data))))
                    else Inr (Inr ())))"

definition get_feature_report :: "c_api \<Rightarrow> dev \<Rightarrow> usize \<Rightarrow> usize hid_result res" where
  "get_feature_report c d len = check_size c d (c_hid_get_feature_report c d len)"

definition set_blocking_mode :: "c_api \<Rightarrow> dev \<Rightarrow> bool \<Rightarrow> unit hid_result res" where
  "set_blocking_mode c d blocking =
     (if c_hid_set_nonblocking c d (if blocking then 0 else 1) = -1
      then Inr (Inl (SetBlockingModeError (if blocking then ''blocking'' else ''not blocking'')))
      else Inr (Inr ()))"

definition STRING_BUF_LEN :: nat where "STRING_BUF_LEN = 128"

text \<open>
  The four string getters (lines 548--599): a buffer of \<open>STRING_BUF_LEN\<close>
  units, the C call, \<open>check_size\<close>, the slice \<open>buf[..res]\<close> (a panic when
  \<open>res\<close> exceeds the buffer), and \<open>wchar_to_string\<close> of the slice's pointer,
  which reads from the start of the buffer whatever the slice's length.
\<close>

definition get_string :: "c_api \<Rightarrow> dev \<Rightarrow> string_query \<Rightarrow> nat list option hid_result res" where
  "get_string c d q =
     (case c_hid_get_string c q d (word_of_nat STRING_BUF_LEN) of
        (res, written) \<Rightarrow>
          hbind (check_size c d res)
            (\<lambda>n. if STRING_BUF_LEN < unat n then Inl SliceIndexOutOfRange
                 else pbind (wchar_to_string (Some (overlay written (replicate STRING_BUF_LEN 0) @ c_stack_beyond c)))
                        (\<lambda>w. Inr (Inr (wstr_opt w)))))"

definition device_get_device_info :: "c_api \<Rightarrow> dev \<Rightarrow> device_info hid_result res" where
  "device_get_device_info c d =
     (case c_hid_get_device_info c d of
        None \<Rightarrow> pbind (device_check_error c d) (\<lambda>r. Inr (Inl (err_of r)))
      | Some raw_device \<Rightarrow> conv_hid_device_info raw_device)"

definition get_container_id :: "c_api \<Rightarrow> dev \<Rightarrow> guid hid_result res" where
  "get_container_id c d =
     (case c_hid_get_container_id c d of
        (res, container_id) \<Rightarrow>
          if res = -1 then pbind (device_check_error c d) (\<lambda>r. Inr (Inl (err_of r)))
          else Inr (Inr container_id))"

subsection \<open>Lemmas: \<open>wchar_to_string\<close>\<close>

lemma char_from_u32_unat: "char_from_u32 (unat (u :: u16)) = (if is_surrogate u then None else Some (unat u))"
  using unat_u16_less [of u] by (auto simp: char_from_u32_def is_surrogate_def)

lemma wchar_loop_eq:
  "wchar_loop mem index cv raw invalid =
     (if 0 \<in> set (drop index mem) then
        (let us = takeWhile (\<lambda>u. u \<noteq> 0) (drop index mem)
         in Inr (if \<not> invalid \<and> list_all (\<lambda>u. \<not> is_surrogate u) us then WString (cv @ map unat us) else WRaw (raw @ us)))
      else Inl ReadPastAllocation)"
proof (induction mem index cv raw invalid rule: wchar_loop.induct)
  case (1 mem index char_vector raw_vector invalid_char)
  show ?case
  proof (cases "length mem \<le> index")
    case True
    then show ?thesis by (simp add: wchar_loop.simps)
  next
    case False
    then have d: "drop index mem = mem ! index # drop (Suc index) mem"
      by (simp add: Cons_nth_drop_Suc)
    show ?thesis
    proof (cases "mem ! index = 0")
      case True
      with False d show ?thesis by (simp add: wchar_loop.simps)
    next
      case nz: False
      show ?thesis
        using "1.IH" [OF _ nz refl refl] False nz d
        by (auto simp: wchar_loop.simps [of mem index] char_from_u32_unat Let_def split: if_splits)
    qed
  qed
qed

lemma encode_char_utf16_pair:
  assumes "0x10000 \<le> ch" and "ch \<le> 0x10FFFF"
  shows "encode_char_utf16 ch =
     [word_of_nat (0xD800 + (ch - 0x10000) div 0x400), word_of_nat (0xDC00 + (ch - 0x10000) mod 0x400)] \<and>
     is_surrogate (word_of_nat (0xD800 + (ch - 0x10000) div 0x400) :: u16) \<and>
     (word_of_nat (0xD800 + (ch - 0x10000) div 0x400) :: u16) \<noteq> 0 \<and>
     (word_of_nat (0xDC00 + (ch - 0x10000) mod 0x400) :: u16) \<noteq> 0"
proof -
  define a where "a = (ch - 0x10000) div 0x400"
  define b where "b = (ch - 0x10000) mod 0x400"
  have "ch - 0x10000 < 0x400 * 0x400" using assms(2) by simp
  then have a: "a < 0x400" unfolding a_def by (rule less_mult_imp_div_less)
  have b: "b < 0x400" by (simp add: b_def)
  have ua: "unat (word_of_nat (0xD800 + a) :: u16) = 0xD800 + a"
    using a by (simp only: unat_of_nat) simp
  have ub: "unat (word_of_nat (0xDC00 + b) :: u16) = 0xDC00 + b"
    using b by (simp only: unat_of_nat) simp
  have "is_surrogate (word_of_nat (0xD800 + a) :: u16)"
    using ua a by (simp add: is_surrogate_def)
  moreover have "(word_of_nat (0xD800 + a) :: u16) \<noteq> 0" "(word_of_nat (0xDC00 + b) :: u16) \<noteq> 0"
    using ua ub by (metis add_is_0 unsigned_0 zero_neq_numeral)+
  ultimately show ?thesis
    using assms(1) by (simp add: encode_char_utf16_def a_def b_def)
qed

text \<open>
  C30: wchar_to_string on readable memory equals its reference: the units before the first NUL, as a string of their values when none is a surrogate, and raw otherwise; without a NUL the read runs past the allocation.
\<close>

theorem wchar_to_string_eq_ref: "wchar_to_string (Some mem) = wchar_ref mem"
  by (simp add: wchar_to_string_def wchar_ref_def wchar_loop_eq Let_def)

text \<open>
  C32: wchar_to_string converts each wchar_t on its own, so a character outside the Basic Multilingual Plane (a valid surrogate pair) comes back raw, while u16str_to_wstring of the native path decodes the same units to the character.
\<close>

theorem wchar_to_string_non_bmp_raw:
  assumes "0x10000 \<le> ch" and "is_scalar ch"
  shows "wchar_to_string (Some (encode_char_utf16 ch @ 0 # m)) = Inr (WRaw (encode_char_utf16 ch)) \<and>
         u16str_to_wstring (encode_char_utf16 ch) = WString [ch]"
proof -
  have le: "ch \<le> 0x10FFFF" using assms(2) by (simp add: is_scalar_def)
  have "wchar_to_string (Some (encode_char_utf16 ch @ 0 # m)) = Inr (WRaw (encode_char_utf16 ch))"
    using encode_char_utf16_pair [OF assms(1) le]
    by (simp add: wchar_to_string_def wchar_loop_eq)
  moreover have "from_utf16 (encode_char_utf16 ch) = Some [ch]"
    using from_utf16_encode_utf16 [of "[ch]"] assms(2) by (simp add: encode_utf16_def)
  ultimately show ?thesis
    by (simp add: u16str_to_wstring_def)
qed

subsection \<open>Lemmas: the C library wrappers\<close>

lemma wchar_to_string_Inl: "wchar_to_string p = Inl e \<Longrightarrow> e = ReadPastAllocation"
  by (cases p) (auto simp: wchar_to_string_def wchar_loop_eq Let_def split: if_splits)

lemma error_of_message_Inl: "error_of_message w = Inl e \<Longrightarrow> e = HidApiErrorEmpty"
  by (auto simp: error_of_message_def split: wchar_string.splits)

lemma device_check_error_Inl: "device_check_error c d = Inl e \<Longrightarrow> e = ReadPastAllocation"
  by (auto simp: device_check_error_def pbind_eq_Inl dest: wchar_to_string_Inl)

lemma device_check_error_Err: "device_check_error c d = Inr (Inl e) \<Longrightarrow> e = HidApiErrorEmpty"
  by (auto simp: device_check_error_def pbind_eq_Inr dest: error_of_message_Inl)

lemma hid_api_open_Inl: "hid_api_open c vid pid = Inl e \<Longrightarrow> e = ReadPastAllocation"
  by (auto simp: hid_api_open_def open_result_def backend_check_error_def pbind_eq_Inl
      dest: wchar_to_string_Inl split: option.splits)

lemma unat_scast_i32: "unat (scast (res :: i32) :: usize) = nat (sint res mod 2 ^ 64)"
  by (simp only: scast_eq unat_eq_nat_uint uint_word_of_int_eq take_bit_eq_mod) simp

lemma scast_negative_large: "sint (res::i32) < -1 \<Longrightarrow> 2^63 \<le> nat (sint res mod 2 ^ 64)"
proof -
  assume a: "sint res < -1"
  have "sint res mod 2 ^ 64 = (sint res + 2 ^ 64) mod 2 ^ 64" by simp
  also have "\<dots> = sint res + 2 ^ 64"
    using a sint_ge [of res] by (intro mod_pos_pos_trivial) simp_all
  finally show ?thesis using sint_ge [of res] by simp
qed

lemma word_of_nat_mod_u16: "word_of_nat (ch mod 65536) = (word_of_nat ch :: u16)"
  by (rule word_unat_eq_iff [THEN iffD2]) (simp add: unat_of_nat)

lemma unat_scast_nonneg: "0 \<le> sint (res :: i32) \<Longrightarrow> unat (scast res :: usize) = nat (sint res)"
  using sint_lt [of res] by (simp add: unat_scast_i32 mod_pos_pos_trivial)

lemma sint_minus_one_iff: "res = -1 \<longleftrightarrow> sint (res :: i32) = -1"
  by (metis signed_word_eqI sint_n1)

lemma check_size_ok: "res \<noteq> -1 \<Longrightarrow> check_size c d res = Inr (Inr (scast res))"
  by (simp add: check_size_def)

text \<open>
  C33: check_size treats only -1 as an error; any other negative result of the C library becomes, through the sign-extending cast to usize, a success carrying a size of at least 2^63.
\<close>

theorem check_size_negative:
  assumes "sint res < -1"
  shows "\<exists>n. check_size c d res = Inr (Inr n) \<and> 2 ^ 63 \<le> unat n"
proof -
  have "res \<noteq> -1" using assms sint_minus_one_iff by auto
  then show ?thesis
    using scast_negative_large [OF assms] by (simp add: check_size_ok unat_scast_i32)
qed

text \<open>
  C34: The string getters panic on the slice buf[..res] when the C call returns a result other than -1 that is negative or larger than the 128-unit buffer.
\<close>

theorem get_string_slice_panic:
  assumes "c_hid_get_string c q d (word_of_nat STRING_BUF_LEN) = (res, written)"
    and "sint res < -1 \<or> 128 < sint res"
  shows "get_string c d q = Inl SliceIndexOutOfRange"
proof -
  have ne: "res \<noteq> -1" using assms(2) sint_minus_one_iff by auto
  have "STRING_BUF_LEN < unat (scast res :: usize)"
    using assms(2) scast_negative_large [of res] unat_scast_nonneg [of res] by (auto simp: STRING_BUF_LEN_def unat_scast_i32)
  then show ?thesis
    using assms(1) ne by (simp add: get_string_def check_size_ok hbind_def)
qed

text \<open>
  C35: For every result between 0 and 128 the string getters return the same value: wchar_to_string reads from the start of the buffer up to a NUL whatever the length of the slice buf[..res] whose pointer it receives.
\<close>

theorem get_string_ignores_length:
  assumes "c_hid_get_string c q d (word_of_nat STRING_BUF_LEN) = (res, written)"
    and "0 \<le> sint res" and "sint res \<le> 128"
  shows "get_string c d q =
     pbind (wchar_to_string (Some (overlay written (replicate STRING_BUF_LEN 0) @ c_stack_beyond c)))
       (\<lambda>w. Inr (Inr (wstr_opt w)))"
proof -
  have ne: "res \<noteq> -1" using assms(2) sint_minus_one_iff by auto
  have "unat (scast res :: usize) \<le> STRING_BUF_LEN"
    using assms(2,3) unat_scast_nonneg [of res] by (simp add: STRING_BUF_LEN_def)
  then show ?thesis
    using assms(1) ne by (simp add: get_string_def check_size_ok hbind_def)
qed

text \<open>
  C36: open_serial passes each character of the serial number as its low 16 bits (c as wchar_t), so two serial numbers that agree modulo 2^16 in every character open the same device.
\<close>

theorem hid_api_open_serial_low_bits:
  "hid_api_open_serial c vid pid sn = hid_api_open_serial c vid pid (map (\<lambda>ch. ch mod 65536) sn)"
  by (simp add: hid_api_open_serial_def serial_wide_def comp_def word_of_nat_mod_u16)

lemma u16_of_nat_eq_0: "ch < 0x10000 \<Longrightarrow> (word_of_nat ch :: u16) = 0 \<longleftrightarrow> ch = 0"
proof -
  assume "ch < 0x10000"
  then have "unat (word_of_nat ch :: u16) = ch" by (simp add: unat_of_nat)
  then show ?thesis by auto
qed
lemma takeWhile_serial_wide:
  "list_all (\<lambda>ch. ch < 0x10000) sn \<Longrightarrow>
     takeWhile (\<lambda>u. u \<noteq> 0) (serial_wide sn) = map word_of_nat (takeWhile (\<lambda>ch. ch \<noteq> 0) sn)"
  by (induction sn) (simp_all add: serial_wide_def u16_of_nat_eq_0)

lemma encode_utf16_bmp: "list_all (\<lambda>ch. ch < 0x10000) cs \<Longrightarrow> encode_utf16 cs = map word_of_nat cs"
  by (induction cs) (simp_all add: encode_utf16_def encode_char_utf16_def)

text \<open>
  C23: For a serial number whose characters all lie in the Basic Multilingual Plane, open_serial hands the C library exactly the UTF-16 encoding of the serial number up to its first NUL character: the cast c as wchar_t is exact there, and the C library reads no further than the first NUL.
\<close>

theorem hid_api_open_serial_bmp:
  assumes "list_all (\<lambda>ch. ch < 0x10000) sn"
  shows "hid_api_open_serial c vid pid sn =
     open_result c (c_hid_open c vid pid (Some (encode_utf16 (takeWhile (\<lambda>ch. ch \<noteq> 0) sn))))"
proof -
  have "list_all (\<lambda>ch. ch < 0x10000) (takeWhile (\<lambda>ch. ch \<noteq> 0) sn)"
    using assms by (auto simp: list_all_iff dest: set_takeWhileD)
  then show ?thesis
    using assms by (simp add: hid_api_open_serial_def takeWhile_serial_wide encode_utf16_bmp)
qed

lemma takeWhile_short_buffer:
  assumes "length written < STRING_BUF_LEN"
  shows "takeWhile (\<lambda>u. u \<noteq> 0) (overlay written (replicate STRING_BUF_LEN 0) @ m) =
         takeWhile (\<lambda>u. u \<noteq> (0 :: u16)) written \<and> 0 \<in> set (overlay written (replicate STRING_BUF_LEN 0) @ m)"
proof -
  have o: "overlay written (replicate STRING_BUF_LEN 0) = written @ 0 # replicate (STRING_BUF_LEN - Suc (length written)) 0"
    using assms by (simp add: overlay_def replicate_Suc [symmetric] Suc_diff_Suc)
  show ?thesis
    by (cases "\<forall>u \<in> set written. u \<noteq> 0") (simp_all add: o takeWhile_append2 takeWhile_append1 takeWhile_eq_all_conv [THEN iffD2])
qed

text \<open>
  C31: When the C library writes fewer units than the 128-unit buffer holds and returns a length within it, the string getters return, without a panic, the units it wrote up to their first NUL, decoded when none is a surrogate: the zeroed buffer ends the read inside the buffer, whatever memory follows it.
\<close>

theorem get_string_short_write:
  assumes "c_hid_get_string c q d (word_of_nat STRING_BUF_LEN) = (res, written)"
    and "length written < STRING_BUF_LEN" and "0 \<le> sint res" and "sint res \<le> 128"
  shows "get_string c d q =
     (let us = takeWhile (\<lambda>u. u \<noteq> 0) written
      in Inr (Inr (if list_all (\<lambda>u. \<not> is_surrogate u) us then Some (map unat us) else None)))"
proof -
  have ne: "res \<noteq> -1" using assms(3) sint_minus_one_iff by auto
  have "unat (scast res :: usize) \<le> STRING_BUF_LEN"
    using assms(3,4) unat_scast_nonneg [of res] by (simp add: STRING_BUF_LEN_def)
  then show ?thesis
    using assms(1) ne takeWhile_short_buffer [OF assms(2), of "c_stack_beyond c"]
    by (simp add: get_string_def check_size_ok hbind_def wchar_to_string_def wchar_loop_eq Let_def wstr_opt_def)
qed
end
