(* ===== verification/ExampleLifetime.thy ===== *)
theory ExampleLifetime
  imports CBackend
begin

text \<open>
  The example program \<open>src/examples/static_lifetime_bound.rs\<close>: \<open>test_lt\<close>
  takes the devices of a new \<open>HidApi\<close> (\<open>None\<close> when \<open>HidApi::new\<close> fails;
  the crate's \<open>HidApi\<close> is defined outside \<open>src/\<close>), opens the first one by
  vendor and product id through \<open>HidApiBackend::open\<close>, and runs a closure that
  unwraps \<open>check_error\<close> of the device.  Every \<open>expect\<close> and \<open>unwrap\<close> is a
  panic; printing is not modelled.  The result is the device that \<open>Rc\<close>
  shares with the closure.
\<close>

text \<open>The closure of lines 40--42, run once by \<open>requires_static_lt_bound\<close>.\<close>

definition check_error_closure :: "c_api \<Rightarrow> dev \<Rightarrow> unit res" where
  "check_error_closure c dev_1 =
     pbind (device_check_error c dev_1) (\<lambda>r. case r of Inl _ \<Rightarrow> Inl UnwrapCheckError | Inr _ \<Rightarrow> Inr ())"

definition test_lt :: "c_api \<Rightarrow> device_info list option \<Rightarrow> dev res" where
  "test_lt c api_devices =
     (case api_devices of
        None \<Rightarrow> Inl ExpectHidApiNew
      | Some devices \<Rightarrow>
          (case devices of
             [] \<Rightarrow> Inl ExpectDevice
           | dev_info # _ \<Rightarrow>
               pbind (hid_api_open c (vendor_id dev_info) (product_id dev_info))
                 (\<lambda>r. case r of
                    Inl _ \<Rightarrow> Inl ExpectOpen
                  | Inr dev \<Rightarrow> pbind (check_error_closure c dev) (\<lambda>_. Inr dev))))"

subsection \<open>Lemmas\<close>

text \<open>
  C15: The example panics in its closure exactly when it opened the first
  device and check_error of that device has no decodable message (a null
  pointer, which the C library returns when no error is pending, or a string
  that does not decode): unwrap() of HidApiErrorEmpty.
\<close>

theorem test_lt_closure_panics_iff:
  "test_lt c (Some (d # ds)) = Inl UnwrapCheckError \<longleftrightarrow>
     (\<exists>dev. hid_api_open c (vendor_id d) (product_id d) = Inr (Inr dev) \<and>
            device_check_error c dev = Inr (Inl HidApiErrorEmpty))"
  by (auto simp: test_lt_def check_error_closure_def pbind_def split: sum.splits
      dest: hid_api_open_Inl device_check_error_Inl device_check_error_Err)

end
