(* ===== verification/DeviceLifecycle.thy ===== *)
theory DeviceLifecycle
  imports CBackend "HOL-Library.Multiset"
begin

text \<open>
  The ownership of C devices by \<open>HidDevice\<close> (lines 423--447): \<open>from_raw\<close>
  wraps the pointer an opener returned, and \<open>Drop\<close> calls \<open>hid_close\<close> on it.
  The state is the multiset of devices the C library holds open and the
  multiset of live \<open>HidDevice\<close> values; a step is a successful
  \<open>open\<close>, \<open>open_serial\<close> or \<open>open_path\<close>, or the drop of a live value.
\<close>

record hid_device =
  hd_ptr :: dev

definition from_raw :: "dev \<Rightarrow> hid_device" where
  "from_raw device = \<lparr>hd_ptr = device\<rparr>"

text \<open>\<open>Drop::drop\<close>: \<open>hid_close\<close> releases the device in the C library.\<close>

definition hid_close :: "dev multiset \<Rightarrow> dev \<Rightarrow> dev multiset" where
  "hid_close opened d = opened - {#d#}"

definition drop_hid_device :: "dev multiset \<Rightarrow> hid_device \<Rightarrow> dev multiset" where
  "drop_hid_device opened self = hid_close opened (hd_ptr self)"

type_synonym life_state = "dev multiset \<times> hid_device multiset"

inductive life_step :: "c_api \<Rightarrow> life_state \<Rightarrow> life_state \<Rightarrow> bool" for c where
  open_dev: "hid_api_open c vid pid = Inr (Inr d) \<Longrightarrow>
     life_step c (opened, live) (add_mset d opened, add_mset (from_raw d) live)"
| open_serial: "hid_api_open_serial c vid pid sn = Inr (Inr d) \<Longrightarrow>
     life_step c (opened, live) (add_mset d opened, add_mset (from_raw d) live)"
| open_path: "hid_api_open_path c p = Inr (Inr d) \<Longrightarrow>
     life_step c (opened, live) (add_mset d opened, add_mset (from_raw d) live)"
| drop: "h \<in># live \<Longrightarrow> life_step c (opened, live) (drop_hid_device opened h, live - {#h#})"

inductive life_reachable :: "c_api \<Rightarrow> life_state \<Rightarrow> bool" for c where
  start: "life_reachable c ({#}, {#})"
| step: "life_reachable c s \<Longrightarrow> life_step c s t \<Longrightarrow> life_reachable c t"

subsection \<open>Lemmas\<close>

text \<open>The C library holds open exactly the devices of the live values.\<close>

definition owns :: "life_state \<Rightarrow> bool" where
  "owns s \<longleftrightarrow> fst s = image_mset hd_ptr (snd s)"

lemma life_step_owns: "life_step c s t \<Longrightarrow> owns s \<Longrightarrow> owns t"
  by (induction rule: life_step.induct)
     (auto simp: owns_def from_raw_def drop_hid_device_def hid_close_def image_mset_Diff)

lemma life_reachable_owns: "life_reachable c s \<Longrightarrow> owns s"
proof (induction rule: life_reachable.induct)
  case start
  show ?case by (simp add: owns_def)
next
  case (step s t)
  then show ?case by (blast intro: life_step_owns)
qed

text \<open>
  C37: In every state reachable by opening devices and dropping HidDevice
  values, the device a live HidDevice owns is open in the C library, so its
  Drop closes exactly one open device: no device is closed twice or closed
  without being open.
\<close>

theorem drop_closes_open_device:
  assumes "life_reachable c (opened, live)" and "h \<in># live"
  shows "hd_ptr h \<in># opened \<and> size (drop_hid_device opened h) = size opened - 1"
proof -
  have "opened = image_mset hd_ptr live"
    using life_reachable_owns [OF assms(1)] by (simp add: owns_def)
  with assms(2) have "hd_ptr h \<in># opened" by simp
  then show ?thesis by (simp add: drop_hid_device_def hid_close_def size_Diff_singleton)
qed

lemma owns_drop_all:
  "owns (opened, live) \<Longrightarrow> (life_step c)\<^sup>*\<^sup>* (opened, live) ({#}, {#})"
proof (induction live arbitrary: opened)
  case empty
  then show ?case by (simp add: owns_def)
next
  case (add h live)
  then have o: "opened = add_mset (hd_ptr h) (image_mset hd_ptr live)"
    by (simp add: owns_def)
  have "life_step c (opened, add_mset h live) (drop_hid_device opened h, live)"
    using life_step.drop [of h "add_mset h live" c opened] by simp
  moreover have "drop_hid_device opened h = image_mset hd_ptr live"
    using o by (simp add: drop_hid_device_def hid_close_def)
  moreover have "(life_step c)\<^sup>*\<^sup>* (image_mset hd_ptr live, live) ({#}, {#})"
    using add.IH by (simp add: owns_def)
  ultimately show ?case
    by (auto intro: converse_rtranclp_into_rtranclp)
qed

text \<open>
  C28: From every state reachable by opening devices and dropping HidDevice
  values, dropping the live values one by one leads to the state in which no
  HidDevice is live and the C library holds no device open: no device is leaked.
\<close>

theorem life_reachable_closes_all:
  "life_reachable c s \<Longrightarrow> (life_step c)\<^sup>*\<^sup>* s ({#}, {#})"
  using life_reachable_owns [of c s] owns_drop_all [of "fst s" "snd s" c] by simp

end
