(* ===== verification/Spec2Isabelle.thy ===== *)
theory Spec2Isabelle
  imports Enumerate ExampleLifetime DeviceLifecycle
begin

text \<open>
  A verification library for the Windows native backend of the hidapi crate,
  \<open>src/src/windows_native.rs\<close>: the enumeration of HID interfaces, the
  identity resolution that walks the configuration manager's device tree, and
  the parsers those use, and the second path of the file through hidapi's C
  library (opening a device, its I/O methods, the conversion of C strings and
  records).  Each theory is a shallow embedding of one part of the
  file; platform calls are fields of interface records, so that the lemmas hold
  for every platform, and the example platforms below evaluate the code on
  concrete device trees by \<open>simp\<close>.

  \<^bold>\<open>Representation.\<close>  \<open>u8\<close>, \<open>u16\<close>, \<open>u32\<close> and \<open>i32\<close> are machine
  words (\<open>Prelude\<close>); the sentinel \<open>-1\<close> of \<open>interface_number\<close> is the
  \<open>i32\<close> word \<open>-1\<close>.  Every \<open>assert!\<close>, \<open>assert_eq!\<close>, failed
  \<open>unwrap()\<close>, out-of-range slice and \<open>bytemuck\<close> size panic is a value of
  the datatype \<open>panic\<close>, as is a read of a C string that finds no terminator
  in readable memory (\<open>ReadPastAllocation\<close>, undefined behaviour in Rust), and a function that can panic returns \<open>panic + 'a\<close>, composed
  with \<open>pbind\<close>.  A \<open>?\<close> on an \<open>Option\<close> is a branch that returns the record
  as it is at that point.  Slices are lists; \<open>split(|c| *c == 0)\<close> is
  \<open>split_slice\<close>, which keeps Rust's empty first and last runs.

  \<^bold>\<open>Theories and the code they model.\<close>
  \<^item> \<open>Prelude\<close>: word types, the panic sum, \<open>split_slice\<close>, \<open>rposition\<close>,
    \<open>windows\<close>, the shared list lemmas.
  \<^item> \<open>TokenParser\<close>: \<open>to_upper\<close>, \<open>find_first_upper_case\<close>,
    \<open>starts_with_ignore_case\<close>, \<open>extract_int_token_value\<close>,
    \<open>u16str_to_wstring\<close> (lines 657--700) and the parts of the standard library
    they call (\<open>decode_utf16\<close>, \<open>from_utf16\<close>, \<open>to_digit(16)\<close>); the
    reference definitions \<open>hex_run\<close>, \<open>hex_nat\<close>, \<open>wstring_units\<close>,
    \<open>decode_lossy\<close> and the equivalence, search, bound and round-trip lemmas.
  \<^item> \<open>ConfigManager\<close>: the property resolver \<open>get_device_interface_property\<close>,
    \<open>get_devnode_property\<close> (their shared two-phase protocol
    \<open>cm_two_phase\<close>, lines 703--760), \<open>get_dev_node_parent\<close> (763--768) and
    \<open>cast_slice\<close>.  The platform is the record \<open>cm_api\<close>; \<open>store_api\<close>
    implements it from a device tree \<open>devtree\<close> as the documentation describes
    the calls, and the refinement lemmas show the protocol computes a typed
    lookup in that tree.
  \<^item> \<open>DeviceInfo\<close>: the crate's \<open>DeviceInfo\<close>, \<open>BusType\<close> and
    \<open>WcharString\<close> (defined outside \<open>src/\<close>, modelled from their use).
  \<^item> \<open>BusClassifier\<close>: \<open>InternalBuyType\<close>, its conversion to \<open>BusType\<close>
    (lines 634--655) and the compatible-id scan of \<open>get_internal_info\<close>
    (154--174).
  \<^item> \<open>UsbInfo\<close>: \<open>get_usb_info\<close> (185--255), split at its blocks: the
    \<open>IG_\<close> escalation, the hardware-id loop, the manufacturer and serial
    fallbacks and the final normalisation.
  \<^item> \<open>BleInfo\<close>: \<open>get_ble_info\<close> (261--296).
  \<^item> \<open>Enumerate\<close>: \<open>get_interface_list\<close> (34--68), \<open>open_device\<close>,
    \<open>read_string\<close>, \<open>get_device_info\<close>, \<open>get_internal_info\<close> (70--183) and
    \<open>HidApiBackend::get_hid_device_info_vector\<close> (300--315), over the
    platform record \<open>win_api\<close> (configuration manager, interface-list calls
    indexed by call number, HID calls on a handle, and the memory that follows
    the interface-list buffer).  Open handles are a multiset.  The path of a
    record is the UTF-8 bytes of the \<open>CString\<close> the code builds.
  \<^item> \<open>CBackend\<close>: \<open>wchar_to_string\<close> and \<open>conv_hid_device_info\<close>
    (370--421), \<open>HidApiBackend::open\<close>, \<open>open_serial\<close>, \<open>open_path\<close>,
    \<open>check_error\<close> (317--368) and the methods of \<open>HidDevice\<close> (449--630), over
    the record \<open>c_api\<close> of the C library's functions; a C string pointer is
    \<open>None\<close> (null) or the memory readable from it.  The crate's \<open>HidError\<close>
    is the datatype \<open>hid_error\<close>, a \<open>HidResult\<close> the sum \<open>hid_error + 'a\<close>.
  \<^item> \<open>ExampleLifetime\<close>: \<open>test_lt\<close> of the example program
    \<open>src/examples/static_lifetime_bound.rs\<close>, over the device list of a new
    \<open>HidApi\<close> and the C library.
  \<^item> \<open>DeviceLifecycle\<close>: \<open>HidDevice\<close>, \<open>from_raw\<close> and \<open>Drop\<close>
    (423--447) as an \<open>inductive\<close> step relation \<open>life_step\<close> over the
    multiset of devices the C library holds open and the multiset of live
    \<open>HidDevice\<close> values; \<open>hid_close\<close> removes one open device.
  \<^item> This theory: example platforms, their evaluation, the end-to-end
    properties and the witnesses of the hypotheses of the library's theorems.

  \<^bold>\<open>What the lemmas show.\<close>  The classifier takes the first matching
  compatible id, and answers Unknown exactly when no entry matches; but every
  NUL-terminated list with no match is classified USB (C1--C3).  The USB
  resolver keeps present strings, takes the first \<open>REV_\<close> and \<open>MI_\<close> values
  and normalises the interface number when it completes (C8--C12); its serial
  fallback never finds an index for ids not ending in an ampersand (C4).  The
  identity dispatcher and both resolvers never change the path, the vendor and
  product ids or the usage of a record (C21), and non-USB records keep the
  interface number \<open>-1\<close> (C13).  The property protocol refines a typed
  lookup (C14), treats a type mismatch as absence and panics exactly on a
  length mismatch (C16, C17).  The example program panics in its closure
  exactly when the device it opened has no decodable error message (C15).  The
  parsers agree with their references, are exact within their bounds and keep
  undecodable units (C18--C20, C22).  The BLE resolver keeps present strings
  and falls back to the parent's name (C24, C25).  The interface-list loop
  terminates once the list is stable across one size/fetch pair (C26, C27).
  For every platform the driver returns only records whose path is the UTF-8
  of a string without NUL (C5); after the real interfaces it opens the string
  one unit past the interface-list buffer and reports it when it opens (C6);
  an empty list gives an empty vector under the conditions of C7; handles
  balance except on a panic (C29).  On the C path, \<open>wchar_to_string\<close>
  equals a reference (C30) but returns a surrogate pair raw where the native
  path decodes it (C32); \<open>check_size\<close> lets negative results other than
  \<open>-1\<close> through as huge sizes (C33); the string getters return the units
  written up to the first NUL when the C library writes less than the buffer
  (C31), panic on results above the buffer (C34) and ignore the slice length
  otherwise (C35); \<open>open_serial\<close> sends the exact UTF-16 of a serial number
  in the Basic Multilingual Plane up to its first NUL (C23) and only the low 16
  bits of each character beyond it (C36).  By rule induction on
  \<open>life_step\<close>, the open devices are exactly the pointers of the live
  \<open>HidDevice\<close> values, so every drop closes an open device once (C37), and
  from every reachable state the drops lead to no device open (C28).

  \<^bold>\<open>Loops and fuel.\<close>  The retry loop of \<open>get_interface_list\<close> has no
  bound in the code, so it is a \<open>partial_function (option)\<close>: \<open>None\<close> is a run
  that never ends, and C26 proves that it returns once the list is stable.
  The loop of \<open>wchar_to_string\<close> reads until a NUL; over finite readable
  memory it is a \<open>function\<close> whose measure is the number of units left, and
  running off the memory is the fault value (\<open>wchar_loop_eq\<close>, C30).  Every
  other loop runs over a finite list and is structural recursion or a fold; no
  fuel is used.

  \<^bold>\<open>Not modelled.\<close>  The \<open>Debug\<close> and \<open>Send\<close> impls of
  \<open>HidDevice\<close>, which only format and mark the type; \<open>c_api\<close> has no
  state of open devices, which \<open>DeviceLifecycle\<close> adds beside it.  What the
  C library does with the buffers of \<open>read\<close> and
  \<open>get_feature_report\<close> is outside the file.  The alignment check of
  \<open>bytemuck::cast_slice\<close> is not modelled (the buffers come from the global
  allocator).  In the example program, \<open>HidApi::new\<close> and \<open>devices\<close>
  belong to the crate outside \<open>src/\<close> and are the parameter of the device
  list; printing is not modelled.
\<close>

section \<open>Example platforms\<close>

text \<open>The unit \<open>'\\'\<close>, and a string or string-list property as the platform stores it.\<close>

definition bs :: "u16 list" where "bs = [0x5C]"

definition ex_sz :: "u16 list \<Rightarrow> devproptype \<times> u8 list" where
  "ex_sz s = (DEVPROP_TYPE_STRING, le_bytes (s @ [0]))"

definition ex_multi_sz :: "u16 list list \<Rightarrow> devproptype \<times> u8 list" where
  "ex_multi_sz ss = (DEVPROP_TYPE_STRING_LIST, le_bytes (concat (map (\<lambda>s. s @ [0]) ss) @ [0]))"

text \<open>The interface path \<open>HID#1\<close> of the examples.\<close>

definition ex_path :: "u16 list" where "ex_path = str_utf16 ''HID#1''"

text \<open>
  A composite USB device: node 2 is the interface function (\<open>MI_01\<close>, revision
  \<open>0102\<close>, manufacturer \<open>Acme\<close>), node 1 its composite parent whose instance id
  ends in the serial number \<open>SN7\<close>; the interface \<open>HID#1\<close> belongs to node 3,
  a child of node 2.
\<close>

definition ex_node_props :: "devinst \<Rightarrow> propkey \<Rightarrow> (devproptype \<times> u8 list) option" where
  "ex_node_props n k =
     (if n = 2 then
        (case k of
           DEVPKEY_Device_InstanceId \<Rightarrow> Some (ex_sz (str_utf16 ''USB'' @ bs @ str_utf16 ''VID_1&MI_01'' @ bs @ str_utf16 ''7''))
         | DEVPKEY_Device_HardwareIds \<Rightarrow>
             Some (ex_multi_sz [str_utf16 ''USB'' @ bs @ str_utf16 ''VID_1&REV_0102&MI_01'',
                                str_utf16 ''USB'' @ bs @ str_utf16 ''VID_1&MI_01''])
         | DEVPKEY_Device_CompatibleIds \<Rightarrow> Some (ex_multi_sz [str_utf16 ''USB'' @ bs @ str_utf16 ''Class_03''])
         | DEVPKEY_Device_Manufacturer \<Rightarrow> Some (ex_sz (str_utf16 ''Acme''))
         | _ \<Rightarrow> None)
      else if n = 1 then
        (case k of
           DEVPKEY_Device_InstanceId \<Rightarrow> Some (ex_sz (str_utf16 ''USB'' @ bs @ str_utf16 ''VID_1'' @ bs @ str_utf16 ''SN7''))
         | _ \<Rightarrow> None)
      else None)"

definition ex_tree :: devtree where
  "ex_tree = \<lparr>dt_iface_props = (\<lambda>p k. if p = ex_path \<and> k = DEVPKEY_Device_InstanceId
                                        then Some (ex_sz (str_utf16 ''HID'' @ bs @ str_utf16 ''1''))
                                        else None),
              dt_node_props = ex_node_props,
              dt_parent = (\<lambda>n. if n = 2 then Some 1 else if n = 3 then Some 2 else None),
              dt_locate = (\<lambda>_. Some 3)\<rparr>"

text \<open>The same tree with a Bluetooth (\<open>BTHENUM\<close>) function in place of the USB one.\<close>

definition ex_bt_tree :: devtree where
  "ex_bt_tree = ex_tree\<lparr>dt_node_props := (\<lambda>n k. if n = 2 \<and> k = DEVPKEY_Device_CompatibleIds
       then Some (ex_multi_sz [str_utf16 ''BTHENUM'' @ bs @ str_utf16 ''X'']) else None)\<rparr>"

text \<open>
  A Bluetooth LE tree: node 5 has a manufacturer property, node 8 has none;
  both are children of node 6, named \<open>Pad2\<close>.
\<close>

definition ex_ble_tree :: devtree where
  "ex_ble_tree = \<lparr>dt_iface_props = (\<lambda>_ _. None),
     dt_node_props = (\<lambda>n k. if n = 5 \<and> k = PKEY_DeviceInterface_Bluetooth_Manufacturer
                               then Some (ex_sz (str_utf16 ''Acme''))
                             else if n = 6 \<and> k = DEVPKEY_NAME then Some (ex_sz (str_utf16 ''Pad2''))
                             else None),
     dt_parent = (\<lambda>n. if n = 5 \<or> n = 8 then Some 6 else None),
     dt_locate = (\<lambda>_. None)\<rparr>"

text \<open>
  A configuration manager whose property shrinks between the size query and
  the fetch: the size query announces four bytes, the fetch reports two.
\<close>

definition ex_bad_cm :: cm_api where
  "ex_bad_cm = \<lparr>cm_interface_property = (\<lambda>_ _ _. \<lparr>pr_cr = CR_NO_SUCH_VALUE, pr_type = 0, pr_len = 0, pr_data = []\<rparr>),
     cm_devnode_property = (\<lambda>_ _ buf. case buf of
         None \<Rightarrow> \<lparr>pr_cr = CR_BUFFER_SMALL, pr_type = DEVPROP_TYPE_STRING, pr_len = 4, pr_data = []\<rparr>
       | Some _ \<Rightarrow> \<lparr>pr_cr = CR_SUCCESS, pr_type = DEVPROP_TYPE_STRING, pr_len = 2, pr_data = [0x41, 0]\<rparr>),
     cm_get_parent = (\<lambda>_. (CR_NO_SUCH_DEVNODE, 0)),
     cm_locate_devnode = (\<lambda>_. (CR_NO_SUCH_DEVNODE, 0))\<rparr>"

text \<open>The record \<open>get_device_info\<close> builds for \<open>HID#1\<close> before the identity lookup.\<close>

definition ex_rec :: device_info where
  "ex_rec = \<lparr>path = [72, 73, 68, 35, 49], vendor_id = 1, product_id = 2, serial_number = WString [],
     release_number = 0x100, manufacturer_string = WString [], product_string = WString [80, 97, 100],
     usage_page = 1, usage = 6, interface_number = -1, bus_type = BusUnknown\<rparr>"

text \<open>The compatible ids of node 2 as the resolver reads them.\<close>

definition ex_ids :: "u16 list" where
  "ex_ids = [85, 83, 66, 92, 67, 108, 97, 115, 115, 95, 48, 51, 0, 0]"

text \<open>
  The HID calls: \<open>HID#1\<close> opens as handle 7, with vendor 1, product 2,
  version \<open>0x100\<close>, usage page 1 and usage 6, no serial number, an empty
  manufacturer string and the product \<open>Pad\<close>; every other path fails to open.
\<close>

definition ex_hid :: hid_api where
  "ex_hid = \<lparr>create_file = (\<lambda>p _. if p = ex_path then Some 7 else None),
             hidd_get_attributes = (\<lambda>_. Some (1, 2, 0x100)),
             hidd_get_preparsed_data = (\<lambda>_. True),
             hidp_get_caps = (\<lambda>_. (1, 6)),
             hidd_get_serial_number_string = (\<lambda>_. None),
             hidd_get_manufacturer_string = (\<lambda>_. Some []),
             hidd_get_product_string = (\<lambda>_. Some (str_utf16 ''Pad''))\<rparr>"

text \<open>
  The whole platform: the interface list is \<open>HID#1\<close> and its terminator, and
  the memory after it starts with a NUL (\<open>ex_win\<close>) or with a stale copy of
  the same path (\<open>ex_win_stale\<close>).
\<close>

definition ex_win :: win_api where
  "ex_win = \<lparr>w_cm = store_api ex_tree, w_enum = enum_store (\<lambda>_. ex_path @ [0]), w_hid = ex_hid,
             w_beyond = [0]\<rparr>"

definition ex_win_stale :: win_api where
  "ex_win_stale = ex_win\<lparr>w_beyond := ex_path @ [0]\<rparr>"

text \<open>An interface list that grows between the first size query and its fetch.\<close>

definition ex_grow :: "nat \<Rightarrow> u16 list" where
  "ex_grow t = (if t = 0 then [0] else ex_path @ [0, 0])"

text \<open>The record resolved for \<open>HID#1\<close>.\<close>

definition ex_resolved :: device_info where
  "ex_resolved = ex_rec\<lparr>bus_type := BusUsb, interface_number := 1,
     manufacturer_string := WString [65, 99, 109, 101, 0]\<rparr>"

text \<open>
  A C library for the \<open>HidDevice\<close> methods: device 9 opens for vendor 1 and
  product 2; its last error is \<open>Timeout\<close>; a write sends everything, a feature
  report one byte less; the string queries answer \<open>Acme\<close>, an oversized
  result, a negative result other than \<open>-1\<close>, and a character outside the
  Basic Multilingual Plane; its device record is \<open>ex_fi\<close>.
\<close>

definition ex_fi :: ffi_device_info where
  "ex_fi = \<lparr>fi_path = Some [72, 73, 68, 35, 49, 0], fi_vendor_id = 1, fi_product_id = 2,
     fi_serial_number = Some [83, 0], fi_release_number = 0x100, fi_manufacturer_string = None,
     fi_product_string = Some (encode_char_utf16 0x1F600 @ [0]), fi_usage_page = 1, fi_usage = 6,
     fi_interface_number = 0, fi_bus_type = BusUsb\<rparr>"

definition ex_c :: c_api where
  "ex_c = \<lparr>c_hid_error = (\<lambda>d. case d of None \<Rightarrow> None | Some _ \<Rightarrow> Some (str_utf16 ''Timeout'' @ [0])),
     c_hid_open = (\<lambda>v p s. if v = 1 \<and> p = 2 then Some 9 else None),
     c_hid_open_path = (\<lambda>_. None),
     c_hid_write = (\<lambda>_ data. word_of_nat (length data)),
     c_hid_read = (\<lambda>_ _. 0),
     c_hid_read_timeout = (\<lambda>_ _ _. 0),
     c_hid_send_feature_report = (\<lambda>_ data. word_of_nat (length data) - 1),
     c_hid_get_feature_report = (\<lambda>_ _. -1),
     c_hid_set_nonblocking = (\<lambda>_ _. 0),
     c_hid_get_string = (\<lambda>q _ _. case q of
         QManufacturer \<Rightarrow> (0, str_utf16 ''Acme'' @ [0])
       | QProduct \<Rightarrow> (200, [])
       | QSerialNumber \<Rightarrow> (-2, [])
       | QIndexed _ \<Rightarrow> (0, encode_char_utf16 0x1F600 @ [0])),
     c_hid_get_device_info = (\<lambda>_. Some ex_fi),
     c_hid_get_container_id = (\<lambda>_. (0, replicate 16 0)),
     c_stack_beyond = []\<rparr>"

text \<open>The same C library when no error is pending: \<open>hid_error\<close> returns null.\<close>

definition ex_c_quiet :: c_api where
  "ex_c_quiet = ex_c\<lparr>c_hid_error := (\<lambda>_. None)\<rparr>"

section \<open>Evaluation of the examples\<close>

lemmas ex_eval = ex_tree_def ex_node_props_def ex_sz_def ex_multi_sz_def bs_def ex_path_def
  get_devnode_property_def get_device_interface_property_def store_api_calls store_two_phase
  typed_lookup_def get_dev_node_parent_store CR_SUCCESS_def
  cast_slice_u16_def length_le_bytes le_u16s_le_bytes

lemmas tok_eval = extract_int_token_value_def find_first_upper_case_def str_utf16_def windows_def
  to_upper_def to_upper_unit_def ascii_upper_def is_surrogate_def is_high_surrogate_def
  is_low_surrogate_def hex_digit_of_def to_digit16_def u16str_to_wstring_def from_utf16_def
  encode_utf8_def encode_char_utf8_def

lemmas usb_eval = get_usb_info_def usb_resolve_node_def usb_scan_hardware_ids_def usb_scan_hardware_id_def
  usb_manufacturer_fallback_def usb_serial_fallback_def instance_id_serial_start_def last_split_slice
  normalise_interface_number_def rposition_def

lemmas class_eval = bus_type_of_compatible_ids_def classify_compatible_id_def
  starts_with_ignore_case_def eq_ignore_ascii_case_def str_chars_def ascii_lower_def
  replacement_character_def is_surrogate_def

lemma ex_tree_sel:
  "dt_iface_props ex_tree = (\<lambda>p k. if p = ex_path \<and> k = DEVPKEY_Device_InstanceId
                                        then Some (ex_sz (str_utf16 ''HID'' @ bs @ str_utf16 ''1'')) else None)"
  "dt_node_props ex_tree = ex_node_props"
  "dt_parent ex_tree = (\<lambda>n. if n = 2 then Some 1 else if n = 3 then Some 2 else None)"
  "dt_locate ex_tree = (\<lambda>_. Some 3)"
  by (simp_all add: ex_tree_def)

lemma ex_ids_len: "length ex_ids = 14"
  by (simp add: ex_ids_def)

lemma ex_ids_cast: "cast_slice_u16 (le_bytes ex_ids) = Inr ex_ids"
  by (simp add: cast_slice_u16_def length_le_bytes le_u16s_le_bytes ex_ids_def)

lemma ex_compat: "ex_node_props 2 DEVPKEY_Device_CompatibleIds = Some (DEVPROP_TYPE_STRING_LIST, le_bytes ex_ids)"
  by (simp add: ex_node_props_def ex_multi_sz_def ex_ids_def str_utf16_def bs_def)

lemma ex_bus: "bus_type_of_compatible_ids ex_ids = Usb"
  by (simp add: ex_ids_def class_eval)

lemma ex_usb: "get_usb_info (store_api ex_tree) (ex_rec\<lparr>path := p, bus_type := BusUsb\<rparr>) 2 =
   Inr (Some (), ex_resolved\<lparr>path := p\<rparr>)"
  by (simp add: usb_eval ex_eval tok_eval Let_def ex_rec_def ex_resolved_def)

lemma ex_usb_rec: "get_usb_info (store_api ex_tree) (ex_rec\<lparr>bus_type := BusUsb\<rparr>) 2 = Inr (Some (), ex_resolved)"
  using ex_usb [of "path ex_rec"] by (simp add: ex_resolved_def)

lemma ex_internal: "get_internal_info (store_api ex_tree) ex_path (ex_rec\<lparr>path := p\<rparr>) =
   Inr (Some (), ex_resolved\<lparr>path := p\<rparr>)"
  by (simp add: get_internal_info_def locate_interface_node_def get_devnode_property_def
        get_device_interface_property_def store_api_calls store_two_phase typed_lookup_def
        get_dev_node_parent_store ex_tree_sel ex_sz_def length_le_bytes
        CR_SUCCESS_def ex_compat ex_ids_cast resolve_bus_def ex_bus ex_usb str_utf16_def bs_def ex_ids_len)

lemma ex_internal_units: "get_internal_info (store_api ex_tree) ex_path
   \<lparr>path = p, vendor_id = 1, product_id = 2, serial_number = WString [],
     release_number = 0x100, manufacturer_string = WString [], product_string = WString [80, 97, 100],
     usage_page = 1, usage = 6, interface_number = -1, bus_type = BusUnknown\<rparr> =
   Inr (Some (), ex_resolved\<lparr>path := p\<rparr>)"
  using ex_internal [of p] by (simp add: ex_rec_def)

lemma ex_list: "get_interface_list (enum_store (\<lambda>_. ex_path @ [0])) = Some (Inr (ex_path @ [0]))"
  by (simp add: get_interface_list_def interface_list_loop_store resize_def overlay_exact ex_path_def str_utf16_def)

lemma ex_segs: "seg_offsets 0 (split_slice (\<lambda>c. c = 0) (ex_path @ [0])) = [(0, ex_path), (6, [])]"
  by (simp add: ex_path_def str_utf16_def)

lemma ex_device_info:
  "get_device_info (store_api ex_tree) ex_hid ps ex_path 7 = Inr (ex_resolved\<lparr>path := encode_utf8 ps'\<rparr>)"
  if "from_utf16 ps = Some ps'" and "0 \<notin> set (encode_utf8 ps')"
  using that
  apply (simp add: get_device_info_def ex_hid_def read_string_Some tok_eval Let_def)
  apply (simp add: read_string_def ex_internal_units)
  done

lemma ex_hid_open: "open_device ex_hid p False = (if p = ex_path then Some 7 else None)"
  by (simp add: open_device_def ex_hid_def)

lemma ex_path_utf16: "from_utf16 ex_path = Some [72, 73, 68, 35, 49]"
  by (simp add: ex_path_def tok_eval)

lemma ex_path_cstr: "read_wide_cstr (ex_path @ [0] @ m) 0 = ex_path"
  by (simp add: read_wide_cstr_def ex_path_def str_utf16_def)

lemma ex_path_ne: "ex_path \<noteq> []"
  by (simp add: ex_path_def str_utf16_def)

lemma ex_path_len: "length ex_path = 5"
  by (simp add: ex_path_def str_utf16_def)

lemma ex_enum_loop: "enum_interfaces ex_win (ex_path @ [0]) [(0, ex_path), (6, [])] {#} [] = (Inr [ex_resolved], {#})"
proof -
  have "read_wide_cstr (ex_path @ [0] @ [0]) 6 = []"
    using read_past_buffer [of "ex_path @ [0]" "[0]"] by (simp add: ex_path_len)
  then show ?thesis
    using ex_path_cstr [of "[0]"]
    by (simp add: ex_win_def ex_hid_open ex_device_info [OF ex_path_utf16] ex_resolved_def ex_rec_def
        ex_path_ne [symmetric] encode_utf8_def encode_char_utf8_def)
qed

lemma ex_enum_stale_loop: "enum_interfaces ex_win_stale (ex_path @ [0]) [(0, ex_path), (6, [])] {#} [] =
   (Inr [ex_resolved, ex_resolved\<lparr>path := []\<rparr>], {#})"
proof -
  have "read_wide_cstr (ex_path @ [0] @ ex_path @ [0]) 6 = ex_path"
    by (simp add: read_wide_cstr_def ex_path_def str_utf16_def)
  moreover have "from_utf16 [] = Some []"
    by (simp add: from_utf16_def)
  ultimately show ?thesis
    using ex_path_cstr [of "ex_path @ [0]"]
    by (simp add: ex_win_stale_def ex_win_def ex_hid_open ex_device_info [OF ex_path_utf16]
        ex_device_info [of "[]" "[]"] ex_resolved_def ex_rec_def encode_utf8_def encode_char_utf8_def)
qed

lemma ex_win_sel:
  "w_cm ex_win = store_api ex_tree" "w_enum ex_win = enum_store (\<lambda>_. ex_path @ [0])"
  "w_cm ex_win_stale = store_api ex_tree" "w_enum ex_win_stale = enum_store (\<lambda>_. ex_path @ [0])"
  by (simp_all add: ex_win_stale_def ex_win_def)

lemma ex_usb_present: "get_usb_info (store_api ex_tree)
   (ex_rec\<lparr>bus_type := BusUsb, manufacturer_string := WString [88], serial_number := WString [83]\<rparr>) 2 =
   Inr (Some (), ex_rec\<lparr>bus_type := BusUsb, manufacturer_string := WString [88], serial_number := WString [83],
     interface_number := 1\<rparr>)"
  by (simp add: usb_eval ex_eval tok_eval Let_def ex_rec_def)

lemma ex_bt_tree_sel:
  "dt_iface_props ex_bt_tree = dt_iface_props ex_tree"
  "dt_node_props ex_bt_tree = (\<lambda>n k. if n = 2 \<and> k = DEVPKEY_Device_CompatibleIds
       then Some (ex_multi_sz [str_utf16 ''BTHENUM'' @ bs @ str_utf16 ''X'']) else None)"
  "dt_parent ex_bt_tree = dt_parent ex_tree"
  "dt_locate ex_bt_tree = dt_locate ex_tree"
  by (simp_all add: ex_bt_tree_def)

lemma ex_bt_info: "get_device_info (store_api ex_bt_tree) ex_hid ex_path ex_path 7 =
   Inr (ex_rec\<lparr>bus_type := BusBluetooth\<rparr>)"
  apply (simp add: get_device_info_def ex_hid_def read_string_Some tok_eval Let_def ex_path_def)
  apply (simp add: read_string_def get_internal_info_def locate_interface_node_def get_devnode_property_def
        get_device_interface_property_def store_api_calls store_two_phase typed_lookup_def
        get_dev_node_parent_store ex_bt_tree_sel ex_tree_sel ex_sz_def length_le_bytes ex_path_def
        CR_SUCCESS_def str_utf16_def bs_def ex_multi_sz_def cast_slice_u16_def le_u16s_le_bytes)
  apply (simp add: resolve_bus_def class_eval ex_rec_def)
  done

lemmas ble_eval = get_ble_info_def ble_fill_def ble_fetch_string_def ble_product_property_def
  get_devnode_property_def store_api_calls store_two_phase typed_lookup_def get_dev_node_parent_store
  ex_ble_tree_def ex_sz_def length_le_bytes cast_slice_u16_def le_u16s_le_bytes str_utf16_def
  u16str_to_wstring_def from_utf16_def is_surrogate_def

lemma ex_ble: "get_ble_info (store_api ex_ble_tree) ex_rec 5 =
   Inr (ex_rec\<lparr>manufacturer_string := WString [65, 99, 109, 101, 0]\<rparr>)"
  by (simp add: ble_eval ex_rec_def)

lemmas wchar_eval = wchar_to_string_def wchar_loop_eq is_surrogate_def

lemma ex_enum_stale_prefix:
  "enum_interfaces ex_win_stale (ex_path @ [0]) [(0, ex_path)] {#} [] = (Inr [ex_resolved], {#})"
  using ex_path_cstr [of "ex_path @ [0]"]
  by (simp add: ex_win_stale_def ex_win_def ex_hid_open ex_device_info [OF ex_path_utf16] ex_resolved_def
      ex_rec_def encode_utf8_def encode_char_utf8_def)

lemma ex_life_reachable: "life_reachable ex_c ({#9#}, {#from_raw 9#})"
proof -
  have "hid_api_open ex_c 1 2 = Inr (Inr 9)"
    by (simp add: hid_api_open_def open_result_def ex_c_def)
  then have "life_step ex_c ({#}, {#}) ({#9#}, {#from_raw 9#})"
    using life_step.open_dev [of ex_c 1 2 9 "{#}" "{#}"] by simp
  then show ?thesis
    by (rule life_reachable.step [OF life_reachable.start])
qed

section \<open>Properties of the whole enumeration\<close>

text \<open>
  On the composite USB platform \<open>ex_win\<close> the driver returns one record:
  the interface number comes from the function's \<open>MI_01\<close>, the release number
  from \<open>HidD_GetAttributes\<close> (so \<open>REV_0102\<close> is ignored), the manufacturer
  from the node's property including its NUL terminator, and the serial number
  stays empty although the composite parent's instance id ends in \<open>SN7\<close>; the
  handle it opened is closed again.
\<close>

lemma get_hid_device_info_vector_composite_usb:
  "get_hid_device_info_vector ex_win {#} = Some (Inr [ex_resolved], {#}) \<and>
   interface_number ex_resolved = 1 \<and> release_number ex_resolved = 0x100 \<and>
   manufacturer_string ex_resolved = WString (str_chars ''Acme'' @ [0]) \<and>
   serial_number ex_resolved = WString [] \<and> bus_type ex_resolved = BusUsb"
proof -
  have "get_hid_device_info_vector ex_win {#} = Some (Inr [ex_resolved], {#})"
    by (simp only: get_hid_device_info_vector_def ex_win_sel ex_list ex_segs ex_enum_loop option.case sum.case)
  then show ?thesis
    by (simp add: ex_resolved_def ex_rec_def str_chars_def)
qed

text \<open>
  The last slice of the NUL-terminated interface list starts one unit past
  the buffer.  When the memory there holds a stale copy of a path, the driver
  opens that device a second time and reports it twice, the second time with
  an empty path.
\<close>

lemma get_hid_device_info_vector_stale_duplicate:
  "get_hid_device_info_vector ex_win_stale {#} =
     Some (Inr [ex_resolved, ex_resolved\<lparr>path := []\<rparr>], {#})"
  by (simp only: get_hid_device_info_vector_def ex_win_sel ex_list ex_segs ex_enum_stale_loop option.case sum.case)

text \<open>
  C7: An empty interface list (the single terminator \<open>[0]\<close>) gives an empty
  device vector and leaves the open handles unchanged, provided that opening
  the empty path fails and that the string the platform finds one unit past the
  buffer does not open either.
\<close>

theorem get_hid_device_info_vector_empty:
  assumes "w_enum w = enum_store (\<lambda>_. [0])"
    and "create_file (w_hid w) [] 0 = None"
    and "create_file (w_hid w) (takeWhile (\<lambda>c. c \<noteq> 0) (w_beyond w)) 0 = None"
  shows "get_hid_device_info_vector w hs = Some (Inr [], hs)"
proof -
  have "get_interface_list (w_enum w) = Some (Inr [0])"
    using assms(1) by (simp add: get_interface_list_def interface_list_loop_store resize_def overlay_def)
  moreover have "seg_offsets 0 (split_slice (\<lambda>c. c = 0) [0 :: u16]) = [(0, []), (1, [])]"
    by simp
  moreover have "read_wide_cstr ([0] @ w_beyond w) 0 = []" "read_wide_cstr ([0] @ w_beyond w) 1 = takeWhile (\<lambda>c. c \<noteq> 0) (w_beyond w)"
    by (simp_all add: read_wide_cstr_def)
  ultimately show ?thesis
    using assms(2,3) by (simp add: get_hid_device_info_vector_def open_device_def)
qed

section \<open>Witnesses\<close>

theorem bus_type_nul_terminated_Usb_witness:
  "split_slice (\<lambda>c. c = 0) (str_utf16 ''HID_DEVICE_SYSTEM'') = [str_utf16 ''HID_DEVICE_SYSTEM''] \<and>
   classify_compatible_id (str_utf16 ''HID_DEVICE_SYSTEM'') = None \<and>
   bus_type_of_compatible_ids (str_utf16 ''HID_DEVICE_SYSTEM'' @ [0]) = Usb"
  using BusClassifier.bus_type_nul_terminated_Usb [of "str_utf16 ''HID_DEVICE_SYSTEM''"]
  by (simp add: class_eval str_utf16_def)

theorem bus_type_first_match_witness:
  "split_slice (\<lambda>c. c = 0) (str_utf16 ''HID_DEVICE'' @ [0] @ str_utf16 ''USB'') =
     [str_utf16 ''HID_DEVICE''] @ str_utf16 ''USB'' # [] \<and>
   classify_compatible_id (str_utf16 ''HID_DEVICE'') = None \<and>
   classify_compatible_id (str_utf16 ''USB'') = Some Usb \<and>
   bus_type_of_compatible_ids (str_utf16 ''HID_DEVICE'' @ [0] @ str_utf16 ''USB'') = Usb"
  using BusClassifier.bus_type_first_match [of "str_utf16 ''HID_DEVICE'' @ [0] @ str_utf16 ''USB''"
      "[str_utf16 ''HID_DEVICE'']" "str_utf16 ''USB''" "[]" Usb]
  by (simp add: class_eval str_utf16_def)

theorem bus_type_Unknown_iff_witness:
  "bus_type_of_compatible_ids (str_utf16 ''HID_DEVICE'') = Unknown"
  using BusClassifier.bus_type_Unknown_iff [of "str_utf16 ''HID_DEVICE''"]
  by (simp add: classify_compatible_id_def starts_with_ignore_case_def eq_ignore_ascii_case_def
      str_chars_def ascii_lower_def replacement_character_def is_surrogate_def str_utf16_def)

theorem instance_id_serial_start_None_witness:
  "str_utf16 ''USB'' @ bs @ str_utf16 ''VID_1'' @ bs @ str_utf16 ''SN7'' @ [0] \<noteq> [] \<and>
   last (str_utf16 ''USB'' @ bs @ str_utf16 ''VID_1'' @ bs @ str_utf16 ''SN7'' @ [0]) \<noteq> 0x26 \<and>
   instance_id_serial_start (str_utf16 ''USB'' @ bs @ str_utf16 ''VID_1'' @ bs @ str_utf16 ''SN7'' @ [0]) = None"
  using UsbInfo.instance_id_serial_start_None [of "str_utf16 ''USB'' @ bs @ str_utf16 ''VID_1'' @ bs @ str_utf16 ''SN7'' @ [0]"]
  by (simp add: str_utf16_def bs_def)

theorem get_usb_info_normalised_witness:
  "get_usb_info (store_api ex_tree) (ex_rec\<lparr>bus_type := BusUsb\<rparr>) 2 = Inr (Some (), ex_resolved) \<and>
   interface_number ex_resolved \<noteq> -1"
  using UsbInfo.get_usb_info_normalised [OF ex_usb_rec] ex_usb_rec by simp

theorem get_usb_info_keeps_manufacturer_witness:
  "get_usb_info (store_api ex_tree)
     (ex_rec\<lparr>bus_type := BusUsb, manufacturer_string := WString [88], serial_number := WString [83]\<rparr>) 2 =
   Inr (Some (), ex_rec\<lparr>bus_type := BusUsb, manufacturer_string := WString [88], serial_number := WString [83],
     interface_number := 1\<rparr>) \<and>
   \<not> missing (WString [88]) \<and> manufacturer_string (ex_rec\<lparr>manufacturer_string := WString [88]\<rparr>) = WString [88]"
  using UsbInfo.get_usb_info_keeps_manufacturer [OF ex_usb_present] ex_usb_present by simp

theorem get_usb_info_keeps_serial_witness:
  "get_usb_info (store_api ex_tree)
     (ex_rec\<lparr>bus_type := BusUsb, manufacturer_string := WString [88], serial_number := WString [83]\<rparr>) 2 =
   Inr (Some (), ex_rec\<lparr>bus_type := BusUsb, manufacturer_string := WString [88], serial_number := WString [83],
     interface_number := 1\<rparr>) \<and>
   \<not> missing (WString [83]) \<and> serial_number (ex_rec\<lparr>serial_number := WString [83]\<rparr>) = WString [83]"
  using UsbInfo.get_usb_info_keeps_serial [OF ex_usb_present] ex_usb_present by simp

theorem get_device_info_non_usb_interface_witness:
  "get_device_info (store_api ex_bt_tree) ex_hid ex_path ex_path 7 = Inr (ex_rec\<lparr>bus_type := BusBluetooth\<rparr>) \<and>
   bus_type (ex_rec\<lparr>bus_type := BusBluetooth\<rparr>) \<noteq> BusUsb \<and> interface_number (ex_rec\<lparr>bus_type := BusBluetooth\<rparr>) = -1"
  using Enumerate.get_device_info_non_usb_interface [OF ex_bt_info] ex_bt_info by simp

theorem get_devnode_property_type_mismatch_witness:
  "pr_type (cm_devnode_property (store_api ex_tree) 2 DEVPKEY_Device_InstanceId None) \<noteq> DEVPROP_TYPE_STRING_LIST \<and>
   get_devnode_property (store_api ex_tree) 2 DEVPKEY_Device_InstanceId DEVPROP_TYPE_STRING_LIST = Inr None"
  using ConfigManager.get_devnode_property_type_mismatch
      [of "store_api ex_tree" 2 DEVPKEY_Device_InstanceId DEVPROP_TYPE_STRING_LIST]
  by (simp add: store_api_calls store_prop_call_def ex_tree_sel ex_node_props_def ex_sz_def
      DEVPROP_TYPE_STRING_def DEVPROP_TYPE_STRING_LIST_def)

theorem get_devnode_property_panics_iff_witness:
  "get_devnode_property ex_bad_cm 0 DEVPKEY_NAME DEVPROP_TYPE_STRING = Inl AssertPropertyLength"
  using ConfigManager.get_devnode_property_panics_iff [of ex_bad_cm 0 DEVPKEY_NAME DEVPROP_TYPE_STRING AssertPropertyLength]
  by (simp add: ex_bad_cm_def Let_def CR_BUFFER_SMALL_def)

theorem extract_int_token_value_exact_witness:
  "find_first_upper_case (str_utf16 ''MI_01'') ''MI_'' = Some 0 \<and>
   hex_run (drop (0 + length (str_utf16 ''MI_'')) (str_utf16 ''MI_01'')) = [0, 1] \<and>
   map_option unat (extract_int_token_value (str_utf16 ''MI_01'') ''MI_'') = Some (hex_nat [0, 1])"
proof -
  have f: "find_first_upper_case (str_utf16 ''MI_01'') ''MI_'' = Some 0"
    by (simp add: find_first_upper_case_def str_utf16_def windows_def)
  have h: "hex_run (drop (0 + length (str_utf16 ''MI_'')) (str_utf16 ''MI_01'')) = [0, 1]"
    by (simp add: hex_run_def hex_value_def str_utf16_def)
  show ?thesis
    using TokenParser.extract_int_token_value_exact [OF f h] f h by simp
qed

theorem find_first_upper_case_Some_iff_witness:
  "find_first_upper_case (str_utf16 ''AMI_1'') ''MI_'' = Some 1"
  using TokenParser.find_first_upper_case_Some_iff [of "str_utf16 ''AMI_1''" "''MI_''" 1]
  by (simp add: str_utf16_def less_Suc_eq)

theorem get_ble_info_keeps_present_witness:
  "get_ble_info (store_api ex_ble_tree) ex_rec 5 = Inr (ex_rec\<lparr>manufacturer_string := WString [65, 99, 109, 101, 0]\<rparr>) \<and>
   product_string (ex_rec\<lparr>manufacturer_string := WString [65, 99, 109, 101, 0]\<rparr>) = product_string ex_rec"
  using BleInfo.get_ble_info_keeps_present [OF ex_ble] ex_ble by (simp add: ex_rec_def)

theorem get_ble_info_product_from_parent_name_witness:
  "get_ble_info (store_api ex_ble_tree) (ex_rec\<lparr>product_string := WString []\<rparr>) 8 =
     Inr (ex_rec\<lparr>product_string := WString [80, 97, 100, 50, 0]\<rparr>)"
  using BleInfo.get_ble_info_product_from_parent_name
      [of "ex_rec\<lparr>product_string := WString []\<rparr>" "store_api ex_ble_tree" 8 6
          "le_bytes (str_utf16 ''Pad2'' @ [0])" "str_utf16 ''Pad2'' @ [0]"]
  by (simp add: ble_eval ex_rec_def)

theorem interface_list_loop_terminates_witness:
  "(\<forall>j. length (ex_grow j) < 2 ^ 32) \<and> length (ex_grow (0 + 2 * 1 + 1)) \<le> length (ex_grow (0 + 2 * 1)) \<and>
   (\<exists>r. interface_list_loop (enum_store ex_grow) 0 [] = Some (Inr r))"
  using Enumerate.interface_list_loop_terminates [of ex_grow 0 1 "[]"]
  by (simp add: ex_grow_def ex_path_len)

theorem get_interface_list_stable_witness:
  "length (ex_path @ [0]) < 2 ^ 32 \<and>
   get_interface_list (enum_store (\<lambda>_. ex_path @ [0])) = Some (Inr (ex_path @ [0]))"
  using Enumerate.get_interface_list_stable [of "ex_path @ [0]"] by (simp add: ex_path_len)

theorem enum_interfaces_handles_witness:
  "enum_interfaces ex_win (ex_path @ [0]) [(0, ex_path), (6, [])] {#} [] = (Inr [ex_resolved], {#}) \<and>
   ({#} :: handle multiset) = {#}"
  using Enumerate.enum_interfaces_handles [OF ex_enum_loop] ex_enum_loop by simp

theorem get_hid_device_info_vector_empty_witness:
  "w_enum (ex_win\<lparr>w_enum := enum_store (\<lambda>_. [0])\<rparr>) = enum_store (\<lambda>_. [0]) \<and>
   create_file (w_hid (ex_win\<lparr>w_enum := enum_store (\<lambda>_. [0])\<rparr>)) [] 0 = None \<and>
   create_file (w_hid (ex_win\<lparr>w_enum := enum_store (\<lambda>_. [0])\<rparr>))
     (takeWhile (\<lambda>c. c \<noteq> 0) (w_beyond (ex_win\<lparr>w_enum := enum_store (\<lambda>_. [0])\<rparr>))) 0 = None \<and>
   get_hid_device_info_vector (ex_win\<lparr>w_enum := enum_store (\<lambda>_. [0])\<rparr>) {#} = Some (Inr [], {#})"
  using get_hid_device_info_vector_empty [of "ex_win\<lparr>w_enum := enum_store (\<lambda>_. [0])\<rparr>" "{#}"]
  by (simp add: ex_win_def ex_hid_def ex_path_def str_utf16_def)

theorem wchar_to_string_non_bmp_raw_witness:
  "0x10000 \<le> (0x1F600 :: nat) \<and> is_scalar 0x1F600 \<and>
   wchar_to_string (Some (encode_char_utf16 0x1F600 @ [0])) = Inr (WRaw (encode_char_utf16 0x1F600)) \<and>
   u16str_to_wstring (encode_char_utf16 0x1F600) = WString [0x1F600]"
  using CBackend.wchar_to_string_non_bmp_raw [of "0x1F600" "[]"] by (simp add: is_scalar_def)

theorem check_size_negative_witness:
  "sint (-2 :: i32) < -1 \<and> (\<exists>n. check_size ex_c 9 (-2) = Inr (Inr n) \<and> 2 ^ 63 \<le> unat n)"
  using CBackend.check_size_negative [where res = "-2" and c = ex_c and d = 9] by simp

theorem get_string_slice_panic_witness:
  "c_hid_get_string ex_c QProduct 9 (word_of_nat STRING_BUF_LEN) = (200, []) \<and>
   (sint (200 :: i32) < -1 \<or> 128 < sint (200 :: i32)) \<and> get_string ex_c 9 QProduct = Inl SliceIndexOutOfRange"
  using CBackend.get_string_slice_panic [of ex_c QProduct 9 200 "[]"] by (simp add: ex_c_def)

theorem get_string_ignores_length_witness:
  "c_hid_get_string ex_c QManufacturer 9 (word_of_nat STRING_BUF_LEN) = (0, str_utf16 ''Acme'' @ [0]) \<and>
   0 \<le> sint (0 :: i32) \<and> sint (0 :: i32) \<le> 128 \<and>
   get_string ex_c 9 QManufacturer = Inr (Inr (Some [65, 99, 109, 101]))"
proof -
  have h: "c_hid_get_string ex_c QManufacturer 9 (word_of_nat STRING_BUF_LEN) = (0, str_utf16 ''Acme'' @ [0])"
    by (simp add: ex_c_def)
  have "get_string ex_c 9 QManufacturer =
      pbind (wchar_to_string (Some (overlay (str_utf16 ''Acme'' @ [0]) (replicate STRING_BUF_LEN 0) @ c_stack_beyond ex_c)))
        (\<lambda>w. Inr (Inr (wstr_opt w)))"
    using CBackend.get_string_ignores_length [OF h] by simp
  also have "\<dots> = Inr (Inr (Some [65, 99, 109, 101]))"
    by (simp add: ex_c_def wchar_eval overlay_def STRING_BUF_LEN_def str_utf16_def wstr_opt_def)
  finally show ?thesis using h by simp
qed

theorem test_lt_closure_panics_iff_witness:
  "test_lt ex_c_quiet (Some [ex_rec]) = Inl UnwrapCheckError \<and> test_lt ex_c (Some [ex_rec]) = Inr 9"
proof -
  have "hid_api_open ex_c_quiet (vendor_id ex_rec) (product_id ex_rec) = Inr (Inr 9) \<and>
        device_check_error ex_c_quiet 9 = Inr (Inl HidApiErrorEmpty)"
    by (simp add: hid_api_open_def open_result_def ex_c_quiet_def ex_c_def ex_rec_def device_check_error_def
        wchar_to_string_def error_of_message_def)
  then have "test_lt ex_c_quiet (Some [ex_rec]) = Inl UnwrapCheckError"
    using ExampleLifetime.test_lt_closure_panics_iff [of ex_c_quiet ex_rec "[]"] by blast
  moreover have "test_lt ex_c (Some [ex_rec]) = Inr 9"
    by (simp add: test_lt_def check_error_closure_def hid_api_open_def open_result_def ex_c_def ex_rec_def
        device_check_error_def wchar_eval error_of_message_def str_utf16_def)
  ultimately show ?thesis by simp
qed

theorem drop_closes_open_device_witness:
  "life_reachable ex_c ({#9#}, {#from_raw 9#}) \<and> from_raw 9 \<in># {#from_raw 9#} \<and>
   hd_ptr (from_raw 9) \<in># {#9#} \<and> size (drop_hid_device {#9#} (from_raw 9)) = 0"
  using DeviceLifecycle.drop_closes_open_device [OF ex_life_reachable, of "from_raw 9"] ex_life_reachable by simp

theorem life_reachable_closes_all_witness:
  "life_reachable ex_c ({#9#}, {#from_raw 9#}) \<and> (life_step ex_c)\<^sup>*\<^sup>* ({#9#}, {#from_raw 9#}) ({#}, {#})"
  by (rule conjI [OF ex_life_reachable DeviceLifecycle.life_reachable_closes_all [OF ex_life_reachable]])



theorem get_internal_info_identity_witness:
  "get_internal_info (store_api ex_tree) ex_path (ex_rec\<lparr>path := []\<rparr>) = Inr (Some (), ex_resolved\<lparr>path := []\<rparr>) \<and>
   path (ex_resolved\<lparr>path := []\<rparr>) = path (ex_rec\<lparr>path := []\<rparr>) \<and>
   vendor_id (ex_resolved\<lparr>path := []\<rparr>) = vendor_id (ex_rec\<lparr>path := []\<rparr>) \<and>
   product_id (ex_resolved\<lparr>path := []\<rparr>) = product_id (ex_rec\<lparr>path := []\<rparr>) \<and>
   usage_page (ex_resolved\<lparr>path := []\<rparr>) = usage_page (ex_rec\<lparr>path := []\<rparr>) \<and>
   usage (ex_resolved\<lparr>path := []\<rparr>) = usage (ex_rec\<lparr>path := []\<rparr>)"
  by (rule conjI [OF ex_internal Enumerate.get_internal_info_identity [OF ex_internal]])

theorem hid_api_open_serial_bmp_witness:
  "list_all (\<lambda>ch. ch < 0x10000) [65, 0, 66 :: nat] \<and>
   hid_api_open_serial ex_c 1 2 [65, 0, 66] =
     open_result ex_c (c_hid_open ex_c 1 2 (Some (encode_utf16 (takeWhile (\<lambda>ch. ch \<noteq> 0) [65, 0, 66]))))"
proof -
  have h: "list_all (\<lambda>ch. ch < 0x10000) [65, 0, 66 :: nat]" by simp
  show ?thesis
    by (rule conjI [OF h CBackend.hid_api_open_serial_bmp [OF h]])
qed

theorem get_string_short_write_witness:
  "c_hid_get_string ex_c QManufacturer 9 (word_of_nat STRING_BUF_LEN) = (0, str_utf16 ''Acme'' @ [0]) \<and>
   length (str_utf16 ''Acme'' @ [0]) < STRING_BUF_LEN \<and> 0 \<le> sint (0 :: i32) \<and> sint (0 :: i32) \<le> 128 \<and>
   get_string ex_c 9 QManufacturer =
     (let us = takeWhile (\<lambda>u. u \<noteq> 0) (str_utf16 ''Acme'' @ [0])
      in Inr (Inr (if list_all (\<lambda>u. \<not> is_surrogate u) us then Some (map unat us) else None)))"
proof -
  have h1: "c_hid_get_string ex_c QManufacturer 9 (word_of_nat STRING_BUF_LEN) = (0, str_utf16 ''Acme'' @ [0])"
    by (simp add: ex_c_def)
  have h2: "length (str_utf16 ''Acme'' @ [0]) < STRING_BUF_LEN"
    by (simp add: str_utf16_def STRING_BUF_LEN_def)
  have h3: "0 \<le> sint (0 :: i32)" and h4: "sint (0 :: i32) \<le> 128" by simp_all
  show ?thesis
    by (rule conjI [OF h1 conjI [OF h2 conjI [OF h3 conjI [OF h4 CBackend.get_string_short_write [OF h1 h2 h3 h4]]]]])
qed

end
